theory Spec2Isabelle
  imports Main "HOL-Library.Word"
begin

unbundle bit_operations_syntax

section \<open>Message taxonomy and severity filter (dwarflint.c, lines 96-289)\<close>

text \<open>
  \<open>enum message_category\<close> is a bit mask; its values are kept as 32-bit words.
\<close>

type_synonym message_category = "32 word"

definition mc_none :: message_category where "mc_none = 0"
definition mc_impact_1 :: message_category where "mc_impact_1 = 0x1"
definition mc_impact_2 :: message_category where "mc_impact_2 = 0x2"
definition mc_impact_3 :: message_category where "mc_impact_3 = 0x4"
definition mc_impact_4 :: message_category where "mc_impact_4 = 0x8"
definition mc_acc_bloat :: message_category where "mc_acc_bloat = 0x10"
definition mc_acc_suboptimal :: message_category where "mc_acc_suboptimal = 0x20"
definition mc_error :: message_category where "mc_error = 0x40"
definition mc_leb128 :: message_category where "mc_leb128 = 0x100"
definition mc_abbrevs :: message_category where "mc_abbrevs = 0x200"
definition mc_die_rel_sib :: message_category where "mc_die_rel_sib = 0x1000"
definition mc_die_rel_child :: message_category where "mc_die_rel_child = 0x2000"
definition mc_die_rel_ref :: message_category where "mc_die_rel_ref = 0x4000"
definition mc_die_other :: message_category where "mc_die_other = 0x8000"
definition mc_strings :: message_category where "mc_strings = 0x10000"
definition mc_aranges :: message_category where "mc_aranges = 0x20000"
definition mc_elf :: message_category where "mc_elf = 0x40000"
definition mc_pubnames :: message_category where "mc_pubnames = 0x80000"
definition mc_other :: message_category where "mc_other = 0x100000"
definition mc_all :: message_category where "mc_all = 0xffff00"

lemmas mc_defs =
  mc_none_def mc_impact_1_def mc_impact_2_def mc_impact_3_def mc_impact_4_def
  mc_acc_bloat_def mc_acc_suboptimal_def mc_error_def mc_leb128_def mc_abbrevs_def
  mc_die_rel_sib_def mc_die_rel_child_def mc_die_rel_ref_def mc_die_other_def
  mc_strings_def mc_aranges_def mc_elf_def mc_pubnames_def mc_other_def mc_all_def

record message_criteria =
  accept :: message_category
  reject :: message_category

definition accept_message :: "message_criteria \<Rightarrow> message_category \<Rightarrow> bool" where
  "accept_message crit cat \<longleftrightarrow> (accept crit AND cat) \<noteq> 0 \<and> (reject crit AND cat) = 0"

text \<open>
  A printed line: the prefix (\<open>error: \<close>, \<open>warning: \<close> or none, for what is printed
  outside the message functions), the format text and the numeric arguments in print
  order.  String arguments (\<open>%s\<close>) are spliced into the text.
\<close>

datatype severity = Sev_error | Sev_warning | Sev_none

type_synonym printed = "severity \<times> string \<times> 64 word list"

text \<open>
  The process-wide state: the two criteria, the \<open>unsigned\<close> error counter, the two
  option flags and what has been written to standard output.
\<close>

record lint_state =
  warning_criteria :: message_criteria
  error_criteria :: message_criteria
  error_count :: "32 word"
  tolerate_nodebug :: bool
  be_quiet :: bool
  stdout :: "printed list"

definition initial_state :: lint_state where
  "initial_state =
     \<lparr>warning_criteria = \<lparr>accept = mc_all AND NOT mc_strings, reject = mc_none\<rparr>,
      error_criteria = \<lparr>accept = mc_impact_4 OR mc_error, reject = mc_none\<rparr>,
      error_count = 0, tolerate_nodebug = False, be_quiet = False, stdout = []\<rparr>"

definition check_category :: "message_category \<Rightarrow> lint_state \<Rightarrow> bool" where
  "check_category cat s = accept_message (warning_criteria s) cat"

definition verror :: "string \<Rightarrow> 64 word list \<Rightarrow> lint_state \<Rightarrow> lint_state" where
  "verror format ap s =
     s\<lparr>stdout := stdout s @ [(Sev_error, format, ap)], error_count := error_count s + 1\<rparr>"

definition vwarning :: "string \<Rightarrow> 64 word list \<Rightarrow> lint_state \<Rightarrow> lint_state" where
  "vwarning format ap s =
     s\<lparr>stdout := stdout s @ [(Sev_warning, format, ap)], error_count := error_count s + 1\<rparr>"

definition vmessage ::
  "message_category \<Rightarrow> string \<Rightarrow> 64 word list \<Rightarrow> lint_state \<Rightarrow> lint_state" where
  "vmessage category format ap s =
     (if accept_message (warning_criteria s) category
      then (if accept_message (error_criteria s) category
            then verror format ap s
            else vwarning format ap s)
      else s)"

definition wr_error :: "string \<Rightarrow> 64 word list \<Rightarrow> lint_state \<Rightarrow> lint_state" where
  "wr_error format ap s = verror format ap s"

definition wr_warning :: "string \<Rightarrow> 64 word list \<Rightarrow> lint_state \<Rightarrow> lint_state" where
  "wr_warning format ap s = vwarning format ap s"

definition message ::
  "message_category \<Rightarrow> string \<Rightarrow> 64 word list \<Rightarrow> lint_state \<Rightarrow> lint_state" where
  "message category format ap s = vmessage category format ap s"

definition format_padding_message ::
  "message_category \<Rightarrow> 64 word \<Rightarrow> 64 word \<Rightarrow> string \<Rightarrow> string \<Rightarrow> 64 word list
     \<Rightarrow> lint_state \<Rightarrow> lint_state" where
  "format_padding_message category start end' kind format ap s =
     (if \<not> accept_message (warning_criteria s) category then s
      else message category (format @ '': 0x%lx..0x%lx: '' @ kind @ ''.\<newline>'')
             (ap @ [start, end']) s)"

definition format_leb128_message ::
  "int \<Rightarrow> string \<Rightarrow> string \<Rightarrow> 64 word list \<Rightarrow> lint_state \<Rightarrow> lint_state" where
  "format_leb128_message st format what ap s =
     (let category = mc_leb128 OR mc_acc_bloat OR mc_impact_3 in
      if st = 0 \<or> (st > 0 \<and> \<not> accept_message (warning_criteria s) category) then s
      else if st < 0 then wr_error (format @ '': can't read '' @ what @ ''.\<newline>'') ap s
      else if st > 0
        then message category
               (format @ '': unnecessarily long encoding of '' @ what @ ''.\<newline>'') ap s
      else s)"

definition vmessage_padding_0 ::
  "message_category \<Rightarrow> 64 word \<Rightarrow> 64 word \<Rightarrow> string \<Rightarrow> 64 word list
     \<Rightarrow> lint_state \<Rightarrow> lint_state" where
  "vmessage_padding_0 category start end' format ap s =
     format_padding_message (category OR mc_acc_bloat OR mc_impact_1) start end'
       ''unnecessary padding with zero bytes'' format ap s"

definition message_padding_0 ::
  "message_category \<Rightarrow> 64 word \<Rightarrow> 64 word \<Rightarrow> string \<Rightarrow> 64 word list
     \<Rightarrow> lint_state \<Rightarrow> lint_state" where
  "message_padding_0 category start end' format ap s =
     vmessage_padding_0 category start end' format ap s"

definition message_padding_n0 ::
  "message_category \<Rightarrow> 64 word \<Rightarrow> 64 word \<Rightarrow> string \<Rightarrow> 64 word list
     \<Rightarrow> lint_state \<Rightarrow> lint_state" where
  "message_padding_n0 category start end' format ap s =
     format_padding_message (category OR mc_acc_bloat OR mc_impact_2) start end'
       ''unreferenced non-zero bytes'' format ap s"

text \<open>The value \<open>main\<close> returns: \<open>return error_count != 0;\<close> (line 368).\<close>

definition main_return :: "lint_state \<Rightarrow> int" where
  "main_return s = (if error_count s \<noteq> 0 then 1 else 0)"

text \<open>\<open>parse_opt\<close> (lines 372-405): the four options that change the state.\<close>

datatype option_key = ARGP_strict | ARGP_gnu | Key_i | Key_q

fun parse_opt :: "option_key \<Rightarrow> lint_state \<Rightarrow> lint_state" where
  "parse_opt ARGP_strict s =
     s\<lparr>warning_criteria :=
         (warning_criteria s)\<lparr>accept := accept (warning_criteria s) OR mc_strings\<rparr>\<rparr>"
| "parse_opt ARGP_gnu s =
     s\<lparr>warning_criteria :=
         (warning_criteria s)\<lparr>reject := reject (warning_criteria s) OR mc_acc_bloat\<rparr>\<rparr>"
| "parse_opt Key_i s =
     s\<lparr>warning_criteria :=
         (warning_criteria s)\<lparr>reject := reject (warning_criteria s) OR mc_elf\<rparr>,
       tolerate_nodebug := True\<rparr>"
| "parse_opt Key_q s = s\<lparr>be_quiet := True\<rparr>"

section \<open>Bounds-checked reading (dwarflint.c, lines 446-475 and 686-901)\<close>

text \<open>
  \<open>struct read_ctx\<close>: the three pointers are 64-bit addresses, \<open>mem\<close> is the read-only
  memory they point into, and \<open>other_byte_order\<close> is the one field of \<open>dbg\<close> the reads
  consult.
\<close>

record read_ctx =
  mem :: "64 word \<Rightarrow> 8 word"
  other_byte_order :: bool
  ptr :: "64 word"
  begin' :: "64 word"
  end' :: "64 word"

record Elf_Data =
  d_buf :: "64 word"
  d_size :: "64 word"

definition read_ctx_init_sub ::
  "(64 word \<Rightarrow> 8 word) \<Rightarrow> bool \<Rightarrow> 64 word \<Rightarrow> 64 word \<Rightarrow> read_ctx" where
  "read_ctx_init_sub m obo b e =
     \<lparr>mem = m, other_byte_order = obo, ptr = b, begin' = b, end' = e\<rparr>"

definition read_ctx_init :: "(64 word \<Rightarrow> 8 word) \<Rightarrow> bool \<Rightarrow> Elf_Data \<Rightarrow> read_ctx" where
  "read_ctx_init m obo data = read_ctx_init_sub m obo (d_buf data) (d_buf data + d_size data)"

definition read_ctx_get_offset :: "read_ctx \<Rightarrow> 64 word" where
  "read_ctx_get_offset ctx = ptr ctx - begin' ctx"

definition read_ctx_need_data :: "read_ctx \<Rightarrow> 64 word \<Rightarrow> bool" where
  "read_ctx_need_data ctx length' =
     (let p = ptr ctx + length' in p \<le> end' ctx \<and> (length' = 0 \<or> p > ptr ctx))"

text \<open>
  Every read returns the value written through its out-parameter (\<open>None\<close> when the C
  function returns \<open>false\<close>) together with the cursor as the call leaves it.
\<close>

definition read_ctx_read_ubyte :: "read_ctx \<Rightarrow> 8 word option \<times> read_ctx" where
  "read_ctx_read_ubyte ctx =
     (if \<not> read_ctx_need_data ctx 1 then (None, ctx)
      else (Some (mem ctx (ptr ctx)), ctx\<lparr>ptr := ptr ctx + 1\<rparr>))"

text \<open>
  Modelled from the spec: the macros \<open>read_2ubyte_unaligned_inc\<close>,
  \<open>read_4ubyte_unaligned_inc\<close> and \<open>read_8ubyte_unaligned_inc\<close> of libdwP.h are not
  under src/.  They are an unaligned read of the given width in the section's byte order
  (the host is little-endian; \<open>other_byte_order\<close> swaps the bytes) that advances the
  pointer by the width.
\<close>

fun le_value :: "8 word list \<Rightarrow> 64 word" where
  "le_value [] = 0"
| "le_value (b # bs) = ucast b OR push_bit 8 (le_value bs)"

definition bytes_at :: "read_ctx \<Rightarrow> nat \<Rightarrow> 8 word list" where
  "bytes_at ctx n = map (\<lambda>i. mem ctx (ptr ctx + of_nat i)) [0..<n]"

definition read_unaligned_inc :: "nat \<Rightarrow> read_ctx \<Rightarrow> 64 word \<times> read_ctx" where
  "read_unaligned_inc n ctx =
     (le_value (if other_byte_order ctx then rev (bytes_at ctx n) else bytes_at ctx n),
      ctx\<lparr>ptr := ptr ctx + of_nat n\<rparr>)"

text \<open>
  \<open>read_ctx_read_uleb128\<close> (lines 731-757).  The loop carries \<open>result\<close> and \<open>shift\<close>;
  \<open>size\<close> is \<open>8 * sizeof (result) = 64\<close>.  The result is the returned status, the value
  stored through \<open>ret\<close> (if any) and the cursor.
\<close>

function uleb128_loop ::
  "read_ctx \<Rightarrow> 64 word \<Rightarrow> nat \<Rightarrow> int \<times> 64 word option \<times> read_ctx" where
  "uleb128_loop ctx result shift =
     (case read_ctx_read_ubyte ctx of
        (None, ctx') \<Rightarrow> (- 1, None, ctx')
      | (Some byte, ctx') \<Rightarrow>
          (if shift + 7 > 64 then (- 1, None, ctx')
           else if byte AND 0x80 = 0
             then ((if byte AND 0x7f = 0 \<and> shift > 0 then 1 else 0),
                   Some (result OR push_bit shift (ucast (byte AND 0x7f))), ctx')
           else uleb128_loop ctx' (result OR push_bit shift (ucast (byte AND 0x7f)))
                  (shift + 7)))"
  by pat_completeness auto
termination
  by (relation "measure (\<lambda>(ctx, result, shift). 65 - shift)") auto

declare uleb128_loop.simps [simp del]

definition read_ctx_read_uleb128 :: "read_ctx \<Rightarrow> int \<times> 64 word option \<times> read_ctx" where
  "read_ctx_read_uleb128 ctx = uleb128_loop ctx 0 0"

text \<open>
  \<open>read_ctx_read_sleb128\<close> (lines 771-804).  \<open>sign\<close> is the bit 0x40 of the byte read in
  the previous round when \<open>zero_tail\<close> is computed.  \<open>result\<close> is an \<open>int64_t\<close>, kept as
  its 64-bit two's complement pattern (\<open>sint\<close> reads it).
\<close>

function sleb128_loop ::
  "read_ctx \<Rightarrow> 64 word \<Rightarrow> nat \<Rightarrow> bool \<Rightarrow> int \<times> 64 word option \<times> read_ctx" where
  "sleb128_loop ctx result shift sign =
     (case read_ctx_read_ubyte ctx of
        (None, ctx') \<Rightarrow> (- 1, None, ctx')
      | (Some byte, ctx') \<Rightarrow>
          (if byte AND 0x80 = 0
           then ((if shift > 0 \<and> ((byte AND 0x7f = 0x7f \<and> sign) \<or> (byte AND 0x7f = 0 \<and> \<not> sign))
                  then 1 else 0),
                 Some (if shift + 7 < 64 \<and> byte AND 0x40 \<noteq> 0
                       then result OR push_bit shift (ucast (byte AND 0x7f))
                              OR - push_bit (shift + 7) 1
                       else result OR push_bit shift (ucast (byte AND 0x7f))),
                 ctx')
           else if shift + 7 > 64 then (- 1, None, ctx')
           else sleb128_loop ctx' (result OR push_bit shift (ucast (byte AND 0x7f)))
                  (shift + 7) (byte AND 0x40 \<noteq> 0)))"
  by pat_completeness auto
termination
  by (relation "measure (\<lambda>(ctx, result, shift, sign). 65 - shift)") auto

declare sleb128_loop.simps [simp del]

definition read_ctx_read_sleb128 :: "read_ctx \<Rightarrow> int \<times> 64 word option \<times> read_ctx" where
  "read_ctx_read_sleb128 ctx = sleb128_loop ctx 0 0 False"

definition read_ctx_read_2ubyte :: "read_ctx \<Rightarrow> 16 word option \<times> read_ctx" where
  "read_ctx_read_2ubyte ctx =
     (if \<not> read_ctx_need_data ctx 2 then (None, ctx)
      else (case read_unaligned_inc 2 ctx of (v, ctx') \<Rightarrow> (Some (ucast v), ctx')))"

definition read_ctx_read_4ubyte :: "read_ctx \<Rightarrow> 32 word option \<times> read_ctx" where
  "read_ctx_read_4ubyte ctx =
     (if \<not> read_ctx_need_data ctx 4 then (None, ctx)
      else (case read_unaligned_inc 4 ctx of (v, ctx') \<Rightarrow> (Some (ucast v), ctx')))"

definition read_ctx_read_8ubyte :: "read_ctx \<Rightarrow> 64 word option \<times> read_ctx" where
  "read_ctx_read_8ubyte ctx =
     (if \<not> read_ctx_need_data ctx 8 then (None, ctx)
      else (case read_unaligned_inc 8 ctx of (v, ctx') \<Rightarrow> (Some v, ctx')))"

definition read_ctx_read_offset :: "read_ctx \<Rightarrow> bool \<Rightarrow> 64 word option \<times> read_ctx" where
  "read_ctx_read_offset ctx dwarf64 =
     (if dwarf64 then read_ctx_read_8ubyte ctx
      else (case read_ctx_read_4ubyte ctx of
              (None, ctx') \<Rightarrow> (None, ctx')
            | (Some v, ctx') \<Rightarrow> (Some (ucast v), ctx')))"

definition read_ctx_read_var :: "read_ctx \<Rightarrow> int \<Rightarrow> 64 word option \<times> read_ctx" where
  "read_ctx_read_var ctx width =
     (if width = 4 \<or> width = 8 then read_ctx_read_offset ctx (width = 8)
      else if width = 2 then
        (case read_ctx_read_2ubyte ctx of
           (None, ctx') \<Rightarrow> (None, ctx')
         | (Some val, ctx') \<Rightarrow> (Some (ucast val), ctx'))
      else if width = 1 then
        (case read_ctx_read_ubyte ctx of
           (None, ctx') \<Rightarrow> (None, ctx')
         | (Some val, ctx') \<Rightarrow> (Some (ucast val), ctx'))
      else (None, ctx))"

definition read_ctx_skip :: "read_ctx \<Rightarrow> 64 word \<Rightarrow> bool \<times> read_ctx" where
  "read_ctx_skip ctx len =
     (if \<not> read_ctx_need_data ctx len then (False, ctx)
      else (True, ctx\<lparr>ptr := ptr ctx + len\<rparr>))"

definition read_ctx_eof :: "read_ctx \<Rightarrow> bool" where
  "read_ctx_eof ctx \<longleftrightarrow> \<not> read_ctx_need_data ctx 1"

text \<open>
  A section held in memory at address \<open>base\<close>: the memory image of a byte list, and the
  reader \<open>read_ctx_init\<close> builds over it.
\<close>

definition mem_of :: "64 word \<Rightarrow> 8 word list \<Rightarrow> 64 word \<Rightarrow> 8 word" where
  "mem_of base bs a = (if unat (a - base) < length bs then bs ! unat (a - base) else 0)"

definition section_ctx :: "64 word \<Rightarrow> 8 word list \<Rightarrow> read_ctx" where
  "section_ctx base bs =
     read_ctx_init (mem_of base bs) False \<lparr>d_buf = base, d_size = of_nat (length bs)\<rparr>"

subsection \<open>Facts about the reader\<close>

lemma unat_add_no_wrap:
  "unat (p::64 word) + unat n \<le> unat (e::64 word) \<Longrightarrow> unat (p + n) = unat p + unat n"
proof -
  assume a: "unat p + unat n \<le> unat e"
  have "unat e < 2 ^ LENGTH(64)" by (rule unsigned_less)
  with a have "unat p + unat n < 2 ^ LENGTH(64)" by linarith
  then show ?thesis by (simp only: unat_add_lem)
qed

lemma need_data_unat:
  "read_ctx_need_data ctx n \<longleftrightarrow> unat (ptr ctx) + unat n \<le> unat (end' ctx)"
proof
  assume "read_ctx_need_data ctx n"
  then have le: "ptr ctx + n \<le> end' ctx" and d: "n = 0 \<or> ptr ctx < ptr ctx + n"
    by (simp_all add: read_ctx_need_data_def Let_def)
  show "unat (ptr ctx) + unat n \<le> unat (end' ctx)"
  proof (cases "n = 0")
    case True
    with le show ?thesis by (simp add: word_le_nat_alt)
  next
    case False
    with d have "ptr ctx \<le> ptr ctx + n" by simp
    then have "unat (ptr ctx + n) = unat (ptr ctx) + unat n"
      by (simp only: no_olen_add_nat unat_add_lem)
    with le show ?thesis by (simp add: word_le_nat_alt)
  qed
next
  assume a: "unat (ptr ctx) + unat n \<le> unat (end' ctx)"
  then have eq: "unat (ptr ctx + n) = unat (ptr ctx) + unat n"
    by (rule unat_add_no_wrap)
  show "read_ctx_need_data ctx n"
  proof (cases "n = 0")
    case True
    with a show ?thesis by (simp add: read_ctx_need_data_def word_le_nat_alt)
  next
    case False
    then have "0 < unat n" by (simp add: unat_gt_0)
    with a eq False show ?thesis
      by (simp add: read_ctx_need_data_def Let_def word_le_nat_alt word_less_nat_alt)
  qed
qed

lemma need_data_1: "read_ctx_need_data ctx 1 \<longleftrightarrow> ptr ctx < end' ctx"
  by (simp add: need_data_unat word_less_nat_alt Suc_le_eq)

lemma word_succ_le: "(p::64 word) < e \<Longrightarrow> p < p + 1 \<and> p + 1 \<le> e"
proof -
  assume "p < e"
  then have a: "unat p + unat (1::64 word) \<le> unat e" by (simp add: word_less_nat_alt)
  from unat_add_no_wrap[OF a] a show ?thesis
    by (simp add: word_le_nat_alt word_less_nat_alt)
qed

lemma read_ubyte_cases:
  "read_ctx_read_ubyte ctx =
     (if ptr ctx < end' ctx then (Some (mem ctx (ptr ctx)), ctx\<lparr>ptr := ptr ctx + 1\<rparr>)
      else (None, ctx))"
  by (simp add: read_ctx_read_ubyte_def need_data_1)

lemma uleb128_loop_unfold:
  "uleb128_loop ctx r sh =
     (if ptr ctx < end' ctx then
        (if sh + 7 > 64 then (- 1, None, ctx\<lparr>ptr := ptr ctx + 1\<rparr>)
         else if mem ctx (ptr ctx) AND 0x80 = 0
           then ((if mem ctx (ptr ctx) AND 0x7f = 0 \<and> sh > 0 then 1 else 0),
                 Some (r OR push_bit sh (ucast (mem ctx (ptr ctx) AND 0x7f))),
                 ctx\<lparr>ptr := ptr ctx + 1\<rparr>)
         else uleb128_loop (ctx\<lparr>ptr := ptr ctx + 1\<rparr>)
                (r OR push_bit sh (ucast (mem ctx (ptr ctx) AND 0x7f))) (sh + 7))
      else (- 1, None, ctx))"
  by (subst uleb128_loop.simps) (simp add: read_ubyte_cases)



lemma uleb128_loop_adv:
  "uleb128_loop ctx r sh = (st, v, ctx') \<Longrightarrow>
     ctx' = ctx\<lparr>ptr := ptr ctx'\<rparr> \<and>
     (if ptr ctx < end' ctx then ptr ctx < ptr ctx' \<and> ptr ctx' \<le> end' ctx
      else ctx' = ctx \<and> st = - 1 \<and> v = None)"
proof (induction ctx r sh rule: uleb128_loop.induct)
  case (1 ctx result shift)
  let ?c = "ctx\<lparr>ptr := ptr ctx + 1\<rparr>"
  let ?b = "mem ctx (ptr ctx)"
  show ?case
  proof (cases "ptr ctx < end' ctx")
    case False
    with "1.prems" show ?thesis
      by (auto simp add: uleb128_loop_unfold[of ctx])
  next
    case True
    note s = word_succ_le[OF True]
    show ?thesis
    proof (cases "\<not> shift + 7 > 64 \<and> ?b AND 0x80 \<noteq> 0")
      case False
      with "1.prems" True s show ?thesis
        by (auto simp add: uleb128_loop_unfold[of ctx] split: if_splits)
    next
      case rec: True
      have r: "uleb128_loop ?c (result OR push_bit shift (ucast (?b AND 0x7f))) (shift + 7)
                     = (st, v, ctx')"
        using "1.prems"(1) True rec by (simp add: uleb128_loop_unfold[of ctx])
      have rd: "read_ctx_read_ubyte ctx = (Some ?b, ?c)"
        using True by (simp add: read_ubyte_cases)
      from rec have c1: "\<not> shift + 7 > 64" and c2: "?b AND 0x80 \<noteq> 0" by simp_all
      have ih: "ctx' = ?c\<lparr>ptr := ptr ctx'\<rparr> \<and>
          (if ptr ?c < end' ?c then ptr ?c < ptr ctx' \<and> ptr ctx' \<le> end' ?c
           else ctx' = ?c \<and> st = - 1 \<and> v = None)"
        by (rule "1.IH"[OF rd[symmetric] refl c1 c2 r])
      then have f: "ctx' = ctx\<lparr>ptr := ptr ctx'\<rparr>" by simp
      from ih s have "ptr ctx < ptr ctx' \<and> ptr ctx' \<le> end' ctx"
        by (auto split: if_splits)
      with f True show ?thesis by simp
    qed
  qed
qed

lemma sleb128_loop_unfold:
  "sleb128_loop ctx r sh sign =
     (if ptr ctx < end' ctx then
        (if mem ctx (ptr ctx) AND 0x80 = 0
         then ((if sh > 0 \<and> ((mem ctx (ptr ctx) AND 0x7f = 0x7f \<and> sign)
                             \<or> (mem ctx (ptr ctx) AND 0x7f = 0 \<and> \<not> sign))
                then 1 else 0),
               Some (if sh + 7 < 64 \<and> mem ctx (ptr ctx) AND 0x40 \<noteq> 0
                     then r OR push_bit sh (ucast (mem ctx (ptr ctx) AND 0x7f))
                            OR - push_bit (sh + 7) 1
                     else r OR push_bit sh (ucast (mem ctx (ptr ctx) AND 0x7f))),
               ctx\<lparr>ptr := ptr ctx + 1\<rparr>)
         else if sh + 7 > 64 then (- 1, None, ctx\<lparr>ptr := ptr ctx + 1\<rparr>)
         else sleb128_loop (ctx\<lparr>ptr := ptr ctx + 1\<rparr>)
                (r OR push_bit sh (ucast (mem ctx (ptr ctx) AND 0x7f))) (sh + 7)
                (mem ctx (ptr ctx) AND 0x40 \<noteq> 0))
      else (- 1, None, ctx))"
  by (subst sleb128_loop.simps) (simp add: read_ubyte_cases)

lemma sleb128_loop_adv:
  "sleb128_loop ctx r sh sign = (st, v, ctx') \<Longrightarrow>
     ctx' = ctx\<lparr>ptr := ptr ctx'\<rparr> \<and>
     (if ptr ctx < end' ctx then ptr ctx < ptr ctx' \<and> ptr ctx' \<le> end' ctx
      else ctx' = ctx \<and> st = - 1 \<and> v = None)"
proof (induction ctx r sh sign rule: sleb128_loop.induct)
  case (1 ctx result shift sign)
  let ?c = "ctx\<lparr>ptr := ptr ctx + 1\<rparr>"
  let ?b = "mem ctx (ptr ctx)"
  show ?case
  proof (cases "ptr ctx < end' ctx")
    case False
    with "1.prems" show ?thesis
      by (auto simp add: sleb128_loop_unfold[of ctx])
  next
    case True
    note s = word_succ_le[OF True]
    show ?thesis
    proof (cases "?b AND 0x80 \<noteq> 0 \<and> \<not> shift + 7 > 64")
      case False
      with "1.prems" True s show ?thesis
        by (auto simp add: sleb128_loop_unfold[of ctx] split: if_splits)
    next
      case rec: True
      have r: "sleb128_loop ?c (result OR push_bit shift (ucast (?b AND 0x7f))) (shift + 7)
                  (?b AND 0x40 \<noteq> 0) = (st, v, ctx')"
        using "1.prems"(1) True rec by (simp add: sleb128_loop_unfold[of ctx])
      have rd: "read_ctx_read_ubyte ctx = (Some ?b, ?c)"
        using True by (simp add: read_ubyte_cases)
      from rec have c1: "\<not> shift + 7 > 64" and c2: "?b AND 0x80 \<noteq> 0" by simp_all
      have ih: "ctx' = ?c\<lparr>ptr := ptr ctx'\<rparr> \<and>
          (if ptr ?c < end' ?c then ptr ?c < ptr ctx' \<and> ptr ctx' \<le> end' ?c
           else ctx' = ?c \<and> st = - 1 \<and> v = None)"
        by (rule "1.IH"[OF rd[symmetric] refl c2 c1 r])
      then have f: "ctx' = ctx\<lparr>ptr := ptr ctx'\<rparr>" by simp
      from ih s have "ptr ctx < ptr ctx' \<and> ptr ctx' \<le> end' ctx"
        by (auto split: if_splits)
      with f True show ?thesis by simp
    qed
  qed
qed



lemma sleb128_loop_bloat:
  "sleb128_loop ctx r sh sign = (st, Some v, ctx') \<Longrightarrow>
     mem ctx (ptr ctx' - 1) AND 0x80 = 0 \<and>
     st = (if (sh > 0 \<or> ptr ctx' \<noteq> ptr ctx + 1) \<and>
              ((mem ctx (ptr ctx' - 1) AND 0x7f = 0x7f \<and>
                  (if ptr ctx' = ptr ctx + 1 then sign
                   else mem ctx (ptr ctx' - 2) AND 0x40 \<noteq> 0)) \<or>
               (mem ctx (ptr ctx' - 1) AND 0x7f = 0 \<and>
                  \<not> (if ptr ctx' = ptr ctx + 1 then sign
                     else mem ctx (ptr ctx' - 2) AND 0x40 \<noteq> 0)))
           then 1 else 0)"
proof (induction ctx r sh sign rule: sleb128_loop.induct)
  case (1 ctx result shift sign)
  let ?c = "ctx\<lparr>ptr := ptr ctx + 1\<rparr>"
  let ?b = "mem ctx (ptr ctx)"
  from "1.prems" have True: "ptr ctx < end' ctx"
    by (auto simp add: sleb128_loop_unfold[of ctx] split: if_splits)
  show ?case
  proof (cases "?b AND 0x80 = 0")
    case True
    with "1.prems" \<open>ptr ctx < end' ctx\<close> show ?thesis
      by (auto simp add: sleb128_loop_unfold[of ctx] split: if_splits)
  next
    case cont: False
    with "1.prems" True have c1: "\<not> shift + 7 > 64"
      by (auto simp add: sleb128_loop_unfold[of ctx] split: if_splits)
    have r: "sleb128_loop ?c (result OR push_bit shift (ucast (?b AND 0x7f))) (shift + 7)
                  (?b AND 0x40 \<noteq> 0) = (st, Some v, ctx')"
      using "1.prems"(1) True cont c1 by (simp add: sleb128_loop_unfold[of ctx])
    have rd: "read_ctx_read_ubyte ctx = (Some ?b, ?c)"
      using True by (simp add: read_ubyte_cases)
    note ih = "1.IH"[OF rd[symmetric] refl cont c1 r]
    from word_succ_le[OF True] have lt: "ptr ?c < end' ?c" "ptr ctx < ptr ctx + 1"
      using sleb128_loop_adv[OF r] by (auto split: if_splits)
    from sleb128_loop_adv[OF r] lt have gt: "ptr ctx + 1 < ptr ctx'" by simp
    then have ne: "ptr ctx' \<noteq> ptr ctx + 1" by simp
    have two: "ptr ctx' = ptr ctx + 1 + 1 \<Longrightarrow> ptr ctx' - 2 = ptr ctx" by simp
    from ih ne two show ?thesis
      by (auto split: if_splits)
  qed
qed





lemma bytes_at_2: "bytes_at ctx 2 = [mem ctx (ptr ctx), mem ctx (ptr ctx + 1)]"
  by (simp add: bytes_at_def numeral_eq_Suc)

lemma bytes_at_4:
  "bytes_at ctx 4 = [mem ctx (ptr ctx), mem ctx (ptr ctx + 1), mem ctx (ptr ctx + 2),
                     mem ctx (ptr ctx + 3)]"
  by (simp add: bytes_at_def numeral_eq_Suc)

lemma bytes_at_8:
  "bytes_at ctx 8 = [mem ctx (ptr ctx), mem ctx (ptr ctx + 1), mem ctx (ptr ctx + 2),
                     mem ctx (ptr ctx + 3), mem ctx (ptr ctx + 4), mem ctx (ptr ctx + 5),
                     mem ctx (ptr ctx + 6), mem ctx (ptr ctx + 7)]"
  by (simp add: bytes_at_def numeral_eq_Suc)

lemmas rd_eval = read_ctx_read_uleb128_def read_ctx_read_sleb128_def uleb128_loop.simps
  sleb128_loop.simps read_ctx_read_ubyte_def read_ctx_need_data_def section_ctx_def
  read_ctx_init_def read_ctx_init_sub_def mem_of_def read_ctx_read_2ubyte_def
  read_ctx_read_4ubyte_def read_ctx_read_8ubyte_def read_ctx_read_offset_def
  read_ctx_skip_def read_unaligned_inc_def bytes_at_2 bytes_at_4 bytes_at_8

subsection \<open>Claims about the reader\<close>




text \<open>
  Claim C2.  The ten-byte encoding of \<open>2^63\<close> is a well-formed ULEB128 encoding of a value
  that fits 64 bits; \<open>read_uleb128\<close> returns \<open>-1\<close> on it and stores nothing, because
  \<open>shift\<close> is 70 after the tenth byte and the test \<open>shift > size\<close> comes before the test
  of the continuation bit.  \<open>read_sleb128\<close>, where the test comes after it, accepts the
  same ten bytes.
\<close>

theorem uleb128_ten_bytes_refused:
  "fst (read_ctx_read_uleb128
          (section_ctx 0x1000 [0x80, 0x80, 0x80, 0x80, 0x80, 0x80, 0x80, 0x80, 0x80, 0x01]))
     = - 1 \<and>
   fst (snd (read_ctx_read_uleb128
          (section_ctx 0x1000 [0x80, 0x80, 0x80, 0x80, 0x80, 0x80, 0x80, 0x80, 0x80, 0x01])))
     = None \<and>
   fst (read_ctx_read_sleb128
          (section_ctx 0x1000 [0x80, 0x80, 0x80, 0x80, 0x80, 0x80, 0x80, 0x80, 0x80, 0x01]))
     = 0"
  by (simp add: rd_eval)

text \<open>
  Claim C9, amended.  A successful \<open>read_sleb128\<close> returns status \<open>+1\<close> exactly when the
  trailing group (the byte at \<open>ptr - 1\<close> on exit, the only one without the continuation
  bit) is not the first group and its payload is \<open>0x7f\<close> while bit 6 of the group before
  it is set, or \<open>0x00\<close> while bit 6 of the group before it is clear; otherwise it returns
  \<open>0\<close>.  The sign that counts is the one the preceding group already carries, not the
  sign of the decoded value.
\<close>

theorem sleb128_bloat_status:
  "read_ctx_read_sleb128 ctx = (st, Some v, ctx') \<Longrightarrow>
     mem ctx (ptr ctx' - 1) AND 0x80 = 0 \<and> (st = 0 \<or> st = 1) \<and>
     (st = 1) =
       (ptr ctx' \<noteq> ptr ctx + 1 \<and>
        ((mem ctx (ptr ctx' - 1) AND 0x7f = 0x7f \<and> mem ctx (ptr ctx' - 2) AND 0x40 \<noteq> 0) \<or>
         (mem ctx (ptr ctx' - 1) AND 0x7f = 0 \<and> mem ctx (ptr ctx' - 2) AND 0x40 = 0)))"
  unfolding read_ctx_read_sleb128_def
  by (drule sleb128_loop_bloat) (auto split: if_splits)

theorem sleb128_bloat_status_witness:
  "read_ctx_read_sleb128 (section_ctx 0x1000 [0xff, 0x7f])
     = (1, Some (- 1), (section_ctx 0x1000 [0xff, 0x7f])\<lparr>ptr := 0x1002\<rparr>) \<and>
   mem (section_ctx 0x1000 [0xff, 0x7f]) (0x1002 - 1) AND 0x7f = 0x7f \<and>
   mem (section_ctx 0x1000 [0xff, 0x7f]) (0x1002 - 2) AND 0x40 \<noteq> 0"
proof -
  let ?c = "section_ctx 0x1000 [0xff, 0x7f]"
  have e: "read_ctx_read_sleb128 ?c = (1, Some (- 1), ?c\<lparr>ptr := 0x1002\<rparr>)"
    by (simp add: rd_eval)
  have z: "mem ?c (0x1002 - 1) AND 0x7f \<noteq> 0" by (simp add: rd_eval)
  from sleb128_bloat_status[OF e] z
  have "mem ?c (0x1002 - 1) AND 0x7f = 0x7f \<and> mem ?c (0x1002 - 2) AND 0x40 \<noteq> 0"
    by auto
  with e show ?thesis by simp
qed

text \<open>
  Claim C9 as stated fails: \<open>0x80 0x7f\<close> decodes to \<open>-128\<close>, a negative value whose
  trailing group is the second one and has payload \<open>0x7f\<close>, and the status is \<open>0\<close>.
\<close>

theorem sleb128_sign_fill_not_bloat:
  "fst (read_ctx_read_sleb128 (section_ctx 0x1000 [0x80, 0x7f])) = 0 \<and>
   fst (snd (read_ctx_read_sleb128 (section_ctx 0x1000 [0x80, 0x7f]))) = Some (- 128) \<and>
   sint (- 128 :: 64 word) < 0 \<and>
   ptr (snd (snd (read_ctx_read_sleb128 (section_ctx 0x1000 [0x80, 0x7f])))) = 0x1002 \<and>
   mem (section_ctx 0x1000 [0x80, 0x7f]) 0x1001 AND 0x7f = 0x7f"
  by (simp add: rd_eval)

section \<open>Claims about the message filter and the exit code\<close>

text \<open>
  Claim C5, amended.  Every message that is printed increments the error counter (an
  \<open>unsigned\<close>, so modulo \<open>2^32\<close>), whether it is printed with severity "error" or
  "warning"; a message the filter rejects prints nothing and leaves the counter as it
  was; \<open>wr_warning\<close> and \<open>wr_error\<close> both increment it; and \<open>main\<close> returns zero if and only
  if the counter is zero.
\<close>

theorem printed_messages_count:
  "error_count (message cat fmt ap s)
     = (if accept_message (warning_criteria s) cat then error_count s + 1 else error_count s) \<and>
   map fst (stdout (message cat fmt ap s))
     = (if accept_message (warning_criteria s) cat
        then map fst (stdout s)
               @ [if accept_message (error_criteria s) cat then Sev_error else Sev_warning]
        else map fst (stdout s)) \<and>
   error_count (wr_warning fmt ap s) = error_count s + 1 \<and>
   error_count (wr_error fmt ap s) = error_count s + 1 \<and>
   (main_return s = 0) = (error_count s = 0)"
  by (simp add: message_def vmessage_def verror_def vwarning_def wr_warning_def wr_error_def
      main_return_def)

theorem printed_messages_count_witness:
  "accept_message (warning_criteria initial_state) (mc_impact_2 OR mc_aranges) \<and>
   error_count (message (mc_impact_2 OR mc_aranges) ''note'' [] initial_state)
     = error_count initial_state + 1"
proof -
  have a: "accept_message (warning_criteria initial_state) (mc_impact_2 OR mc_aranges)"
    by (simp add: accept_message_def initial_state_def mc_defs)
  from printed_messages_count[of "mc_impact_2 OR mc_aranges" "''note''" "[]" initial_state] a
  show ?thesis by simp
qed

text \<open>
  Claim C5 as stated fails: under the default criteria one accepted message of severity
  "warning" leaves the counter at 1, and \<open>main\<close> returns 1.
\<close>

theorem warning_only_run_exits_nonzero:
  "stdout (message (mc_impact_2 OR mc_aranges) ''note'' [] initial_state)
     = [(Sev_warning, ''note'', [])] \<and>
   error_count (message (mc_impact_2 OR mc_aranges) ''note'' [] initial_state) = 1 \<and>
   main_return (message (mc_impact_2 OR mc_aranges) ''note'' [] initial_state) = 1"
  by (simp add: message_def vmessage_def verror_def vwarning_def main_return_def
      accept_message_def initial_state_def mc_defs)

text \<open>
  Claim C10.  \<open>wr_error\<close> prints its message with severity "error" and increments the
  error counter whatever the two criteria hold; \<open>message\<close> prints only what
  \<open>accept_message\<close> lets through under the warning criteria.
\<close>

theorem wr_error_unconditional:
  "stdout (wr_error fmt ap (s\<lparr>warning_criteria := w, error_criteria := e\<rparr>))
     = stdout s @ [(Sev_error, fmt, ap)] \<and>
   error_count (wr_error fmt ap (s\<lparr>warning_criteria := w, error_criteria := e\<rparr>))
     = error_count s + 1 \<and>
   stdout (message cat fmt ap s)
     = (if accept_message (warning_criteria s) cat
        then stdout s @ [(if accept_message (error_criteria s) cat then Sev_error
                          else Sev_warning, fmt, ap)]
        else stdout s)"
  by (simp add: message_def vmessage_def verror_def vwarning_def wr_error_def)

theorem wr_error_unconditional_witness:
  "stdout (wr_error ''fatal'' []
             (initial_state\<lparr>warning_criteria := \<lparr>accept = 0, reject = mc_all\<rparr>,
                            error_criteria := \<lparr>accept = 0, reject = mc_all\<rparr>\<rparr>))
     = [(Sev_error, ''fatal'', [])] \<and>
   stdout (message mc_abbrevs ''fatal'' []
             (initial_state\<lparr>warning_criteria := \<lparr>accept = 0, reject = mc_all\<rparr>,
                            error_criteria := \<lparr>accept = 0, reject = mc_all\<rparr>\<rparr>)) = []"
proof -
  have "\<not> accept_message \<lparr>accept = 0, reject = mc_all\<rparr> mc_abbrevs"
    by (simp add: accept_message_def)
  with wr_error_unconditional[where fmt = "''fatal''" and ap = "[]"
      and s = "initial_state\<lparr>warning_criteria := \<lparr>accept = 0, reject = mc_all\<rparr>,
                     error_criteria := \<lparr>accept = 0, reject = mc_all\<rparr>\<rparr>"
      and w = "\<lparr>accept = 0, reject = mc_all\<rparr>" and e = "\<lparr>accept = 0, reject = mc_all\<rparr>"
      and cat = mc_abbrevs]
  show ?thesis by (simp add: initial_state_def)
qed

section \<open>Abbreviation tables (dwarflint.c, lines 480-516 and 903-1168)\<close>

text \<open>
  Constants of libdw/dwarf.h and libdw/libdwP.h, which are not under src/; the values
  are those of the DWARF standard.
\<close>

definition DW_TAG_hi_user :: "64 word" where "DW_TAG_hi_user = 0xffff"
definition DW_AT_hi_user :: "64 word" where "DW_AT_hi_user = 0x3fff"
definition DW_AT_sibling :: "'a::len word" where "DW_AT_sibling = 0x01"
definition DW_CHILDREN_no :: "8 word" where "DW_CHILDREN_no = 0"
definition DW_CHILDREN_yes :: "8 word" where "DW_CHILDREN_yes = 1"
definition DW_FORM_addr :: "'a::len word" where "DW_FORM_addr = 0x01"
definition DW_FORM_block2 :: "'a::len word" where "DW_FORM_block2 = 0x03"
definition DW_FORM_block4 :: "'a::len word" where "DW_FORM_block4 = 0x04"
definition DW_FORM_data2 :: "'a::len word" where "DW_FORM_data2 = 0x05"
definition DW_FORM_data4 :: "'a::len word" where "DW_FORM_data4 = 0x06"
definition DW_FORM_data8 :: "'a::len word" where "DW_FORM_data8 = 0x07"
definition DW_FORM_string :: "'a::len word" where "DW_FORM_string = 0x08"
definition DW_FORM_block :: "'a::len word" where "DW_FORM_block = 0x09"
definition DW_FORM_block1 :: "'a::len word" where "DW_FORM_block1 = 0x0a"
definition DW_FORM_data1 :: "'a::len word" where "DW_FORM_data1 = 0x0b"
definition DW_FORM_flag :: "'a::len word" where "DW_FORM_flag = 0x0c"
definition DW_FORM_sdata :: "'a::len word" where "DW_FORM_sdata = 0x0d"
definition DW_FORM_strp :: "'a::len word" where "DW_FORM_strp = 0x0e"
definition DW_FORM_udata :: "'a::len word" where "DW_FORM_udata = 0x0f"
definition DW_FORM_ref_addr :: "'a::len word" where "DW_FORM_ref_addr = 0x10"
definition DW_FORM_ref1 :: "'a::len word" where "DW_FORM_ref1 = 0x11"
definition DW_FORM_ref2 :: "'a::len word" where "DW_FORM_ref2 = 0x12"
definition DW_FORM_ref4 :: "'a::len word" where "DW_FORM_ref4 = 0x13"
definition DW_FORM_ref8 :: "'a::len word" where "DW_FORM_ref8 = 0x14"
definition DW_FORM_ref_udata :: "'a::len word" where "DW_FORM_ref_udata = 0x15"
definition DW_FORM_indirect :: "'a::len word" where "DW_FORM_indirect = 0x16"
definition DWARF3_LENGTH_MIN_ESCAPE_CODE :: "32 word" where
  "DWARF3_LENGTH_MIN_ESCAPE_CODE = 0xffffff00"
definition DWARF3_LENGTH_64_BIT :: "32 word" where "DWARF3_LENGTH_64_BIT = 0xffffffff"

lemmas DW_defs =
  DW_TAG_hi_user_def DW_AT_hi_user_def DW_AT_sibling_def DW_CHILDREN_no_def
  DW_CHILDREN_yes_def DW_FORM_addr_def DW_FORM_block2_def DW_FORM_block4_def
  DW_FORM_data2_def DW_FORM_data4_def DW_FORM_data8_def DW_FORM_string_def
  DW_FORM_block_def DW_FORM_block1_def DW_FORM_data1_def DW_FORM_flag_def
  DW_FORM_sdata_def DW_FORM_strp_def DW_FORM_udata_def DW_FORM_ref_addr_def
  DW_FORM_ref1_def DW_FORM_ref2_def DW_FORM_ref4_def DW_FORM_ref8_def
  DW_FORM_ref_udata_def DW_FORM_indirect_def DWARF3_LENGTH_MIN_ESCAPE_CODE_def
  DWARF3_LENGTH_64_BIT_def

abbreviation PRI_ABBR :: string where "PRI_ABBR \<equiv> ''abbrev 0x%lx''"
abbreviation PRI_ABBR_ATTR :: string where
  "PRI_ABBR_ATTR \<equiv> ''abbrev 0x%lx, attribute 0x%lx''"

record abbrev_attrib =
  attr_offset :: "64 word"
  attr_name :: "16 word"
  attr_form :: "8 word"

record abbrev =
  code :: "64 word"
  tag :: "16 word"
  has_children :: bool
  used :: bool
  attribs :: "abbrev_attrib list"

text \<open>
  \<open>struct abbrev_table\<close>: the chain linked through \<open>next\<close> is a list, the head first.
\<close>

record abbrev_table =
  offset :: "64 word"
  abbr :: "abbrev list"

definition checked_read_uleb128 ::
  "read_ctx \<Rightarrow> string \<Rightarrow> string \<Rightarrow> 64 word list \<Rightarrow> lint_state
     \<Rightarrow> 64 word option \<times> read_ctx \<times> lint_state" where
  "checked_read_uleb128 ctx format what ap s =
     (case read_ctx_read_uleb128 ctx of
        (st, ret, ctx') \<Rightarrow>
          (if st \<ge> 0 then ret else None, ctx', format_leb128_message st format what ap s))"

definition checked_read_sleb128 ::
  "read_ctx \<Rightarrow> string \<Rightarrow> string \<Rightarrow> 64 word list \<Rightarrow> lint_state
     \<Rightarrow> 64 word option \<times> read_ctx \<times> lint_state" where
  "checked_read_sleb128 ctx format what ap s =
     (case read_ctx_read_sleb128 ctx of
        (st, ret, ctx') \<Rightarrow>
          (if st \<ge> 0 then ret else None, ctx', format_leb128_message st format what ap s))"

definition attrib_form_valid :: "64 word \<Rightarrow> bool" where
  "attrib_form_valid form \<longleftrightarrow> form > 0 \<and> form \<le> DW_FORM_indirect"

definition check_sibling_form :: "'a::len word \<Rightarrow> int" where
  "check_sibling_form form =
     (if form = DW_FORM_indirect \<or> form = DW_FORM_ref1 \<or> form = DW_FORM_ref2
         \<or> form = DW_FORM_ref4 \<or> form = DW_FORM_ref8 \<or> form = DW_FORM_ref_udata then 0
      else if form = DW_FORM_ref_addr then - 1
      else - 2)"

text \<open>
  The cursor has moved on inside the same region: what every successful read leaves.
  \<open>remaining\<close> is the measure the loops over a cursor decrease.
\<close>

definition remaining :: "read_ctx \<Rightarrow> nat" where
  "remaining ctx = unat (end' ctx - ptr ctx)"

definition moved_on :: "read_ctx \<Rightarrow> read_ctx \<Rightarrow> bool" where
  "moved_on ctx ctx' \<longleftrightarrow>
     ctx' = ctx\<lparr>ptr := ptr ctx'\<rparr> \<and> ptr ctx < ptr ctx' \<and> ptr ctx' \<le> end' ctx"

lemma moved_on_remaining: "moved_on ctx ctx' \<Longrightarrow> remaining ctx' < remaining ctx"
proof -
  assume m: "moved_on ctx ctx'"
  then have e: "end' ctx' = end' ctx" and lt: "ptr ctx < ptr ctx'" and le: "ptr ctx' \<le> end' ctx"
    by (auto simp: moved_on_def) (metis read_ctx.select_convs(5) read_ctx.surjective read_ctx.update_convs(3))
  from lt le have "ptr ctx \<le> end' ctx" by simp
  then have a: "unat (end' ctx - ptr ctx) = unat (end' ctx) - unat (ptr ctx)"
    by (simp add: unat_sub)
  from le have b: "unat (end' ctx - ptr ctx') = unat (end' ctx) - unat (ptr ctx')"
    by (simp add: unat_sub)
  from lt le a b e show ?thesis
    by (simp add: remaining_def word_less_nat_alt word_le_nat_alt)
qed

lemma moved_on_trans: "moved_on a b \<Longrightarrow> moved_on b c \<Longrightarrow> moved_on a c"
  by (cases a, cases b, cases c) (auto simp: moved_on_def)

lemma moved_on_fields:
  "moved_on ctx ctx' \<Longrightarrow>
     end' ctx' = end' ctx \<and> begin' ctx' = begin' ctx \<and> mem ctx' = mem ctx \<and>
     other_byte_order ctx' = other_byte_order ctx"
  by (cases ctx, cases ctx') (auto simp: moved_on_def)

lemma read_ubyte_moved_on:
  "read_ctx_read_ubyte ctx = (Some b, ctx') \<Longrightarrow> moved_on ctx ctx'"
  using word_succ_le[of "ptr ctx" "end' ctx"]
  by (auto simp: read_ubyte_cases moved_on_def split: if_splits)

lemma checked_read_uleb128_moved_on:
  "checked_read_uleb128 ctx format what ap s = (Some v, ctx', s') \<Longrightarrow> moved_on ctx ctx'"
proof -
  assume a: "checked_read_uleb128 ctx format what ap s = (Some v, ctx', s')"
  obtain st ret c where r: "uleb128_loop ctx 0 0 = (st, ret, c)"
    by (cases "uleb128_loop ctx 0 0") auto
  with a have "c = ctx'" "ret = Some v"
    by (auto simp: checked_read_uleb128_def read_ctx_read_uleb128_def split: if_splits)
  with uleb128_loop_adv[OF r] show ?thesis
    by (auto simp: moved_on_def split: if_splits)
qed

lemma checked_read_sleb128_moved_on:
  "checked_read_sleb128 ctx format what ap s = (Some v, ctx', s') \<Longrightarrow> moved_on ctx ctx'"
proof -
  assume a: "checked_read_sleb128 ctx format what ap s = (Some v, ctx', s')"
  obtain st ret c where r: "sleb128_loop ctx 0 0 False = (st, ret, c)"
    by (cases "sleb128_loop ctx 0 0 False") auto
  with a have "c = ctx'" "ret = Some v"
    by (auto simp: checked_read_sleb128_def read_ctx_read_sleb128_def split: if_splits)
  with sleb128_loop_adv[OF r] show ?thesis
    by (auto simp: moved_on_def split: if_splits)
qed

text \<open>
  \<open>abbrev_table_load\<close> (lines 932-1130).  The locals of one round of the outer loop
  that the inner loop over abbreviation codes reads and writes:
\<close>

record code_scan =
  abbr_off :: "64 word"
  abbr_code :: "64 word"
  prev_abbr_off :: "64 word"
  prev_abbr_code :: "64 word"
  zero_seq_off :: "64 word"

text \<open>
  The inner loop (lines 945-965).  \<open>section\<close> is a pointer that is either \<open>NULL\<close> or the
  head of \<open>section_chain\<close> (it is only ever assigned \<open>NULL\<close> or the table just pushed),
  so it is kept as the flag \<open>section \<noteq> NULL\<close>.  The first component of the result is
  \<open>False\<close> when the loop left through \<open>goto free_and_out\<close>.
\<close>

function read_abbrev_codes ::
  "read_ctx \<Rightarrow> lint_state \<Rightarrow> bool \<Rightarrow> code_scan
     \<Rightarrow> bool \<times> read_ctx \<times> lint_state \<times> bool \<times> code_scan" where
  "read_abbrev_codes ctx s section sc =
     (if read_ctx_eof ctx then (True, ctx, s, section, sc)
      else
        (case checked_read_uleb128 ctx PRI_ABBR ''abbrev code'' [read_ctx_get_offset ctx] s of
           (None, ctx', s') \<Rightarrow>
             (False, ctx', s', section, sc\<lparr>abbr_off := read_ctx_get_offset ctx\<rparr>)
         | (Some c, ctx', s') \<Rightarrow>
             (if c \<noteq> 0
              then (True, ctx', s', section,
                    sc\<lparr>abbr_off := read_ctx_get_offset ctx, abbr_code := c\<rparr>)
              else read_abbrev_codes ctx' s' False
                     (sc\<lparr>abbr_off := read_ctx_get_offset ctx, abbr_code := c,
                        zero_seq_off :=
                          (if prev_abbr_code sc = 0 \<and> zero_seq_off sc = - 1
                           then prev_abbr_off sc else zero_seq_off sc),
                        prev_abbr_code := c,
                        prev_abbr_off := read_ctx_get_offset ctx\<rparr>))))"
  by pat_completeness auto
termination
proof (relation "measure (\<lambda>(ctx, s, section, sc). remaining ctx)")
  show "wf (measure (\<lambda>(ctx, s, section, sc). remaining ctx))" by simp
next
  fix ctx :: read_ctx and s :: lint_state and sect :: bool and sc :: code_scan
    and x y x2 xa ya
  assume "(x, y) = checked_read_uleb128 ctx PRI_ABBR ''abbrev code'' [read_ctx_get_offset ctx] s"
    and "(xa, ya) = y" and "x = Some x2"
  then have "checked_read_uleb128 ctx PRI_ABBR ''abbrev code'' [read_ctx_get_offset ctx] s
               = (Some x2, xa, ya)" by simp
  then have "moved_on ctx xa" by (rule checked_read_uleb128_moved_on)
  then show "((xa, ya, False,
        sc\<lparr>abbr_off := read_ctx_get_offset ctx, abbr_code := x2,
           zero_seq_off :=
             if prev_abbr_code sc = 0 \<and> zero_seq_off sc = - 1 then prev_abbr_off sc
             else zero_seq_off sc,
           prev_abbr_code := x2, prev_abbr_off := read_ctx_get_offset ctx\<rparr>),
       ctx, s, sect, sc) \<in> measure (\<lambda>(ctx, s, section, sc). remaining ctx)"
    by (simp add: moved_on_remaining)
qed

declare read_abbrev_codes.simps [simp del]

lemma checked_read_uleb128_moved_on_sym:
  "(Some v, ctx', s') = checked_read_uleb128 ctx format what ap s \<Longrightarrow> moved_on ctx ctx'"
  by (rule checked_read_uleb128_moved_on) (rule sym)

lemma read_ubyte_moved_on_sym:
  "(Some b, ctx') = read_ctx_read_ubyte ctx \<Longrightarrow> moved_on ctx ctx'"
  by (rule read_ubyte_moved_on) (rule sym)

lemma moved_on_remaining2:
  "moved_on a b \<Longrightarrow> moved_on b c \<Longrightarrow> remaining c < remaining a"
  by (rule moved_on_remaining) (rule moved_on_trans)

text \<open>
  What the abbreviation loader does when it meets \<open>DW_AT_sibling\<close> (lines 1069-1102):
  the new value of \<open>sibling_attr\<close> and the messages.  The \<open>assert (attr_off > 0)\<close> cannot
  fail, the code, the tag and the children flag of the abbreviation precede every
  attribute.  The form name printed with \<open>%s\<close> is kept as the form number.
\<close>

definition abbrev_sibling_attr ::
  "64 word \<Rightarrow> 64 word \<Rightarrow> bool \<Rightarrow> 64 word \<Rightarrow> 64 word \<Rightarrow> lint_state
     \<Rightarrow> 64 word \<times> lint_state" where
  "abbrev_sibling_attr abbr_off' attr_off cur_has_children attrib_form sibling_attr s =
     (let (sibling_attr', s1) =
            (if sibling_attr \<noteq> 0
             then (sibling_attr,
                   wr_error (PRI_ABBR_ATTR
                       @ '': Another DW_AT_sibling attribute in one abbreviation. (First was 0x%lx.)\<newline>'')
                     [abbr_off', attr_off, sibling_attr] s)
             else (attr_off,
                   if \<not> cur_has_children
                   then message (mc_die_rel_sib OR mc_acc_bloat OR mc_impact_1)
                          (PRI_ABBR_ATTR
                             @ '': Excessive DW_AT_sibling attribute at childless abbrev.\<newline>'')
                          [abbr_off', attr_off] s
                   else s))
      in (sibling_attr',
          if check_sibling_form attrib_form = - 1
          then message (mc_die_rel_sib OR mc_impact_2)
                 (PRI_ABBR_ATTR @ '': DW_AT_sibling attribute with form DW_FORM_ref_addr.\<newline>'')
                 [abbr_off', attr_off] s1
          else if check_sibling_form attrib_form = - 2
          then wr_error
                 (PRI_ABBR_ATTR @ '': DW_AT_sibling attribute with non-reference form %s.\<newline>'')
                 [abbr_off', attr_off, attrib_form] s1
          else s1))"

text \<open>
  The attribute loop of one abbreviation (the \<open>do \<dots> while (!null_attrib)\<close> of lines
  1022-1108).  \<open>acc\<close> is \<open>cur->attribs\<close> so far; \<open>None\<close> is \<open>goto free_and_out\<close>.
\<close>

function read_abbrev_attribs ::
  "read_ctx \<Rightarrow> lint_state \<Rightarrow> 64 word \<Rightarrow> bool \<Rightarrow> 64 word \<Rightarrow> abbrev_attrib list
     \<Rightarrow> abbrev_attrib list option \<times> read_ctx \<times> lint_state" where
  "read_abbrev_attribs ctx s abbr_off' cur_has_children sibling_attr acc =
     (case checked_read_uleb128 ctx PRI_ABBR_ATTR ''attribute name''
             [abbr_off', read_ctx_get_offset ctx] s of
        (None, ctx1, s1) \<Rightarrow> (None, ctx1, s1)
      | (Some attrib_name, ctx1, s1) \<Rightarrow>
          (case checked_read_uleb128 ctx1 PRI_ABBR_ATTR ''attribute form''
                  [abbr_off', read_ctx_get_offset ctx] s1 of
             (None, ctx2, s2) \<Rightarrow> (None, ctx2, s2)
           | (Some attrib_form, ctx2, s2) \<Rightarrow>
               (if \<not> (attrib_name = 0 \<and> attrib_form = 0) \<and> attrib_name > DW_AT_hi_user
                then (None, ctx2,
                      wr_error (PRI_ABBR_ATTR @ '': invalid name 0x%lx.\<newline>'')
                        [abbr_off', read_ctx_get_offset ctx, attrib_name] s2)
                else if \<not> (attrib_name = 0 \<and> attrib_form = 0)
                        \<and> \<not> attrib_form_valid attrib_form
                then (None, ctx2,
                      wr_error (PRI_ABBR_ATTR @ '': invalid form 0x%lx.\<newline>'')
                        [abbr_off', read_ctx_get_offset ctx, attrib_form] s2)
                else
                  (case (if attrib_name = DW_AT_sibling
                         then abbrev_sibling_attr abbr_off' (read_ctx_get_offset ctx)
                                cur_has_children attrib_form sibling_attr s2
                         else (sibling_attr, s2)) of
                     (sibling_attr', s3) \<Rightarrow>
                       (if attrib_name = 0 \<and> attrib_form = 0
                        then (Some (acc @ [\<lparr>attr_offset = read_ctx_get_offset ctx,
                                             attr_name = ucast attrib_name,
                                             attr_form = ucast attrib_form\<rparr>]), ctx2, s3)
                        else read_abbrev_attribs ctx2 s3 abbr_off' cur_has_children
                               sibling_attr'
                               (acc @ [\<lparr>attr_offset = read_ctx_get_offset ctx,
                                        attr_name = ucast attrib_name,
                                        attr_form = ucast attrib_form\<rparr>]))))))"
  by pat_completeness auto
termination
  apply (relation "measure (\<lambda>(ctx, s, abbr_off', cur_has_children, sibling_attr, acc).
                     remaining ctx)")
   apply simp
  apply (auto dest!: checked_read_uleb128_moved_on_sym intro: moved_on_remaining2)
  done

declare read_abbrev_attribs.simps [simp del]

lemma read_abbrev_codes_moved:
  "read_abbrev_codes ctx s sect sc = (ok, ctx', s', sect', sc') \<Longrightarrow>
     ctx' = ctx \<or> moved_on ctx ctx'"
proof (induction ctx s sect sc rule: read_abbrev_codes.induct)
  case (1 ctx s sect sc)
  show ?case
  proof (cases "read_ctx_eof ctx")
    case True
    with "1.prems" show ?thesis by (simp add: read_abbrev_codes.simps[of ctx])
  next
    case False
    obtain r c1 s1 where rd: "checked_read_uleb128 ctx PRI_ABBR ''abbrev code''
        [read_ctx_get_offset ctx] s = (r, c1, s1)"
      by (cases "checked_read_uleb128 ctx PRI_ABBR ''abbrev code'' [read_ctx_get_offset ctx] s")
        auto
    show ?thesis
    proof (cases r)
      case None
      with "1.prems" False rd show ?thesis
        by (auto simp add: read_abbrev_codes.simps[of ctx]
            checked_read_uleb128_def read_ctx_read_uleb128_def
            split: prod.splits if_splits dest!: uleb128_loop_adv)
          (auto simp: moved_on_def)
    next
      case (Some c)
      with rd have m: "moved_on ctx c1" by (auto dest: checked_read_uleb128_moved_on)
      show ?thesis
      proof (cases "c = 0")
        case False
        with "1.prems" \<open>\<not> read_ctx_eof ctx\<close> rd Some m show ?thesis
          by (auto simp add: read_abbrev_codes.simps[of ctx])
      next
        case True
        from "1.prems" \<open>\<not> read_ctx_eof ctx\<close> rd Some True
        have "read_abbrev_codes c1 s1 False
                (sc\<lparr>abbr_off := read_ctx_get_offset ctx, abbr_code := c,
                    zero_seq_off :=
                      (if prev_abbr_code sc = 0 \<and> zero_seq_off sc = - 1
                       then prev_abbr_off sc else zero_seq_off sc),
                    prev_abbr_code := c,
                    prev_abbr_off := read_ctx_get_offset ctx\<rparr>) = (ok, ctx', s', sect', sc')"
          by (simp add: read_abbrev_codes.simps[of ctx])
        moreover from True have "\<not> c \<noteq> 0" by simp
        ultimately have "ctx' = c1 \<or> moved_on c1 ctx'"
          by (rule "1.IH"[OF \<open>\<not> read_ctx_eof ctx\<close> rd[symmetric] Some refl, rotated])
        with m show ?thesis by (auto intro: moved_on_trans)
      qed
    qed
  qed
qed

lemma read_abbrev_attribs_moved:
  "read_abbrev_attribs ctx s ao hc sib acc = (Some ats, ctx', s') \<Longrightarrow> moved_on ctx ctx'"
proof (induction ctx s ao hc sib acc rule: read_abbrev_attribs.induct)
  case (1 ctx s ao hc sib acc)
  obtain r1 c1 s1 where rd1: "checked_read_uleb128 ctx PRI_ABBR_ATTR ''attribute name''
             [ao, read_ctx_get_offset ctx] s = (r1, c1, s1)"
    using prod_cases3 by blast
  with "1.prems" obtain nm where r1: "r1 = Some nm"
    by (cases r1) (auto simp add: read_abbrev_attribs.simps[of ctx])
  obtain r2 c2 s2 where rd2: "checked_read_uleb128 c1 PRI_ABBR_ATTR ''attribute form''
             [ao, read_ctx_get_offset ctx] s1 = (r2, c2, s2)"
    using prod_cases3 by blast
  with "1.prems" rd1 r1 obtain fm where r2: "r2 = Some fm"
    by (cases r2) (auto simp add: read_abbrev_attribs.simps[of ctx])
  from rd1 r1 rd2 r2 have m: "moved_on ctx c2"
    by (auto dest!: checked_read_uleb128_moved_on intro: moved_on_trans)
  obtain sib' s3 where sb: "(if nm = DW_AT_sibling
                         then abbrev_sibling_attr ao (read_ctx_get_offset ctx) hc fm sib s2
                         else (sib, s2)) = (sib', s3)"
    using prod.exhaust by blast
  show ?case
  proof (cases "nm = 0 \<and> fm = 0")
    case True
    with "1.prems" rd1 r1 rd2 r2 sb m show ?thesis
      by (auto simp add: read_abbrev_attribs.simps[of ctx] split: if_splits)
  next
    case False
    with "1.prems" rd1 r1 rd2 r2 sb
    have ok: "\<not> (\<not> (nm = 0 \<and> fm = 0) \<and> nm > DW_AT_hi_user)"
         "\<not> (\<not> (nm = 0 \<and> fm = 0) \<and> \<not> attrib_form_valid fm)"
      and rec: "read_abbrev_attribs c2 s3 ao hc sib'
               (acc @ [\<lparr>attr_offset = read_ctx_get_offset ctx, attr_name = ucast nm,
                         attr_form = ucast fm\<rparr>]) = (Some ats, ctx', s')"
      by (auto simp add: read_abbrev_attribs.simps[of ctx] split: if_splits)
    from "1.IH"[OF rd1[symmetric] r1 refl rd2[symmetric] r2 refl ok sb[symmetric] False rec]
    have "moved_on c2 ctx'" .
    with m show ?thesis by (rule moved_on_trans)
  qed
qed

text \<open>
  \<open>struct abbrev *cur = section->abbr + section->size++\<close>: the abbreviation is appended
  to the table \<open>section\<close> points to, the head of the chain.  The C code appends the
  zeroed entry first and fills it in place; since every failure frees the whole chain,
  the model appends it once it is complete.
\<close>

definition add_abbrev :: "abbrev \<Rightarrow> abbrev_table list \<Rightarrow> abbrev_table list" where
  "add_abbrev cur section_chain =
     (case section_chain of
        [] \<Rightarrow> []
      | t # ts \<Rightarrow> t\<lparr>abbr := abbr t @ [cur]\<rparr> # ts)"

text \<open>
  The outer loop (lines 939-1109).  The result is \<open>False\<close> with the chain built so far
  when the loop left through \<open>goto free_and_out\<close>.  \<open>abbr_off\<close> and \<open>abbr_code\<close> are
  uninitialised when a round starts and written before they are read; they start at 0.
\<close>

function abbrev_table_load_loop ::
  "read_ctx \<Rightarrow> lint_state \<Rightarrow> abbrev_table list \<Rightarrow> bool \<Rightarrow> 64 word
     \<Rightarrow> bool \<times> abbrev_table list \<times> read_ctx \<times> lint_state" where
  "abbrev_table_load_loop ctx s section_chain section section_off =
     (if read_ctx_eof ctx then (True, section_chain, ctx, s)
      else
        (case read_abbrev_codes ctx s section
                \<lparr>abbr_off = 0, abbr_code = 0, prev_abbr_off = - 1, prev_abbr_code = - 1,
                 zero_seq_off = - 1\<rparr> of
           (False, ctx1, s1, section1, sc) \<Rightarrow> (False, section_chain, ctx1, s1)
         | (True, ctx1, s1, section1, sc) \<Rightarrow>
             (if read_ctx_eof ctx1
              then (True, section_chain, ctx1,
                    if zero_seq_off sc \<noteq> - 1
                    then message_padding_0 mc_abbrevs (zero_seq_off sc) (prev_abbr_off sc - 1)
                           PRI_ABBR [section_off] s1
                    else s1)
              else
                (case checked_read_uleb128 ctx1 PRI_ABBR ''abbrev tag'' [abbr_off sc]
                        (if zero_seq_off sc \<noteq> - 1
                         then message_padding_0 mc_abbrevs (zero_seq_off sc)
                                (prev_abbr_off sc - 1) PRI_ABBR [section_off] s1
                         else s1) of
                   (None, ctx2, s2) \<Rightarrow> (False, section_chain, ctx2, s2)
                 | (Some abbr_tag, ctx2, s2) \<Rightarrow>
                     (if abbr_tag > DW_TAG_hi_user
                      then (False, section_chain, ctx2,
                            wr_error (PRI_ABBR @ '': invalid abbrev tag 0x%lx.\<newline>'')
                              [abbr_off sc, abbr_tag] s2)
                      else
                        (case read_ctx_read_ubyte ctx2 of
                           (None, ctx3) \<Rightarrow>
                             (False, section_chain, ctx3,
                              wr_error (PRI_ABBR @ '': can't read abbrev has_children.\<newline>'')
                                [abbr_off sc] s2)
                         | (Some has_children', ctx3) \<Rightarrow>
                             (if has_children' \<noteq> DW_CHILDREN_no
                                 \<and> has_children' \<noteq> DW_CHILDREN_yes
                              then (False, section_chain, ctx3,
                                    wr_error
                                      (PRI_ABBR @ '': invalid has_children value 0x%x.\<newline>'')
                                      [abbr_off sc, 0] s2)
                              else
                                (case read_abbrev_attribs ctx3 s2 (abbr_off sc)
                                        (has_children' = DW_CHILDREN_yes) 0 [] of
                                   (None, ctx4, s4) \<Rightarrow> (False, section_chain, ctx4, s4)
                                 | (Some ats, ctx4, s4) \<Rightarrow>
                                     abbrev_table_load_loop ctx4 s4
                                       (add_abbrev
                                          \<lparr>code = abbr_code sc, tag = ucast abbr_tag,
                                           has_children = (has_children' = DW_CHILDREN_yes),
                                           used = False, attribs = ats\<rparr>
                                          (if \<not> section1
                                           then \<lparr>offset = abbr_off sc, abbr = []\<rparr>
                                                  # section_chain
                                           else section_chain))
                                       True
                                       (if \<not> section1 then abbr_off sc
                                        else section_off)))))))))"
  by pat_completeness auto
termination
proof (relation "measure (\<lambda>(ctx, s, section_chain, sect, section_off). remaining ctx)",
    goal_cases)
  case 1
  show ?case by simp
next
  case (2 ctx s section_chain sect section_off x y xa ya xb yb xc yc xd yd x2 xe ye xf yf x2a
      xg yg x2b xh yh)
  from 2 have "read_abbrev_codes ctx s sect
                \<lparr>abbr_off = 0, abbr_code = 0, prev_abbr_off = - 1, prev_abbr_code = - 1,
                 zero_seq_off = - 1\<rparr> = (x, xa, xb, xc, yc)" by simp
  then have a: "xa = ctx \<or> moved_on ctx xa" by (rule read_abbrev_codes_moved)
  from 2 have b: "moved_on xa xe" by (auto dest!: checked_read_uleb128_moved_on_sym)
  from 2 have c: "moved_on xe yf" by (auto dest!: read_ubyte_moved_on_sym)
  from 2 have "read_abbrev_attribs yf ye (abbr_off yc) (x2a = DW_CHILDREN_yes) 0 []
                 = (Some x2b, xh, yh)" by simp
  then have d: "moved_on yf xh" by (rule read_abbrev_attribs_moved)
  from a b c d have "moved_on ctx xh" by (auto intro: moved_on_trans)
  then show ?case by (simp add: moved_on_remaining)
qed

declare abbrev_table_load_loop.simps [simp del]

text \<open>
  The comparison function \<open>cmp_abbrs\<close> (lines 1113-1118) returns the difference of the
  two 64-bit codes converted to \<open>int\<close>: the low 32 bits, read as two's complement.
\<close>

definition cmp_abbrs :: "abbrev \<Rightarrow> abbrev \<Rightarrow> int" where
  "cmp_abbrs aa bb = sint (ucast (code aa - code bb) :: 32 word)"

text \<open>
  \<open>qsort\<close> is the C library's; its contract is to arrange the array by the comparison
  function.  It is modelled by an insertion sort driven by that function.  The two agree
  on the order of the codes where the comparison function is a consistent order on the
  array, which \<open>cmp_abbrs\<close> is for codes below \<open>2^31\<close>; for an inconsistent one the C
  library fixes no result, and the order the model gives is that of the insertion sort
  only.
\<close>

fun qsort_insert :: "('a \<Rightarrow> 'a \<Rightarrow> int) \<Rightarrow> 'a \<Rightarrow> 'a list \<Rightarrow> 'a list" where
  "qsort_insert cmp x [] = [x]"
| "qsort_insert cmp x (y # ys) =
     (if cmp x y \<le> 0 then x # y # ys else y # qsort_insert cmp x ys)"

definition qsort :: "('a \<Rightarrow> 'a \<Rightarrow> int) \<Rightarrow> 'a list \<Rightarrow> 'a list" where
  "qsort cmp xs = foldr (qsort_insert cmp) xs []"

text \<open>
  \<open>abbrev_table_load\<close>: the loop, then the sort of every table of the chain.  The result
  is the chain (\<open>[]\<close> is \<open>NULL\<close>, which is also what a failure returns), the cursor and the
  state.
\<close>

definition abbrev_table_load ::
  "read_ctx \<Rightarrow> lint_state \<Rightarrow> abbrev_table list \<times> read_ctx \<times> lint_state" where
  "abbrev_table_load ctx s =
     (case abbrev_table_load_loop ctx s [] False 0 of
        (True, section_chain, ctx', s') \<Rightarrow>
          (map (\<lambda>section. section\<lparr>abbr := qsort cmp_abbrs (abbr section)\<rparr>) section_chain,
           ctx', s')
      | (False, section_chain, ctx', s') \<Rightarrow> ([], ctx', s'))"

lemmas loader_eval = abbrev_table_load_def abbrev_table_load_loop.simps
  read_abbrev_attribs.simps read_abbrev_codes.simps checked_read_uleb128_def
  read_ctx_eof_def read_ctx_get_offset_def add_abbrev_def qsort_def cmp_abbrs_def
  abbrev_sibling_attr_def check_sibling_form_def attrib_form_valid_def
  format_leb128_message_def message_padding_0_def vmessage_padding_0_def
  format_padding_message_def message_def vmessage_def verror_def vwarning_def
  wr_error_def accept_message_def initial_state_def

subsection \<open>Facts about the abbreviation loader\<close>

lemma cmp_abbrs_small:
  assumes "code a < 2 ^ 31" "code b < 2 ^ 31"
  shows "cmp_abbrs a b = uint (code a) - uint (code b)"
proof -
  let ?A = "uint (code a)" and ?B = "uint (code b)"
  from assms have A: "0 \<le> ?A" "?A < 2 ^ 31" and B: "0 \<le> ?B" "?B < 2 ^ 31"
    by (simp_all add: word_less_def)
  have "(ucast (code a - code b) :: 32 word) = word_of_int (uint (code a - code b))"
    by (rule ucast_eq)
  also have "\<dots> = word_of_int ((?A - ?B) mod 2 ^ 64)"
    by (simp only: uint_word_ariths) simp
  also have "\<dots> = (word_of_int (?A - ?B) :: 32 word)"
    by (rule iffD2[OF word_of_int_eq_iff]) (simp add: take_bit_eq_mod mod_mod_cancel)
  finally have e: "(ucast (code a - code b) :: 32 word) = word_of_int (?A - ?B)" .
  have "sint (word_of_int (?A - ?B) :: 32 word) = signed_take_bit (LENGTH(32) - 1) (?A - ?B)"
    by (rule sint_sbintrunc')
  also have "\<dots> = signed_take_bit 31 (?A - ?B)" by simp
  also have "\<dots> = ?A - ?B"
  proof (rule signed_take_bit_int_eq_self)
    have "0 \<le> ?A" "0 \<le> ?B" by simp_all
    with A B show "- (2 ^ 31) \<le> ?A - ?B" "?A - ?B < 2 ^ 31" by linarith+
  qed
  finally show ?thesis unfolding cmp_abbrs_def e .
qed

lemma cmp_abbrs_le:
  "code a < 2 ^ 31 \<Longrightarrow> code b < 2 ^ 31 \<Longrightarrow> cmp_abbrs a b \<le> 0 \<longleftrightarrow> code a \<le> code b"
  by (simp add: cmp_abbrs_small word_le_def)

lemma set_qsort_insert: "set (qsort_insert cmp x xs) = insert x (set xs)"
  by (induction xs) auto

lemma length_qsort_insert: "length (qsort_insert cmp x xs) = Suc (length xs)"
  by (induction xs) auto

lemma set_qsort: "set (qsort cmp xs) = set xs"
  by (induction xs) (simp_all add: qsort_def set_qsort_insert)

lemma length_qsort: "length (qsort cmp xs) = length xs"
  by (induction xs) (simp_all add: qsort_def length_qsort_insert)

lemma sorted_qsort_insert:
  "code x < 2 ^ 31 \<Longrightarrow> \<forall>a \<in> set xs. code a < 2 ^ 31 \<Longrightarrow> sorted (map code xs)
   \<Longrightarrow> sorted (map code (qsort_insert cmp_abbrs x xs))"
proof (induction xs)
  case Nil
  then show ?case by simp
next
  case (Cons y ys)
  then show ?case
    by (auto simp: cmp_abbrs_le set_qsort_insert)
qed

lemma sorted_qsort:
  "\<forall>a \<in> set xs. code a < 2 ^ 31 \<Longrightarrow> sorted (map code (qsort cmp_abbrs xs))"
proof (induction xs)
  case Nil
  then show ?case by (simp add: qsort_def)
next
  case (Cons x xs)
  then have "sorted (map code (qsort cmp_abbrs xs))" by simp
  with Cons.prems have "sorted (map code (qsort_insert cmp_abbrs x (qsort cmp_abbrs xs)))"
    by (intro sorted_qsort_insert) (simp_all add: set_qsort)
  then show ?case by (simp add: qsort_def)
qed

lemma off_mono: "(b::64 word) \<le> p \<Longrightarrow> p \<le> q \<Longrightarrow> p - b \<le> q - b"
  by (simp add: word_le_nat_alt unat_sub)

lemma off_strict: "(b::64 word) \<le> p \<Longrightarrow> p < q \<Longrightarrow> p - b < q - b"
proof -
  assume a: "b \<le> p" and c: "p < q"
  then have "b \<le> q" by simp
  with a c show ?thesis
    by (simp add: word_le_nat_alt word_less_nat_alt unat_sub)
qed

lemma read_abbrev_codes_off:
  "read_abbrev_codes ctx s sect sc = (True, ctx1, s1, sect1, sc1) \<Longrightarrow> \<not> read_ctx_eof ctx
   \<Longrightarrow> begin' ctx \<le> ptr ctx
   \<Longrightarrow> ptr ctx - begin' ctx \<le> abbr_off sc1 \<and> abbr_off sc1 < ptr ctx1 - begin' ctx"
proof (induction ctx s sect sc rule: read_abbrev_codes.induct)
  case (1 ctx s sect sc)
  note ne = \<open>\<not> read_ctx_eof ctx\<close>
  obtain r c1 s' where rd: "checked_read_uleb128 ctx PRI_ABBR ''abbrev code''
        [read_ctx_get_offset ctx] s = (r, c1, s')"
    using prod_cases3 by blast
  with "1.prems" obtain c where Some: "r = Some c"
    by (cases r) (auto simp add: read_abbrev_codes.simps[of ctx])
  with rd have m: "moved_on ctx c1" by (auto dest: checked_read_uleb128_moved_on)
  then have lt: "ptr ctx < ptr c1" and f: "begin' c1 = begin' ctx"
    using moved_on_fields[OF m] by (auto simp: moved_on_def)
  from off_strict[OF "1.prems"(3) lt]
  have st: "ptr ctx - begin' ctx < ptr c1 - begin' ctx" .
  show ?case
  proof (cases "c = 0")
    case False
    with "1.prems" ne rd Some st show ?thesis
      by (auto simp add: read_abbrev_codes.simps[of ctx] read_ctx_get_offset_def)
  next
    case True
    let ?sc = "sc\<lparr>abbr_off := read_ctx_get_offset ctx, abbr_code := c,
                    zero_seq_off :=
                      (if prev_abbr_code sc = 0 \<and> zero_seq_off sc = - 1
                       then prev_abbr_off sc else zero_seq_off sc),
                    prev_abbr_code := c,
                    prev_abbr_off := read_ctx_get_offset ctx\<rparr>"
    from "1.prems" ne rd Some True
    have rec: "read_abbrev_codes c1 s' False ?sc = (True, ctx1, s1, sect1, sc1)"
      by (simp add: read_abbrev_codes.simps[of ctx])
    show ?thesis
    proof (cases "read_ctx_eof c1")
      case True
      with rec have "ctx1 = c1" "sc1 = ?sc" by (simp_all add: read_abbrev_codes.simps[of c1])
      with st show ?thesis by (simp add: read_ctx_get_offset_def)
    next
      case False
      from lt "1.prems"(3) f have b: "begin' c1 \<le> ptr c1" by simp
      from True have "\<not> c \<noteq> 0" by simp
      from "1.IH"[OF ne rd[symmetric] Some refl this rec False b] f
      have "ptr c1 - begin' ctx \<le> abbr_off sc1 \<and> abbr_off sc1 < ptr ctx1 - begin' ctx" by simp
      with st show ?thesis by auto
    qed
  qed
qed


lemma offsets_add_abbrev: "map offset (add_abbrev cur chain) = map offset chain"
  by (cases chain) (simp_all add: add_abbrev_def)

lemma abbrev_table_load_loop_offsets:
  "abbrev_table_load_loop ctx s chain sect so = (ok, chain', ctx', s') \<Longrightarrow>
   begin' ctx \<le> ptr ctx \<Longrightarrow> ptr ctx \<le> end' ctx \<Longrightarrow>
   sorted_wrt (>) (map offset chain) \<Longrightarrow>
   (\<forall>t \<in> set chain. offset t < ptr ctx - begin' ctx) \<Longrightarrow>
   sorted_wrt (>) (map offset chain')"
proof (induction ctx s chain sect so rule: abbrev_table_load_loop.induct)
  case (1 ctx s chain sect so)
  let ?sc0 = "\<lparr>abbr_off = 0, abbr_code = 0, prev_abbr_off = - 1, prev_abbr_code = - 1,
                 zero_seq_off = - 1\<rparr> :: code_scan"
  show ?case
  proof (cases "read_ctx_eof ctx")
    case True
    with "1.prems" show ?thesis by (simp add: abbrev_table_load_loop.simps[of ctx])
  next
    case ne: False
    obtain k c1 s1 sect1 sc where rc: "read_abbrev_codes ctx s sect ?sc0 = (k, c1, s1, sect1, sc)"
      using prod_cases5 by blast
    let ?s1 = "if zero_seq_off sc \<noteq> - 1
               then message_padding_0 mc_abbrevs (zero_seq_off sc) (prev_abbr_off sc - 1)
                      PRI_ABBR [so] s1
               else s1"
    obtain r2 c2 s2 where rt: "checked_read_uleb128 c1 PRI_ABBR ''abbrev tag'' [abbr_off sc] ?s1
        = (r2, c2, s2)"
      using prod_cases3 by blast
    obtain r3 c3 where rb: "read_ctx_read_ubyte c2 = (r3, c3)" by (cases "read_ctx_read_ubyte c2")
    show ?thesis
    proof (cases "k \<and> \<not> read_ctx_eof c1 \<and> r2 \<noteq> None \<and> \<not> the r2 > DW_TAG_hi_user \<and> r3 \<noteq> None
        \<and> \<not> (the r3 \<noteq> DW_CHILDREN_no \<and> the r3 \<noteq> DW_CHILDREN_yes)
        \<and> fst (read_abbrev_attribs c3 s2 (abbr_off sc) (the r3 = DW_CHILDREN_yes) 0 []) \<noteq> None")
      case False
      with "1.prems"(1,4) ne rc rt rb show ?thesis
        by (auto simp add: abbrev_table_load_loop.simps[of ctx] split: if_splits option.splits
            prod.splits bool.splits)
    next
      case True
      then obtain tg hc ats c4 s4 where k: "k = True" and ne1: "\<not> read_ctx_eof c1"
        and r2: "r2 = Some tg" and tg: "\<not> tg > DW_TAG_hi_user" and r3: "r3 = Some hc"
        and hc: "\<not> (hc \<noteq> DW_CHILDREN_no \<and> hc \<noteq> DW_CHILDREN_yes)"
        and ra: "read_abbrev_attribs c3 s2 (abbr_off sc) (hc = DW_CHILDREN_yes) 0 []
                   = (Some ats, c4, s4)"
        by (cases "read_abbrev_attribs c3 s2 (abbr_off sc) (the r3 = DW_CHILDREN_yes) 0 []")
          auto
      let ?chain = "add_abbrev
                      \<lparr>code = abbr_code sc, tag = ucast tg,
                       has_children = (hc = DW_CHILDREN_yes), used = False, attribs = ats\<rparr>
                      (if \<not> sect1 then \<lparr>offset = abbr_off sc, abbr = []\<rparr> # chain else chain)"
      let ?so = "if \<not> sect1 then abbr_off sc else so"
      have rec: "abbrev_table_load_loop c4 s4 ?chain True ?so = (ok, chain', ctx', s')"
        using "1.prems"(1) ne rc k ne1 rt r2 tg rb r3 hc ra
        by (simp add: abbrev_table_load_loop.simps[of ctx])
      from rc k have rc': "read_abbrev_codes ctx s sect ?sc0 = (True, c1, s1, sect1, sc)" by simp
      have m01: "c1 = ctx \<or> moved_on ctx c1" using rc by (rule read_abbrev_codes_moved)
      have m12: "moved_on c1 c2" using rt r2 by (auto dest: checked_read_uleb128_moved_on)
      have m23: "moved_on c2 c3" using rb r3 by (auto dest: read_ubyte_moved_on)
      have m34: "moved_on c3 c4" using ra by (rule read_abbrev_attribs_moved)
      from m12 m23 m34 have m14: "moved_on c1 c4" by (blast intro: moved_on_trans)
      with m01 have m04: "moved_on ctx c4" by (auto intro: moved_on_trans)
      from moved_on_fields[OF m04] have f: "begin' c4 = begin' ctx" "end' c4 = end' ctx" by simp_all
      from m01 have f1: "begin' c1 = begin' ctx" by (auto dest: moved_on_fields)
      from m04 have p4: "ptr ctx < ptr c4" "ptr c4 \<le> end' ctx" by (simp_all add: moved_on_def)
      from m14 have p14: "ptr c1 < ptr c4" by (simp add: moved_on_def)
      from read_abbrev_codes_off[OF rc' ne "1.prems"(2)]
      have ao: "ptr ctx - begin' ctx \<le> abbr_off sc" "abbr_off sc < ptr c1 - begin' ctx"
        by simp_all
      from m01 "1.prems"(2) have b1: "begin' ctx \<le> ptr c1" by (auto simp: moved_on_def)
      from off_strict[OF b1 p14] ao have ao4: "abbr_off sc < ptr c4 - begin' ctx" by simp
      have b4: "begin' c4 \<le> ptr c4" using p4 "1.prems"(2) f by simp
      have e4: "ptr c4 \<le> end' c4" using p4 f by simp
      have old: "\<forall>t \<in> set chain. offset t < abbr_off sc"
        using "1.prems"(5) ao(1) by auto
      have srt: "sorted_wrt (>) (map offset ?chain)"
        using "1.prems"(4) old by (auto simp: offsets_add_abbrev)
      have "set (map offset ?chain) \<subseteq> insert (abbr_off sc) (set (map offset chain))"
        by (auto simp: offsets_add_abbrev)
      moreover have "\<forall>x \<in> insert (abbr_off sc) (set (map offset chain)). x < ptr c4 - begin' c4"
        using old ao4 f by auto
      ultimately have bnd: "\<forall>t \<in> set ?chain. offset t < ptr c4 - begin' c4"
        by (metis (no_types, lifting) image_eqI list.set_map subsetD)
      show ?thesis
        by (rule "1.IH"[OF ne rc[symmetric] _ refl refl refl ne1 rt[symmetric] r2 refl tg
              rb[symmetric] r3 hc ra[symmetric] _ refl rec b4 e4 srt bnd]) (simp_all add: k)
    qed
  qed
qed

text \<open>
  Two sections used below: two tables separated by a zero code, and one table that
  declares the code 1 twice.
\<close>

definition two_tables :: "8 word list" where
  "two_tables = [0x01, 0x11, 0x00, 0x00, 0x00, 0x00, 0x01, 0x11, 0x00, 0x00, 0x00]"

definition duplicate_codes :: "8 word list" where
  "duplicate_codes = [0x01, 0x11, 0x00, 0x00, 0x00, 0x01, 0x11, 0x00, 0x00, 0x00]"

lemma two_tables_loaded:
  "fst (abbrev_table_load (section_ctx 0x1000 two_tables) initial_state) =
     [\<lparr>offset = 6,
       abbr = [\<lparr>code = 1, tag = 17, has_children = False, used = False,
                attribs = [\<lparr>attr_offset = 9, attr_name = 0, attr_form = 0\<rparr>]\<rparr>]\<rparr>,
      \<lparr>offset = 0,
       abbr = [\<lparr>code = 1, tag = 17, has_children = False, used = False,
                attribs = [\<lparr>attr_offset = 3, attr_name = 0, attr_form = 0\<rparr>]\<rparr>]\<rparr>]"
  by (simp add: two_tables_def loader_eval rd_eval DW_defs mc_defs)

lemma duplicate_codes_loaded:
  "fst (abbrev_table_load (section_ctx 0x1000 duplicate_codes) initial_state) =
     [\<lparr>offset = 0,
       abbr = [\<lparr>code = 1, tag = 17, has_children = False, used = False,
                attribs = [\<lparr>attr_offset = 3, attr_name = 0, attr_form = 0\<rparr>]\<rparr>,
               \<lparr>code = 1, tag = 17, has_children = False, used = False,
                attribs = [\<lparr>attr_offset = 8, attr_name = 0, attr_form = 0\<rparr>]\<rparr>]\<rparr>]"
  by (simp add: duplicate_codes_def loader_eval rd_eval DW_defs mc_defs)

text \<open>
  What the comparison function does to codes that differ by \<open>2^31\<close> or more: the table
  with the codes 1 and \<open>0x80000002\<close>, in this order in the file, leaves the sort with the
  larger code first.
\<close>

lemma qsort_truncated_compare:
  "map code (qsort cmp_abbrs
     [\<lparr>code = 1, tag = 17, has_children = False, used = False, attribs = []\<rparr>,
      \<lparr>code = 0x80000002, tag = 17, has_children = False, used = False, attribs = []\<rparr>])
   = [0x80000002, 1]"
  by (simp add: qsort_def cmp_abbrs_def)

subsection \<open>Claims about the abbreviation loader\<close>

text \<open>
  Claim C6, amended.  For every input, every abbrev table returned by the loader has its
  abbrev array in non-decreasing order of code whenever all codes of that table are below
  \<open>2^31\<close>.  The loader has no check for duplicate codes: a table keeps one entry for every
  abbreviation declared in it, also when two of them carry the same code.
\<close>

theorem abbrev_tables_sorted:
  "t \<in> set (fst (abbrev_table_load ctx s)) \<Longrightarrow> \<forall>a \<in> set (abbr t). code a < 2 ^ 31
   \<Longrightarrow> sorted (map code (abbr t))"
proof -
  assume t: "t \<in> set (fst (abbrev_table_load ctx s))"
    and small: "\<forall>a \<in> set (abbr t). code a < 2 ^ 31"
  obtain ok chain c' s' where l: "abbrev_table_load_loop ctx s [] False 0 = (ok, chain, c', s')"
    using prod_cases4 by blast
  with t obtain t0 where "t = t0\<lparr>abbr := qsort cmp_abbrs (abbr t0)\<rparr>"
    by (cases ok) (auto simp: abbrev_table_load_def)
  then have "abbr t = qsort cmp_abbrs (abbr t0)"
    by (metis abbrev_table.select_convs(2) abbrev_table.surjective abbrev_table.update_convs(2))
  with small show ?thesis by (simp add: sorted_qsort set_qsort)
qed

theorem abbrev_tables_sorted_witness:
  "map (\<lambda>t. map code (abbr t))
     (fst (abbrev_table_load (section_ctx 0x1000 duplicate_codes) initial_state)) = [[1, 1]] \<and>
   sorted (map code (abbr (hd
     (fst (abbrev_table_load (section_ctx 0x1000 duplicate_codes) initial_state)))))"
proof -
  let ?ts = "fst (abbrev_table_load (section_ctx 0x1000 duplicate_codes) initial_state)"
  have a: "hd ?ts \<in> set ?ts" by (simp add: duplicate_codes_loaded)
  have b: "\<forall>a \<in> set (abbr (hd ?ts)). code a < 2 ^ 31" by (simp add: duplicate_codes_loaded)
  from abbrev_tables_sorted[OF a b] show ?thesis by (simp add: duplicate_codes_loaded)
qed

text \<open>
  Claim C6 as stated fails: a section that declares the code 1 twice in one table loads
  as one table with two entries of code 1.
\<close>

theorem abbrev_table_keeps_duplicates:
  "map (\<lambda>t. map code (abbr t))
     (fst (abbrev_table_load (section_ctx 0x1000 duplicate_codes) initial_state)) = [[1, 1]] \<and>
   \<not> distinct (map code (abbr (hd
     (fst (abbrev_table_load (section_ctx 0x1000 duplicate_codes) initial_state)))))"
  by (simp add: duplicate_codes_loaded)

text \<open>
  Claim C7, amended.  In the chain of abbrev tables returned by the loader (for a reader
  with \<open>begin \<le> ptr \<le> end\<close>), successive tables, following the \<open>next\<close> pointers from the
  returned head, have strictly decreasing \<open>section_offset\<close>: every new table is pushed
  at the head of the chain.
\<close>

theorem abbrev_chain_offsets_decrease:
  assumes "begin' ctx \<le> ptr ctx" and "ptr ctx \<le> end' ctx"
  shows "sorted_wrt (>) (map offset (fst (abbrev_table_load ctx s)))"
proof -
  obtain ok chain c' s' where l: "abbrev_table_load_loop ctx s [] False 0 = (ok, chain, c', s')"
    using prod_cases4 by blast
  from abbrev_table_load_loop_offsets[OF l assms] have "sorted_wrt (>) (map offset chain)"
    by simp
  moreover have "map offset (map (\<lambda>section. section\<lparr>abbr := qsort cmp_abbrs (abbr section)\<rparr>)
      chain) = map offset chain" by simp
  ultimately show ?thesis using l by (cases ok) (simp_all add: abbrev_table_load_def comp_def)
qed

theorem abbrev_chain_offsets_decrease_witness:
  "begin' (section_ctx 0x1000 two_tables) \<le> ptr (section_ctx 0x1000 two_tables) \<and>
   ptr (section_ctx 0x1000 two_tables) \<le> end' (section_ctx 0x1000 two_tables) \<and>
   sorted_wrt (>)
     (map offset (fst (abbrev_table_load (section_ctx 0x1000 two_tables) initial_state))) \<and>
   map offset (fst (abbrev_table_load (section_ctx 0x1000 two_tables) initial_state)) = [6, 0]"
proof -
  have a: "begin' (section_ctx 0x1000 two_tables) \<le> ptr (section_ctx 0x1000 two_tables)"
    by (simp add: rd_eval)
  have b: "ptr (section_ctx 0x1000 two_tables) \<le> end' (section_ctx 0x1000 two_tables)"
    by (simp add: rd_eval two_tables_def)
  from abbrev_chain_offsets_decrease[OF a b, of initial_state] a b show ?thesis
    by (simp add: two_tables_loaded)
qed

text \<open>
  Claim C7 as stated fails: two tables at the offsets 0 and 6 come back as the chain
  with offsets 6, 0.
\<close>

theorem abbrev_chain_offsets_not_increasing:
  "map offset (fst (abbrev_table_load (section_ctx 0x1000 two_tables) initial_state)) = [6, 0] \<and>
   \<not> sorted_wrt (<)
     (map offset (fst (abbrev_table_load (section_ctx 0x1000 two_tables) initial_state)))"
  by (simp add: two_tables_loaded)

section \<open>Address records, reference records and coverage (lines 519-578, 1147-1332)\<close>

text \<open>
  \<open>abbrev_table_find_abbrev\<close> (lines 1147-1168): binary search by code; the result is the
  index of the abbreviation found, \<open>None\<close> for \<open>NULL\<close>.
\<close>

function find_abbrev_loop :: "abbrev list \<Rightarrow> 64 word \<Rightarrow> nat \<Rightarrow> nat \<Rightarrow> nat option" where
  "find_abbrev_loop ab abbrev_code a b =
     (if a < b then
        (if code (ab ! ((a + b) div 2)) > abbrev_code
         then find_abbrev_loop ab abbrev_code a ((a + b) div 2)
         else if code (ab ! ((a + b) div 2)) < abbrev_code
         then find_abbrev_loop ab abbrev_code ((a + b) div 2 + 1) b
         else Some ((a + b) div 2))
      else None)"
  by pat_completeness auto
termination
  by (relation "measure (\<lambda>(ab, abbrev_code, a, b). b - a)") auto

declare find_abbrev_loop.simps [simp del]

definition abbrev_table_find_abbrev :: "abbrev_table \<Rightarrow> 64 word \<Rightarrow> nat option" where
  "abbrev_table_find_abbrev abbrevs abbrev_code =
     find_abbrev_loop (abbr abbrevs) abbrev_code 0 (length (abbr abbrevs))"

text \<open>\<open>struct addr_record\<close>: the sorted vector \<open>addrs[0..size)\<close>.\<close>

type_synonym addr_record = "64 word list"

function addr_record_find_loop :: "addr_record \<Rightarrow> 64 word \<Rightarrow> nat \<Rightarrow> nat \<Rightarrow> nat" where
  "addr_record_find_loop ar addr a b =
     (if a < b then
        (if ar ! ((a + b) div 2) > addr
         then addr_record_find_loop ar addr a ((a + b) div 2)
         else if ar ! ((a + b) div 2) < addr
         then addr_record_find_loop ar addr ((a + b) div 2 + 1) b
         else (a + b) div 2)
      else a)"
  by pat_completeness auto
termination
  by (relation "measure (\<lambda>(ar, addr, a, b). b - a)") auto

declare addr_record_find_loop.simps [simp del]

definition addr_record_find_addr :: "addr_record \<Rightarrow> 64 word \<Rightarrow> nat" where
  "addr_record_find_addr ar addr = addr_record_find_loop ar addr 0 (length ar)"

definition addr_record_has_addr :: "addr_record \<Rightarrow> 64 word \<Rightarrow> bool" where
  "addr_record_has_addr ar addr =
     (if length ar = 0 \<or> addr < ar ! 0 \<or> addr > ar ! (length ar - 1) then False
      else addr_record_find_addr ar addr < length ar
           \<and> ar ! addr_record_find_addr ar addr = addr)"

definition addr_record_add :: "addr_record \<Rightarrow> 64 word \<Rightarrow> addr_record" where
  "addr_record_add ar addr =
     (if addr_record_find_addr ar addr \<ge> length ar \<or> ar ! addr_record_find_addr ar addr \<noteq> addr
      then take (addr_record_find_addr ar addr) ar @ [addr]
             @ drop (addr_record_find_addr ar addr) ar
      else ar)"

text \<open>\<open>struct ref\<close> is the pair (\<open>addr\<close>, \<open>who\<close>); a \<open>ref_record\<close> is appended to.\<close>

type_synonym ref_record = "(64 word \<times> 64 word) list"

definition ref_record_add :: "ref_record \<Rightarrow> 64 word \<Rightarrow> 64 word \<Rightarrow> ref_record" where
  "ref_record_add rr addr who = rr @ [(addr, who)]"

text \<open>
  \<open>struct coverage\<close>: \<open>coverage_emt_type\<close> is \<open>uint_fast32_t\<close>, 64 bits wide on the LP64
  hosts the 64-bit pointers above stand for; \<open>alloc\<close> is the length of \<open>buf\<close>.
\<close>

record coverage =
  cov_size :: "64 word"
  buf :: "64 word list"

definition coverage_init :: "64 word \<Rightarrow> coverage" where
  "coverage_init size' = \<lparr>cov_size = size', buf = replicate (unat size' div 64 + 1) 0\<rparr>"

text \<open>\<open>coverage_add\<close> (lines 1253-1276); \<open>None\<close> when one of its assertions fails.\<close>

definition coverage_add :: "coverage \<Rightarrow> 64 word \<Rightarrow> 64 word \<Rightarrow> coverage option" where
  "coverage_add ar b e =
     (if \<not> b \<le> e \<or> \<not> e \<le> cov_size ar then None
      else
        (let bi = unat b div 64; ei = unat e div 64;
             bm = drop_bit (unat b mod 64) (- 1 :: 64 word);
             em = push_bit (64 - 1 - unat e mod 64) (- 1 :: 64 word)
         in Some (ar\<lparr>buf :=
              (if bi = ei then (buf ar)[bi := buf ar ! bi OR (bm AND em)]
               else take (bi + 1) ((buf ar)[bi := buf ar ! bi OR bm])
                    @ replicate (ei - bi - 1) (- 1)
                    @ drop ei ((buf ar)[ei := buf ar ! ei OR em]))\<rparr>)))"

text \<open>
  \<open>coverage_find_holes\<close> (lines 1278-1326).  The scan carries \<open>hole\<close>, \<open>begin\<close> and the
  holes reported so far (the calls of \<open>cb\<close>, in order).  \<open>hole_end\<close> asserts \<open>hole\<close>; every
  call below is made with \<open>hole\<close> set.
\<close>

type_synonym hole_scan = "bool \<times> 64 word \<times> (64 word \<times> 64 word) list"

definition hole_begin :: "64 word \<Rightarrow> hole_scan \<Rightarrow> hole_scan" where
  "hole_begin a hs = (case hs of (hole, b, holes) \<Rightarrow> (True, a, holes))"

definition hole_end :: "64 word \<Rightarrow> hole_scan \<Rightarrow> hole_scan" where
  "hole_end a hs =
     (case hs of (hole, b, holes) \<Rightarrow>
        (False, b, if a \<noteq> b then holes @ [(b, a - 1)] else holes))"

fun coverage_scan_bits :: "coverage \<Rightarrow> nat \<Rightarrow> nat list \<Rightarrow> hole_scan \<Rightarrow> hole_scan" where
  "coverage_scan_bits ar i [] hs = hs"
| "coverage_scan_bits ar i (j # js) hs =
     (if of_nat (i * 64 + j - 1) > cov_size ar then hs
      else if \<not> fst hs \<and> \<not> bit (buf ar ! i) (64 - j)
        then coverage_scan_bits ar i js (hole_begin (of_nat (i * 64 + j - 1)) hs)
      else if fst hs \<and> bit (buf ar ! i) (64 - j)
        then coverage_scan_bits ar i js (hole_end (of_nat (i * 64 + j - 1)) hs)
      else coverage_scan_bits ar i js hs)"

fun coverage_scan_words :: "coverage \<Rightarrow> nat list \<Rightarrow> hole_scan \<Rightarrow> hole_scan" where
  "coverage_scan_words ar [] hs = hs"
| "coverage_scan_words ar (i # is) hs =
     coverage_scan_words ar is
       (if buf ar ! i = - 1
        then (if fst hs then hole_end (of_nat (i * 64)) hs else hs)
        else coverage_scan_bits ar i [1..<65] hs)"

definition coverage_find_holes :: "coverage \<Rightarrow> (64 word \<times> 64 word) list" where
  "coverage_find_holes ar =
     (case coverage_scan_words ar [0..<length (buf ar)] (hole_begin 0 (False, 0, [])) of
        hs \<Rightarrow> snd (snd (if fst hs then hole_end (cov_size ar) hs else hs)))"

section \<open>The DIE chain (lines 581-613 and 1624-1994)\<close>

record cu =
  cu_offset :: "64 word"
  cu_length :: "64 word"
  die_addrs :: addr_record
  die_refs :: ref_record

abbreviation PRI_D_INFO :: string where "PRI_D_INFO \<equiv> ''.debug_info: ''"
abbreviation PRI_CU :: string where "PRI_CU \<equiv> ''CU 0x%lx''"
abbreviation PRI_CU_DIE :: string where "PRI_CU_DIE \<equiv> ''CU 0x%lx, DIE 0x%lx''"
abbreviation PRI_CU_DIE_ABBR_ATTR :: string where
  "PRI_CU_DIE_ABBR_ATTR \<equiv> ''CU 0x%lx, DIE 0x%lx, abbrev 0x%lx, attribute 0x%lx''"

text \<open>
  What \<open>read_die_chain\<close> reads and writes through its pointer parameters: the reader,
  the CU (its \<open>die_addrs\<close> and \<open>die_refs\<close>), the abbreviation table (the \<open>used\<close> flags), the
  CU-local references (\<open>die_loc_refs\<close>, which may be \<open>NULL\<close>), the strings coverage (which
  may be \<open>NULL\<close>), and the process state.  The parameter \<open>die_refs\<close> is only handed on to
  the recursive call and never used (\<open>record_ref\<close> stores non-local references in
  \<open>cu->die_refs\<close>); it is left out.
\<close>

record die_state =
  st_ctx :: read_ctx
  st_cu :: cu
  st_abbrevs :: abbrev_table
  st_die_loc_refs :: "ref_record option"
  st_strings_coverage :: "coverage option"
  st_lint :: lint_state

text \<open>
  The parameters that stay fixed: the strings section (its bytes, \<open>None\<close> for \<open>NULL\<close>),
  \<open>dwarf_64\<close> and \<open>addr_64\<close>.
\<close>

record die_env =
  strings :: "8 word list option"
  dwarf_64 :: bool
  addr_64 :: bool

text \<open>
  \<open>strlen\<close> is the C library's.  On the bytes of the section it counts up to the first
  NUL; where there is none the count stops at the end of the section, which C reads
  past.
\<close>

definition strlen_from :: "8 word list \<Rightarrow> nat \<Rightarrow> nat" where
  "strlen_from bs a = length (takeWhile (\<lambda>c. c \<noteq> 0) (drop a bs))"

text \<open>
  \<open>record_ref\<close> (lines 1711-1733), the function nested in the attribute loop.  \<open>None\<close> is
  the failure of its assertion.
\<close>

definition record_ref ::
  "die_state \<Rightarrow> 64 word \<Rightarrow> abbrev \<Rightarrow> abbrev_attrib \<Rightarrow> 64 word \<Rightarrow> 64 word \<Rightarrow> bool
     \<Rightarrow> die_state option" where
  "record_ref st die_off' abbrev' it addr who local =
     (if local then
        (if \<not> end' (st_ctx st) > begin' (st_ctx st) then None
         else if addr > end' (st_ctx st) - begin' (st_ctx st)
         then Some (st\<lparr>st_lint :=
                wr_error (PRI_D_INFO @ PRI_CU_DIE_ABBR_ATTR
                            @ '': invalid reference outside the CU: 0x%lx.\<newline>'')
                  [cu_offset (st_cu st), die_off', code abbrev', attr_offset it, addr]
                  (st_lint st)\<rparr>)
         else
           (case st_die_loc_refs st of
              None \<Rightarrow> Some st
            | Some rr \<Rightarrow>
                Some (st\<lparr>st_die_loc_refs :=
                            Some (ref_record_add rr (addr + cu_offset (st_cu st)) who)\<rparr>)))
      else Some (st\<lparr>st_cu := (st_cu st)\<lparr>die_refs :=
                          ref_record_add (die_refs (st_cu st)) addr who\<rparr>\<rparr>))"

text \<open>
  One attribute value either ends the process (a failed assertion), makes
  \<open>read_die_chain\<close> return \<open>-1\<close>, or lets the attribute loop go on with the new state and
  the new \<open>sibling_addr\<close>.
\<close>

datatype attr_result = Attr_abort | Attr_fatal die_state | Attr_next die_state "64 word"

definition cant_read :: "die_state \<Rightarrow> 64 word \<Rightarrow> abbrev \<Rightarrow> abbrev_attrib \<Rightarrow> attr_result" where
  "cant_read st die_off' abbrev' it =
     Attr_fatal (st\<lparr>st_lint :=
        wr_error (PRI_D_INFO @ PRI_CU_DIE_ABBR_ATTR @ '': can't read attribute value.\<newline>'')
          [cu_offset (st_cu st), die_off', code abbrev', attr_offset it] (st_lint st)\<rparr>)"

text \<open>
  The two lines every reference-capable case ends with: a \<open>DW_AT_sibling\<close> value is
  latched, any other attribute whose abbreviation form is the case's reference form is
  recorded as a CU-local reference.
\<close>

definition sibling_or_ref ::
  "die_state \<Rightarrow> 64 word \<Rightarrow> abbrev \<Rightarrow> abbrev_attrib \<Rightarrow> 64 word \<Rightarrow> 64 word \<Rightarrow> 8 word
     \<Rightarrow> attr_result" where
  "sibling_or_ref st die_off' abbrev' it sibling_addr' val ref_form =
     (if attr_name it = DW_AT_sibling then Attr_next st val
      else if attr_form it = ref_form
        then (case record_ref st die_off' abbrev' it val die_off' True of
                None \<Rightarrow> Attr_abort
              | Some st' \<Rightarrow> Attr_next st' sibling_addr')
      else Attr_next st sibling_addr')"

text \<open>The \<open>do \<dots> while (byte != 0)\<close> of \<open>DW_FORM_string\<close> (lines 1812-1817).\<close>

function read_string_bytes :: "read_ctx \<Rightarrow> bool \<times> read_ctx" where
  "read_string_bytes ctx =
     (case read_ctx_read_ubyte ctx of
        (None, ctx') \<Rightarrow> (False, ctx')
      | (Some byte, ctx') \<Rightarrow> (if byte \<noteq> 0 then read_string_bytes ctx' else (True, ctx')))"
  by pat_completeness auto
termination
  by (relation "measure remaining") (auto dest!: read_ubyte_moved_on_sym intro: moved_on_remaining)

declare read_string_bytes.simps [simp del]

text \<open>
  \<open>DW_FORM_indirect\<close> (lines 1735-1771): the form the switch dispatches on, \<open>None\<close> where
  the code returns \<open>-1\<close>.
\<close>

definition read_indirect_form ::
  "die_state \<Rightarrow> 64 word \<Rightarrow> abbrev \<Rightarrow> abbrev_attrib \<Rightarrow> 8 word option \<times> die_state" where
  "read_indirect_form st die_off' abbrev' it =
     (if attr_form it = DW_FORM_indirect then
        (case checked_read_uleb128 (st_ctx st) (PRI_D_INFO @ PRI_CU_DIE_ABBR_ATTR)
                ''indirect attribute form''
                [cu_offset (st_cu st), die_off', code abbrev', attr_offset it] (st_lint st) of
           (None, ctx', s') \<Rightarrow> (None, st\<lparr>st_ctx := ctx', st_lint := s'\<rparr>)
         | (Some val, ctx', s') \<Rightarrow>
             (if \<not> attrib_form_valid val
              then (None, st\<lparr>st_ctx := ctx', st_lint :=
                      wr_error (PRI_D_INFO @ PRI_CU_DIE_ABBR_ATTR
                                  @ '': invalid indirect form 0x%lx.\<newline>'')
                        [cu_offset (st_cu st), die_off', code abbrev', attr_offset it, val]
                        s'\<rparr>)
              else (Some (ucast val), st\<lparr>st_ctx := ctx', st_lint :=
                      (if attr_name it = DW_AT_sibling then
                         (if check_sibling_form (ucast val :: 8 word) = - 1
                          then message (mc_die_rel_sib OR mc_impact_2)
                                 (PRI_D_INFO @ PRI_CU_DIE_ABBR_ATTR @
                                  '': DW_AT_sibling attribute with (indirect) form DW_FORM_ref_addr.\<newline>'')
                                 [cu_offset (st_cu st), die_off', code abbrev', attr_offset it]
                                 s'
                          else if check_sibling_form (ucast val :: 8 word) = - 2
                          then wr_error (PRI_D_INFO @ PRI_CU_DIE_ABBR_ATTR @
                                  '': DW_AT_sibling attribute with non-reference (indirect) form %s.\<newline>'')
                                 [cu_offset (st_cu st), die_off', code abbrev', attr_offset it,
                                  val] s'
                          else s')
                       else s')\<rparr>)))
      else (Some (attr_form it), st))"

text \<open>The block forms (lines 1922-1956): \<open>width = 0\<close> is the ULEB128 length.\<close>

definition read_block ::
  "die_state \<Rightarrow> 64 word \<Rightarrow> abbrev \<Rightarrow> abbrev_attrib \<Rightarrow> 64 word \<Rightarrow> int \<Rightarrow> attr_result" where
  "read_block st die_off' abbrev' it sibling_addr' width =
     (case (if width = 0
            then checked_read_uleb128 (st_ctx st) (PRI_D_INFO @ PRI_CU_DIE_ABBR_ATTR)
                   ''attribute value''
                   [cu_offset (st_cu st), die_off', code abbrev', attr_offset it] (st_lint st)
            else (case read_ctx_read_var (st_ctx st) width of
                    (r, ctx') \<Rightarrow> (r, ctx', st_lint st))) of
        (None, ctx', s') \<Rightarrow>
          (if width = 0 then Attr_fatal (st\<lparr>st_ctx := ctx', st_lint := s'\<rparr>)
           else cant_read (st\<lparr>st_ctx := ctx', st_lint := s'\<rparr>) die_off' abbrev' it)
      | (Some length', ctx', s') \<Rightarrow>
          (case read_ctx_skip ctx' length' of
             (False, ctx'') \<Rightarrow>
               cant_read (st\<lparr>st_ctx := ctx'', st_lint := s'\<rparr>) die_off' abbrev' it
           | (True, ctx'') \<Rightarrow> Attr_next (st\<lparr>st_ctx := ctx'', st_lint := s'\<rparr>) sibling_addr'))"

text \<open>The \<open>switch (form)\<close> (lines 1773-1968).\<close>

definition read_form_value ::
  "die_env \<Rightarrow> die_state \<Rightarrow> 64 word \<Rightarrow> abbrev \<Rightarrow> abbrev_attrib \<Rightarrow> 64 word \<Rightarrow> 8 word
     \<Rightarrow> attr_result" where
  "read_form_value env st die_off' abbrev' it sibling_addr' form =
     (if form = DW_FORM_strp then
        (case read_ctx_read_offset (st_ctx st) (dwarf_64 env) of
           (None, ctx') \<Rightarrow> cant_read (st\<lparr>st_ctx := ctx'\<rparr>) die_off' abbrev' it
         | (Some addr, ctx') \<Rightarrow>
             (case strings env of
                None \<Rightarrow>
                  Attr_next (st\<lparr>st_ctx := ctx', st_lint :=
                      wr_error (PRI_D_INFO @ PRI_CU_DIE_ABBR_ATTR
                                  @ '': strp attribute, but no .debug_str section.\<newline>'')
                        [cu_offset (st_cu st), die_off', code abbrev', attr_offset it]
                        (st_lint st)\<rparr>) sibling_addr'
              | Some bs \<Rightarrow>
                  (if unat addr \<ge> length bs
                   then Attr_next (st\<lparr>st_ctx := ctx', st_lint :=
                          wr_error (PRI_D_INFO @ PRI_CU_DIE_ABBR_ATTR
                                      @ '': Invalid offset outside .debug_str: 0x%lx.'')
                            [cu_offset (st_cu st), die_off', code abbrev', attr_offset it, addr]
                            (st_lint st)\<rparr>) sibling_addr'
                   else
                     (case st_strings_coverage st of
                        None \<Rightarrow> Attr_next (st\<lparr>st_ctx := ctx'\<rparr>) sibling_addr'
                      | Some cov \<Rightarrow>
                          (case coverage_add cov addr
                                  (addr + of_nat (strlen_from bs (unat addr))) of
                             None \<Rightarrow> Attr_abort
                           | Some cov' \<Rightarrow>
                               Attr_next (st\<lparr>st_ctx := ctx', st_strings_coverage := Some cov'\<rparr>)
                                 sibling_addr')))))
      else if form = DW_FORM_string then
        (case read_string_bytes (st_ctx st) of
           (False, ctx') \<Rightarrow> cant_read (st\<lparr>st_ctx := ctx'\<rparr>) die_off' abbrev' it
         | (True, ctx') \<Rightarrow> Attr_next (st\<lparr>st_ctx := ctx'\<rparr>) sibling_addr')
      else if form = DW_FORM_addr \<or> form = DW_FORM_ref_addr then
        (case read_ctx_read_offset (st_ctx st) (addr_64 env) of
           (None, ctx') \<Rightarrow> cant_read (st\<lparr>st_ctx := ctx'\<rparr>) die_off' abbrev' it
         | (Some addr, ctx') \<Rightarrow>
             (if attr_form it = DW_FORM_ref_addr
              then (case record_ref (st\<lparr>st_ctx := ctx'\<rparr>) die_off' abbrev' it addr die_off'
                           False of
                      None \<Rightarrow> Attr_abort
                    | Some st' \<Rightarrow> Attr_next st' sibling_addr')
              else Attr_next (st\<lparr>st_ctx := ctx'\<rparr>) sibling_addr'))
      else if form = DW_FORM_udata \<or> form = DW_FORM_ref_udata then
        (case checked_read_uleb128 (st_ctx st) (PRI_D_INFO @ PRI_CU_DIE_ABBR_ATTR)
                ''attribute value''
                [cu_offset (st_cu st), die_off', code abbrev', attr_offset it] (st_lint st) of
           (None, ctx', s') \<Rightarrow> Attr_fatal (st\<lparr>st_ctx := ctx', st_lint := s'\<rparr>)
         | (Some val, ctx', s') \<Rightarrow>
             sibling_or_ref (st\<lparr>st_ctx := ctx', st_lint := s'\<rparr>) die_off' abbrev' it
               sibling_addr' val DW_FORM_ref_udata)
      else if form = DW_FORM_flag \<or> form = DW_FORM_data1 \<or> form = DW_FORM_ref1 then
        (case read_ctx_read_ubyte (st_ctx st) of
           (None, ctx') \<Rightarrow> cant_read (st\<lparr>st_ctx := ctx'\<rparr>) die_off' abbrev' it
         | (Some val, ctx') \<Rightarrow>
             sibling_or_ref (st\<lparr>st_ctx := ctx'\<rparr>) die_off' abbrev' it sibling_addr'
               (ucast val) DW_FORM_ref1)
      else if form = DW_FORM_data2 \<or> form = DW_FORM_ref2 then
        (case read_ctx_read_2ubyte (st_ctx st) of
           (None, ctx') \<Rightarrow> cant_read (st\<lparr>st_ctx := ctx'\<rparr>) die_off' abbrev' it
         | (Some val, ctx') \<Rightarrow>
             sibling_or_ref (st\<lparr>st_ctx := ctx'\<rparr>) die_off' abbrev' it sibling_addr'
               (ucast val) DW_FORM_ref2)
      else if form = DW_FORM_data4 \<or> form = DW_FORM_ref4 then
        (case read_ctx_read_4ubyte (st_ctx st) of
           (None, ctx') \<Rightarrow> cant_read (st\<lparr>st_ctx := ctx'\<rparr>) die_off' abbrev' it
         | (Some val, ctx') \<Rightarrow>
             sibling_or_ref (st\<lparr>st_ctx := ctx'\<rparr>) die_off' abbrev' it sibling_addr'
               (ucast val) DW_FORM_ref4)
      else if form = DW_FORM_data8 \<or> form = DW_FORM_ref8 then
        (case read_ctx_read_8ubyte (st_ctx st) of
           (None, ctx') \<Rightarrow> cant_read (st\<lparr>st_ctx := ctx'\<rparr>) die_off' abbrev' it
         | (Some val, ctx') \<Rightarrow>
             sibling_or_ref (st\<lparr>st_ctx := ctx'\<rparr>) die_off' abbrev' it sibling_addr'
               val DW_FORM_ref8)
      else if form = DW_FORM_sdata then
        (case checked_read_sleb128 (st_ctx st) (PRI_D_INFO @ PRI_CU_DIE_ABBR_ATTR)
                ''attribute value''
                [cu_offset (st_cu st), die_off', code abbrev', attr_offset it] (st_lint st) of
           (None, ctx', s') \<Rightarrow> Attr_fatal (st\<lparr>st_ctx := ctx', st_lint := s'\<rparr>)
         | (Some val, ctx', s') \<Rightarrow> Attr_next (st\<lparr>st_ctx := ctx', st_lint := s'\<rparr>) sibling_addr')
      else if form = DW_FORM_block then read_block st die_off' abbrev' it sibling_addr' 0
      else if form = DW_FORM_block1 then read_block st die_off' abbrev' it sibling_addr' 1
      else if form = DW_FORM_block2 then read_block st die_off' abbrev' it sibling_addr' 2
      else if form = DW_FORM_block4 then read_block st die_off' abbrev' it sibling_addr' 4
      else if form = DW_FORM_indirect then
        Attr_fatal (st\<lparr>st_lint :=
          wr_error (PRI_D_INFO @ PRI_CU_DIE_ABBR_ATTR @ '': Indirect form is again indirect.\<newline>'')
            [cu_offset (st_cu st), die_off', code abbrev', attr_offset it] (st_lint st)\<rparr>)
      else
        Attr_next (st\<lparr>st_lint :=
          wr_error (PRI_D_INFO @ PRI_CU_DIE_ABBR_ATTR @ '': Internal error: unhandled form 0x%x\<newline>'')
            [cu_offset (st_cu st), die_off', code abbrev', attr_offset it, ucast (attr_form it)]
            (st_lint st)\<rparr>) sibling_addr')"

text \<open>The body of the attribute loop for one attribute \<open>it\<close> (lines 1709-1969).\<close>

definition read_die_attr ::
  "die_env \<Rightarrow> die_state \<Rightarrow> 64 word \<Rightarrow> abbrev \<Rightarrow> abbrev_attrib \<Rightarrow> 64 word \<Rightarrow> attr_result" where
  "read_die_attr env st die_off' abbrev' it sibling_addr' =
     (case read_indirect_form st die_off' abbrev' it of
        (None, st') \<Rightarrow> Attr_fatal st'
      | (Some form, st') \<Rightarrow> read_form_value env st' die_off' abbrev' it sibling_addr' form)"

text \<open>
  The attribute loop \<open>for (it = abbrev->attribs; it->name != 0; ++it)\<close>.  Every loaded
  abbreviation ends with the attribute of name 0; on a list without one the C loop would
  run off the array, the model stops at its end.
\<close>

fun read_die_attrs ::
  "die_env \<Rightarrow> die_state \<Rightarrow> 64 word \<Rightarrow> abbrev \<Rightarrow> abbrev_attrib list \<Rightarrow> 64 word \<Rightarrow> attr_result"
  where
  "read_die_attrs env st die_off' abbrev' [] sibling_addr' = Attr_next st sibling_addr'"
| "read_die_attrs env st die_off' abbrev' (it # its) sibling_addr' =
     (if attr_name it = 0 then Attr_next st sibling_addr'
      else (case read_die_attr env st die_off' abbrev' it sibling_addr' of
              Attr_next st' sibling_addr'' \<Rightarrow>
                read_die_attrs env st' die_off' abbrev' its sibling_addr''
            | r \<Rightarrow> r))"

text \<open>
  \<open>read_die_chain\<close> (lines 1631-1994) returns \<open>-1\<close>, \<open>0\<close> or \<open>1\<close>.  The model adds the
  failure of an assertion and the exhaustion of the fuel that bounds the number of loop
  rounds and nested calls.
\<close>

datatype chain_result = Chain_no_fuel | Chain_abort | Chain_return int die_state

text \<open>
  The locals of one call.  \<open>die_off\<close> is read uninitialised in the first round
  (\<open>prev_die_off = die_off\<close>); it starts at 0.  \<open>prev_abbrev\<close> is initialised to \<open>NULL\<close> and
  no statement of the function assigns it.
\<close>

record die_loop =
  got_die :: bool
  sibling_addr :: "64 word"
  die_off :: "64 word"
  prev_die_off :: "64 word"
  prev_abbrev :: "abbrev option"

definition die_loop_init :: die_loop where
  "die_loop_init =
     \<lparr>got_die = False, sibling_addr = 0, die_off = 0, prev_die_off = 0, prev_abbrev = None\<rparr>"

text \<open>What follows the loop (lines 1987-1993).\<close>

definition die_chain_end :: "die_state \<Rightarrow> die_loop \<Rightarrow> chain_result" where
  "die_chain_end st lp =
     Chain_return (if got_die lp then 1 else 0)
       (if sibling_addr lp \<noteq> 0
        then st\<lparr>st_lint :=
               wr_error (PRI_D_INFO @ PRI_CU_DIE @
                   '': This DIE should have had its sibling at 0x%lx, but the DIE chain ended.\<newline>'')
                 [cu_offset (st_cu st), prev_die_off lp, sibling_addr lp] (st_lint st)\<rparr>
        else st)"

text \<open>
  The check of the sibling value advertised in the previous round (lines 1657-1678):
  the messages it prints.
\<close>

definition die_sibling_check ::
  "die_state \<Rightarrow> die_loop \<Rightarrow> 64 word \<Rightarrow> 64 word \<Rightarrow> lint_state \<Rightarrow> lint_state" where
  "die_sibling_check st lp die_off' abbr_code' s =
     (if sibling_addr lp \<noteq> 0 then
        (if abbr_code' = 0
         then wr_error (PRI_D_INFO @ PRI_CU_DIE @
                  '': is the last sibling in chain, but has a DW_AT_sibling attribute.\<newline>'')
                [cu_offset (st_cu st), die_off lp] s
         else if sibling_addr lp \<noteq> die_off'
         then wr_error (PRI_D_INFO @ PRI_CU_DIE @
                  '': This DIE should have had its sibling at 0x%lx, but it's at 0x%lx instead.\<newline>'')
                [cu_offset (st_cu st), die_off lp, sibling_addr lp, die_off'] s
         else s)
      else if prev_abbrev lp \<noteq> None \<and> has_children (the (prev_abbrev lp))
      then message (mc_die_rel_sib OR mc_acc_suboptimal OR mc_impact_4)
             (PRI_D_INFO @ PRI_CU_DIE @
                '': This DIE had children, but no DW_AT_sibling attribute.\<newline>'')
             [cu_offset (st_cu st), die_off lp] s
      else s)"

text \<open>
  One round of the \<open>while\<close> loop and what follows it; \<open>rec\<close> stands for the function
  itself, called for the children (with fresh locals) and for the next round.  \<open>begin\<close>
  is the local of that name, printed with \<open>%p\<close>.  In the round, \<open>prev_die_off\<close> holds the
  previous \<open>die_off\<close>, which is \<open>die_off lp\<close>.
\<close>

definition read_die_chain_round ::
  "(die_env \<Rightarrow> 64 word \<Rightarrow> die_state \<Rightarrow> die_loop \<Rightarrow> chain_result)
     \<Rightarrow> die_env \<Rightarrow> 64 word \<Rightarrow> die_state \<Rightarrow> die_loop \<Rightarrow> chain_result" where
  "read_die_chain_round rec env begin st lp =
     (if read_ctx_eof (st_ctx st) then die_chain_end st lp
      else
        (case checked_read_uleb128 (st_ctx st) (PRI_D_INFO @ PRI_CU_DIE) ''abbrev code''
                [cu_offset (st_cu st), read_ctx_get_offset (st_ctx st)] (st_lint st) of
           (None, ctx1, s1) \<Rightarrow> Chain_return (- 1) (st\<lparr>st_ctx := ctx1, st_lint := s1\<rparr>)
         | (Some abbr_code', ctx1, s1) \<Rightarrow>
             (let die_off' = read_ctx_get_offset (st_ctx st);
                  s2 = die_sibling_check st lp die_off' abbr_code' s1
              in if read_ctx_eof ctx1 \<or> abbr_code' = 0
                 then die_chain_end
                        (st\<lparr>st_ctx := ctx1, st_lint :=
                            (if abbr_code' \<noteq> 0
                             then wr_error (PRI_D_INFO @ PRI_CU @
                                 '': DIE chain at %p not terminated with DIE with zero abbrev code.\<newline>'')
                                    [cu_offset (st_cu st), begin] s2
                             else s2)\<rparr>)
                        (lp\<lparr>sibling_addr := 0, die_off := die_off', prev_die_off := die_off lp\<rparr>)
                 else
                   (case abbrev_table_find_abbrev (st_abbrevs st) abbr_code' of
                      None \<Rightarrow>
                        Chain_return (- 1)
                          (st\<lparr>st_ctx := ctx1, st_lint :=
                              wr_error (PRI_D_INFO @ PRI_CU_DIE @
                                  '': abbrev section at 0x%lx doesn't contain code %lu.\<newline>'')
                                [cu_offset (st_cu st), die_off', offset (st_abbrevs st),
                                 abbr_code'] s2\<rparr>)
                    | Some i \<Rightarrow>
                        (case read_die_attrs env
                                (st\<lparr>st_ctx := ctx1, st_lint := s2,
                                    st_abbrevs := (st_abbrevs st)\<lparr>abbr :=
                                      (abbr (st_abbrevs st))
                                        [i := (abbr (st_abbrevs st) ! i)\<lparr>used := True\<rparr>]\<rparr>,
                                    st_cu := (st_cu st)\<lparr>die_addrs :=
                                      addr_record_add (die_addrs (st_cu st))
                                        (cu_offset (st_cu st) + die_off')\<rparr>\<rparr>)
                                die_off' (abbr (st_abbrevs st) ! i)
                                (attribs (abbr (st_abbrevs st) ! i)) 0 of
                           Attr_abort \<Rightarrow> Chain_abort
                         | Attr_fatal st3 \<Rightarrow> Chain_return (- 1) st3
                         | Attr_next st3 sibling_addr' \<Rightarrow>
                             (if has_children (abbr (st_abbrevs st) ! i) then
                                (case rec env (ptr (st_ctx st3)) st3 die_loop_init of
                                   Chain_return r st4 \<Rightarrow>
                                     (if r = - 1 then Chain_return (- 1) st4
                                      else rec env begin
                                             (if r = 0
                                              then st4\<lparr>st_lint :=
                                                message (mc_impact_3 OR mc_acc_suboptimal
                                                           OR mc_die_rel_child)
                                                  (PRI_D_INFO @ PRI_CU_DIE @
                                                    '': Abbrev has_children, but the chain was empty.\<newline>'')
                                                  [cu_offset (st_cu st4), die_off']
                                                  (st_lint st4)\<rparr>
                                              else st4)
                                             (lp\<lparr>got_die := True, sibling_addr := sibling_addr',
                                                 die_off := die_off', prev_die_off := die_off'\<rparr>))
                                 | r \<Rightarrow> r)
                              else rec env begin st3
                                     (lp\<lparr>got_die := True, sibling_addr := sibling_addr',
                                         die_off := die_off', prev_die_off := die_off'\<rparr>)))))))"

primrec read_die_chain_loop ::
  "nat \<Rightarrow> die_env \<Rightarrow> 64 word \<Rightarrow> die_state \<Rightarrow> die_loop \<Rightarrow> chain_result" where
  "read_die_chain_loop 0 = (\<lambda>env begin st lp. Chain_no_fuel)"
| "read_die_chain_loop (Suc n) = read_die_chain_round (read_die_chain_loop n)"

definition read_die_chain :: "nat \<Rightarrow> die_env \<Rightarrow> die_state \<Rightarrow> chain_result" where
  "read_die_chain fuel env st = read_die_chain_loop fuel env (ptr (st_ctx st)) st die_loop_init"

subsection \<open>Facts about attribute decoding\<close>

text \<open>
  The value of a CU-local reference form as the table of forms gives it: one, two, four
  or eight bytes, or a ULEB128, read at the cursor; with the state the read leaves.
\<close>

definition spec_local_ref_value ::
  "die_state \<Rightarrow> 64 word \<Rightarrow> abbrev \<Rightarrow> abbrev_attrib \<Rightarrow> (64 word \<times> die_state) option" where
  "spec_local_ref_value st die_off' abbrev' it =
     (if attr_form it = DW_FORM_ref1 then
        (case read_ctx_read_ubyte (st_ctx st) of
           (Some v, ctx') \<Rightarrow> Some (ucast v, st\<lparr>st_ctx := ctx'\<rparr>) | (None, ctx') \<Rightarrow> None)
      else if attr_form it = DW_FORM_ref2 then
        (case read_ctx_read_2ubyte (st_ctx st) of
           (Some v, ctx') \<Rightarrow> Some (ucast v, st\<lparr>st_ctx := ctx'\<rparr>) | (None, ctx') \<Rightarrow> None)
      else if attr_form it = DW_FORM_ref4 then
        (case read_ctx_read_4ubyte (st_ctx st) of
           (Some v, ctx') \<Rightarrow> Some (ucast v, st\<lparr>st_ctx := ctx'\<rparr>) | (None, ctx') \<Rightarrow> None)
      else if attr_form it = DW_FORM_ref8 then
        (case read_ctx_read_8ubyte (st_ctx st) of
           (Some v, ctx') \<Rightarrow> Some (v, st\<lparr>st_ctx := ctx'\<rparr>) | (None, ctx') \<Rightarrow> None)
      else if attr_form it = DW_FORM_ref_udata then
        (case checked_read_uleb128 (st_ctx st) (PRI_D_INFO @ PRI_CU_DIE_ABBR_ATTR)
                ''attribute value''
                [cu_offset (st_cu st), die_off', code abbrev', attr_offset it] (st_lint st) of
           (Some v, ctx', s') \<Rightarrow> Some (v, st\<lparr>st_ctx := ctx', st_lint := s'\<rparr>)
         | (None, ctx', s') \<Rightarrow> None)
      else None)"

lemma read_die_attr_ref:
  assumes "spec_local_ref_value st d ab it = Some (v, st1)"
  shows "read_die_attr env st d ab it sib =
           sibling_or_ref st1 d ab it sib v (attr_form it)"
proof -
  from assms have f: "attr_form it = DW_FORM_ref1 \<or> attr_form it = DW_FORM_ref2
      \<or> attr_form it = DW_FORM_ref4 \<or> attr_form it = DW_FORM_ref8
      \<or> attr_form it = DW_FORM_ref_udata"
    by (auto simp: spec_local_ref_value_def split: if_splits)
  then have ni: "attr_form it \<noteq> DW_FORM_indirect" by (auto simp: DW_defs)
  then have r: "read_die_attr env st d ab it sib = read_form_value env st d ab it sib (attr_form it)"
    by (simp add: read_die_attr_def read_indirect_form_def)
  from f show ?thesis
  proof (elim disjE)
    assume a: "attr_form it = DW_FORM_ref1"
    with assms show ?thesis unfolding r
      by (auto simp: spec_local_ref_value_def read_form_value_def DW_defs
          split: prod.splits option.splits)
  next
    assume a: "attr_form it = DW_FORM_ref2"
    with assms show ?thesis unfolding r
      by (auto simp: spec_local_ref_value_def read_form_value_def DW_defs
          split: prod.splits option.splits)
  next
    assume a: "attr_form it = DW_FORM_ref4"
    with assms show ?thesis unfolding r
      by (auto simp: spec_local_ref_value_def read_form_value_def DW_defs
          split: prod.splits option.splits)
  next
    assume a: "attr_form it = DW_FORM_ref8"
    with assms show ?thesis unfolding r
      by (auto simp: spec_local_ref_value_def read_form_value_def DW_defs
          split: prod.splits option.splits)
  next
    assume a: "attr_form it = DW_FORM_ref_udata"
    with assms show ?thesis unfolding r
      by (auto simp: spec_local_ref_value_def read_form_value_def DW_defs
          split: prod.splits option.splits)
  qed
qed

lemma spec_local_ref_value_frame:
  assumes "spec_local_ref_value st d ab it = Some (v, st1)"
  shows "st_cu st1 = st_cu st \<and> st_die_loc_refs st1 = st_die_loc_refs st \<and>
         begin' (st_ctx st1) = begin' (st_ctx st) \<and> end' (st_ctx st1) = end' (st_ctx st)"
proof -
  have u: "\<And>f w a r c' s'. checked_read_uleb128 (st_ctx st) f w a (st_lint st) = (Some r, c', s')
       \<Longrightarrow> begin' c' = begin' (st_ctx st) \<and> end' c' = end' (st_ctx st)"
    by (drule checked_read_uleb128_moved_on) (simp add: moved_on_fields)
  from assms show ?thesis
    by (auto simp: spec_local_ref_value_def read_ctx_read_ubyte_def read_ctx_read_2ubyte_def
        read_ctx_read_4ubyte_def read_ctx_read_8ubyte_def read_unaligned_inc_def
        split: if_splits prod.splits option.splits dest: u)
qed

text \<open>
  States and parameters used below: a CU at section offset \<open>0x20\<close> whose reader spans
  the given bytes, with an empty list of CU-local references and no strings section.
\<close>

definition ref_attr_state :: "8 word list \<Rightarrow> die_state" where
  "ref_attr_state bs =
     \<lparr>st_ctx = section_ctx 0x1000 bs,
      st_cu = \<lparr>cu_offset = 0x20, cu_length = of_nat (length bs), die_addrs = [],
               die_refs = []\<rparr>,
      st_abbrevs = \<lparr>offset = 0, abbr = []\<rparr>,
      st_die_loc_refs = Some [], st_strings_coverage = None, st_lint = initial_state\<rparr>"

definition plain_env :: die_env where
  "plain_env = \<lparr>strings = None, dwarf_64 = False, addr_64 = False\<rparr>"

definition childless_abbrev :: abbrev where
  "childless_abbrev =
     \<lparr>code = 1, tag = 0x11, has_children = False, used = True, attribs = []\<rparr>"

lemmas attr_eval = read_die_attr_def read_indirect_form_def read_form_value_def
  sibling_or_ref_def record_ref_def ref_record_add_def cant_read_def
  ref_attr_state_def plain_env_def childless_abbrev_def spec_local_ref_value_def

lemma ref4_value:
  "spec_local_ref_value (ref_attr_state [4, 0, 0, 0, 0, 0, 0, 0]) 0 childless_abbrev
     \<lparr>attr_offset = 3, attr_name = 0x49, attr_form = DW_FORM_ref4\<rparr>
   = Some (4, (ref_attr_state [4, 0, 0, 0, 0, 0, 0, 0])
               \<lparr>st_ctx := (section_ctx 0x1000 [4, 0, 0, 0, 0, 0, 0, 0])\<lparr>ptr := 0x1004\<rparr>\<rparr>)"
  by (simp add: attr_eval rd_eval DW_defs)

text \<open>
  The boundary: a \<open>DW_FORM_ref4\<close> value equal to the length of the CU's reader (8) passes
  the test \<open>addr > end - begin\<close> and is recorded.
\<close>

lemma boundary_reference_accepted:
  "read_die_attr plain_env (ref_attr_state [8, 0, 0, 0, 0, 0, 0, 0]) 0 childless_abbrev
     \<lparr>attr_offset = 3, attr_name = 0x49, attr_form = DW_FORM_ref4\<rparr> 0
   = Attr_next ((ref_attr_state [8, 0, 0, 0, 0, 0, 0, 0])
        \<lparr>st_ctx := (section_ctx 0x1000 [8, 0, 0, 0, 0, 0, 0, 0])\<lparr>ptr := 0x1004\<rparr>,
         st_die_loc_refs := Some [(0x28, 0)]\<rparr>) 0 \<and>
   end' (st_ctx (ref_attr_state [8, 0, 0, 0, 0, 0, 0, 0]))
     - begin' (st_ctx (ref_attr_state [8, 0, 0, 0, 0, 0, 0, 0])) = 8"
  by (simp add: attr_eval rd_eval DW_defs)

subsection \<open>Claims about attribute decoding\<close>

text \<open>
  Claim C3, amended.  During DIE attribute decoding, for an attribute whose abbreviation
  form is \<open>DW_FORM_ref1\<close>, \<open>ref2\<close>, \<open>ref4\<close>, \<open>ref8\<close> or \<open>ref_udata\<close> and whose name is not
  \<open>DW_AT_sibling\<close>: a value greater than the length of the CU's reader (\<open>end - begin\<close>) is
  rejected with the error "invalid reference outside the CU" and is not recorded; a
  value less than that length is recorded as \<open>value + cu.section_offset\<close> (modulo \<open>2^64\<close>)
  in the CU-local reference list, when there is one.  The value of a \<open>DW_AT_sibling\<close>
  attribute is latched as \<open>sibling_addr\<close> instead and is neither checked nor recorded.
\<close>

theorem local_reference_validation:
  assumes rd: "spec_local_ref_value st d ab it = Some (v, st1)"
    and ne: "begin' (st_ctx st) < end' (st_ctx st)"
  shows
    "(attr_name it \<noteq> DW_AT_sibling \<and> v > end' (st_ctx st) - begin' (st_ctx st) \<longrightarrow>
        read_die_attr env st d ab it sib =
          Attr_next (st1\<lparr>st_lint :=
              wr_error (PRI_D_INFO @ PRI_CU_DIE_ABBR_ATTR
                          @ '': invalid reference outside the CU: 0x%lx.\<newline>'')
                [cu_offset (st_cu st), d, code ab, attr_offset it, v] (st_lint st1)\<rparr>) sib) \<and>
     (attr_name it \<noteq> DW_AT_sibling \<and> v < end' (st_ctx st) - begin' (st_ctx st) \<longrightarrow>
        read_die_attr env st d ab it sib =
          Attr_next (st1\<lparr>st_die_loc_refs :=
              map_option (\<lambda>rr. rr @ [(v + cu_offset (st_cu st), d)]) (st_die_loc_refs st)\<rparr>)
            sib) \<and>
     (attr_name it = DW_AT_sibling \<longrightarrow> read_die_attr env st d ab it sib = Attr_next st1 v)"
proof -
  note fr = spec_local_ref_value_frame[OF rd]
  have r: "read_die_attr env st d ab it sib = sibling_or_ref st1 d ab it sib v (attr_form it)"
    using rd by (rule read_die_attr_ref)
  have a: "attr_name it = DW_AT_sibling \<Longrightarrow> sibling_or_ref st1 d ab it sib v (attr_form it)
             = Attr_next st1 v"
    by (simp add: sibling_or_ref_def)
  have b: "attr_name it \<noteq> DW_AT_sibling \<Longrightarrow> v > end' (st_ctx st) - begin' (st_ctx st) \<Longrightarrow>
      sibling_or_ref st1 d ab it sib v (attr_form it) =
          Attr_next (st1\<lparr>st_lint :=
              wr_error (PRI_D_INFO @ PRI_CU_DIE_ABBR_ATTR
                          @ '': invalid reference outside the CU: 0x%lx.\<newline>'')
                [cu_offset (st_cu st), d, code ab, attr_offset it, v] (st_lint st1)\<rparr>) sib"
    using fr ne by (simp add: sibling_or_ref_def record_ref_def)
  have c: "attr_name it \<noteq> DW_AT_sibling \<Longrightarrow> v < end' (st_ctx st) - begin' (st_ctx st) \<Longrightarrow>
      sibling_or_ref st1 d ab it sib v (attr_form it) =
          Attr_next (st1\<lparr>st_die_loc_refs :=
              map_option (\<lambda>rr. rr @ [(v + cu_offset (st_cu st), d)]) (st_die_loc_refs st)\<rparr>)
            sib"
  proof -
    assume n: "attr_name it \<noteq> DW_AT_sibling" and lt: "v < end' (st_ctx st) - begin' (st_ctx st)"
    then have ng: "\<not> v > end' (st_ctx st) - begin' (st_ctx st)" by simp
    show ?thesis
    proof (cases "st_die_loc_refs st")
      case None
      with fr have "st1\<lparr>st_die_loc_refs := None\<rparr> = st1" by (cases st1) simp
      with n ng fr ne None show ?thesis
        by (simp add: sibling_or_ref_def record_ref_def)
    next
      case (Some rr)
      with n ng fr ne show ?thesis
        by (simp add: sibling_or_ref_def record_ref_def ref_record_add_def)
    qed
  qed
  from a b c show ?thesis unfolding r by blast
qed

theorem local_reference_validation_witness:
  "begin' (st_ctx (ref_attr_state [4, 0, 0, 0, 0, 0, 0, 0]))
     < end' (st_ctx (ref_attr_state [4, 0, 0, 0, 0, 0, 0, 0])) \<and>
   read_die_attr plain_env (ref_attr_state [4, 0, 0, 0, 0, 0, 0, 0]) 0 childless_abbrev
     \<lparr>attr_offset = 3, attr_name = 0x49, attr_form = DW_FORM_ref4\<rparr> 0
   = Attr_next ((ref_attr_state [4, 0, 0, 0, 0, 0, 0, 0])
        \<lparr>st_ctx := (section_ctx 0x1000 [4, 0, 0, 0, 0, 0, 0, 0])\<lparr>ptr := 0x1004\<rparr>,
         st_die_loc_refs := Some [(0x24, 0)]\<rparr>) 0"
proof -
  let ?st = "ref_attr_state [4, 0, 0, 0, 0, 0, 0, 0]"
  have ne: "begin' (st_ctx ?st) < end' (st_ctx ?st)"
    by (simp add: ref_attr_state_def rd_eval)
  have lt: "(4 :: 64 word) < end' (st_ctx ?st) - begin' (st_ctx ?st)"
    by (simp add: ref_attr_state_def rd_eval)
  have n: "attr_name \<lparr>attr_offset = 3, attr_name = 0x49, attr_form = DW_FORM_ref4\<rparr>
            \<noteq> DW_AT_sibling" by (simp add: DW_defs)
  from local_reference_validation[OF ref4_value ne, of plain_env 0] n lt ne show ?thesis
    by (simp add: ref_attr_state_def)
qed

text \<open>
  Claim C3 as stated fails: the \<open>DW_FORM_ref4\<close> value 4 of a \<open>DW_AT_sibling\<close> attribute,
  inside a CU reader of length 8, leaves the CU-local reference list empty.
\<close>

theorem sibling_reference_not_recorded:
  "read_die_attr plain_env (ref_attr_state [4, 0, 0, 0, 0, 0, 0, 0]) 0 childless_abbrev
     \<lparr>attr_offset = 3, attr_name = DW_AT_sibling, attr_form = DW_FORM_ref4\<rparr> 0
   = Attr_next ((ref_attr_state [4, 0, 0, 0, 0, 0, 0, 0])
        \<lparr>st_ctx := (section_ctx 0x1000 [4, 0, 0, 0, 0, 0, 0, 0])\<lparr>ptr := 0x1004\<rparr>\<rparr>) 4 \<and>
   (4 :: 64 word) < end' (st_ctx (ref_attr_state [4, 0, 0, 0, 0, 0, 0, 0]))
                     - begin' (st_ctx (ref_attr_state [4, 0, 0, 0, 0, 0, 0, 0])) \<and>
   st_die_loc_refs (ref_attr_state [4, 0, 0, 0, 0, 0, 0, 0]) = Some []"
  by (simp add: attr_eval rd_eval DW_defs)

subsection \<open>Claims about the DIE chain\<close>

text \<open>
  With \<open>prev_abbrev\<close> at \<open>NULL\<close> and no sibling latched, the check of lines 1657-1678
  prints nothing.
\<close>

lemma die_sibling_check_without_prev_abbrev:
  "prev_abbrev lp = None \<Longrightarrow> sibling_addr lp = 0 \<Longrightarrow> die_sibling_check st lp d c s = s"
  by (simp add: die_sibling_check_def)

text \<open>
  A chain of three DIEs: code 1 (with children, no attributes) at offset 0, its child of
  code 2 at offset 1, the terminator of the children at 2, a sibling of code 2 at offset
  3 and the terminator at 4.
\<close>

definition parent_then_sibling :: "8 word list" where
  "parent_then_sibling = [0x01, 0x02, 0x00, 0x02, 0x00]"

definition parent_child_abbrevs :: abbrev_table where
  "parent_child_abbrevs =
     \<lparr>offset = 0,
      abbr = [\<lparr>code = 1, tag = 0x11, has_children = True, used = False,
               attribs = [\<lparr>attr_offset = 3, attr_name = 0, attr_form = 0\<rparr>]\<rparr>,
              \<lparr>code = 2, tag = 0x24, has_children = False, used = False,
               attribs = [\<lparr>attr_offset = 8, attr_name = 0, attr_form = 0\<rparr>]\<rparr>]\<rparr>"

definition die_chain_state :: "8 word list \<Rightarrow> abbrev_table \<Rightarrow> die_state" where
  "die_chain_state bs abbrevs =
     \<lparr>st_ctx = section_ctx 0x1000 bs,
      st_cu = \<lparr>cu_offset = 0x20, cu_length = of_nat (length bs), die_addrs = [],
               die_refs = []\<rparr>,
      st_abbrevs = abbrevs,
      st_die_loc_refs = Some [], st_strings_coverage = None, st_lint = initial_state\<rparr>"

text \<open>
  Claim C4.  The DIE at offset 0 has children and no \<open>DW_AT_sibling\<close>; the round that
  decodes the DIE at offset 3 follows it.  \<open>read_die_chain\<close> returns 1 with all three DIEs
  recorded and nothing printed: the warning "This DIE had children, but no DW_AT_sibling
  attribute" is not emitted.
\<close>

theorem children_without_sibling_not_reported:
  "(case read_die_chain 8 plain_env (die_chain_state parent_then_sibling parent_child_abbrevs) of
      Chain_return r st \<Rightarrow>
        r = 1 \<and> stdout (st_lint st) = [] \<and> die_addrs (st_cu st) = [0x20, 0x21, 0x23]
        \<and> ptr (st_ctx st) = 0x1005
    | _ \<Rightarrow> False)"
  by code_simp

section \<open>The structural check of .debug_info (lines 1358-1621 and 1996-2113)\<close>

text \<open>
  What a function returns that may run out of fuel (the bound on the rounds of the
  loops and on the nesting of the calls below) or end the process on a failed assertion.
\<close>

datatype 'a outcome = No_fuel | Abort | Ret 'a

abbreviation PRI_D_STR :: string where "PRI_D_STR \<equiv> ''.debug_str: ''"

fun check_die_references :: "cu \<Rightarrow> ref_record \<Rightarrow> lint_state \<Rightarrow> bool \<times> lint_state" where
  "check_die_references cu' [] s = (True, s)"
| "check_die_references cu' (ref # refs) s =
     (if \<not> addr_record_has_addr (die_addrs cu') (fst ref)
      then (False,
            snd (check_die_references cu' refs
                   (wr_error (PRI_D_INFO @ PRI_CU_DIE @ '': unresolved reference to DIE 0x%lx.\<newline>'')
                      [cu_offset cu', snd ref, fst ref] s)))
      else check_die_references cu' refs s)"

text \<open>
  \<open>check_global_die_references\<close> (lines 1377-1409).  The CUs of the chain are told apart
  by their position in it (\<open>ref_cu == it\<close> compares pointers); \<open>find_ref_cu\<close> is the inner
  loop that looks for the first CU holding the address.
\<close>

fun find_ref_cu :: "cu list \<Rightarrow> nat \<Rightarrow> 64 word \<Rightarrow> nat option" where
  "find_ref_cu [] j addr = None"
| "find_ref_cu (jt # rest) j addr =
     (if addr_record_has_addr (die_addrs jt) addr then Some j
      else find_ref_cu rest (Suc j) addr)"

fun check_global_refs ::
  "cu list \<Rightarrow> nat \<Rightarrow> ref_record \<Rightarrow> bool \<Rightarrow> lint_state \<Rightarrow> bool \<times> lint_state" where
  "check_global_refs cu_chain i [] retval s = (retval, s)"
| "check_global_refs cu_chain i (ref # refs) retval s =
     (case find_ref_cu cu_chain 0 (fst ref) of
        None \<Rightarrow>
          check_global_refs cu_chain i refs False
            (wr_error (PRI_D_INFO @ PRI_CU_DIE
                         @ '': unresolved (non-CU-local) reference to DIE 0x%lx.\<newline>'')
               [cu_offset (cu_chain ! i), snd ref, fst ref] s)
      | Some j \<Rightarrow>
          check_global_refs cu_chain i refs retval
            (if j = i
             then message (mc_impact_2 OR mc_acc_suboptimal OR mc_die_rel_ref)
                    (PRI_D_INFO @ PRI_CU_DIE
                       @ '': local reference to DIE 0x%lx formed as global.\<newline>'')
                    [cu_offset (cu_chain ! i), snd ref, fst ref] s
             else s))"

fun check_global_cus ::
  "cu list \<Rightarrow> nat list \<Rightarrow> bool \<Rightarrow> lint_state \<Rightarrow> bool \<times> lint_state" where
  "check_global_cus cu_chain [] retval s = (retval, s)"
| "check_global_cus cu_chain (i # is) retval s =
     (case check_global_refs cu_chain i (die_refs (cu_chain ! i)) retval s of
        (retval', s') \<Rightarrow> check_global_cus cu_chain is retval' s')"

definition check_global_die_references :: "cu list \<Rightarrow> lint_state \<Rightarrow> bool \<times> lint_state" where
  "check_global_die_references cu_chain s =
     check_global_cus cu_chain [0..<length cu_chain] True s"

text \<open>
  \<open>read_size_extra\<close> (lines 1411-1450).  \<open>dwarf_64\<close> is the value \<open>*dwarf_64p\<close> holds at
  the call, which the function leaves alone unless the length is the 64-bit escape.
  The two format strings end in \<open>.n\<close> in the source.
\<close>

definition read_size_extra ::
  "read_ctx \<Rightarrow> 32 word \<Rightarrow> bool \<Rightarrow> string \<Rightarrow> 64 word list \<Rightarrow> lint_state
     \<Rightarrow> (64 word \<times> bool) option \<times> read_ctx \<times> lint_state" where
  "read_size_extra ctx size32 dwarf_64' format ap s =
     (if size32 = DWARF3_LENGTH_64_BIT then
        (case read_ctx_read_8ubyte ctx of
           (None, ctx') \<Rightarrow>
             (None, ctx', wr_error (format @ '': can't read 64bit CU length.n'') ap s)
         | (Some size', ctx') \<Rightarrow> (Some (size', True), ctx', s))
      else if size32 \<ge> DWARF3_LENGTH_MIN_ESCAPE_CODE then
        (None, ctx,
         wr_error (format @ '': unrecognized CU length escape value: %x.n'')
           (ap @ [ucast size32]) s)
      else (Some (ucast size32, dwarf_64'), ctx, s))"

text \<open>
  \<open>check_zero_padding\<close> (lines 1452-1474): the loop over the remaining bytes, then the
  function; \<open>None\<close> is the failure of \<open>assert (ctx->ptr != ctx->end)\<close>.
\<close>

function skip_zero_bytes :: "read_ctx \<Rightarrow> bool \<times> read_ctx" where
  "skip_zero_bytes ctx =
     (if read_ctx_eof ctx then (True, ctx)
      else if mem ctx (ptr ctx) \<noteq> 0 then (False, ctx\<lparr>ptr := ptr ctx + 1\<rparr>)
      else skip_zero_bytes (ctx\<lparr>ptr := ptr ctx + 1\<rparr>))"
  by pat_completeness auto
termination
proof (relation "measure remaining", goal_cases)
  case 1
  show ?case by simp
next
  case (2 ctx)
  then have "ptr ctx < end' ctx" by (simp add: read_ctx_eof_def need_data_1)
  with word_succ_le[of "ptr ctx" "end' ctx"] have "moved_on ctx (ctx\<lparr>ptr := ptr ctx + 1\<rparr>)"
    by (simp add: moved_on_def)
  then show ?case by (simp add: moved_on_remaining)
qed

declare skip_zero_bytes.simps [simp del]

definition check_zero_padding ::
  "read_ctx \<Rightarrow> message_category \<Rightarrow> string \<Rightarrow> 64 word list \<Rightarrow> lint_state
     \<Rightarrow> (bool \<times> read_ctx \<times> lint_state) option" where
  "check_zero_padding ctx category format ap s =
     (if ptr ctx = end' ctx then None
      else
        (case skip_zero_bytes ctx of
           (False, ctx') \<Rightarrow> Some (False, ctx, s)
         | (True, ctx') \<Rightarrow>
             Some (True, ctx',
                   vmessage_padding_0 category (ptr ctx - begin' ctx) (end' ctx - begin' ctx)
                     format ap s)))"

text \<open>\<open>read_version\<close> (lines 1996-2037): the return value, the version read, the rest.\<close>

definition read_version ::
  "read_ctx \<Rightarrow> bool \<Rightarrow> string \<Rightarrow> 64 word list \<Rightarrow> lint_state
     \<Rightarrow> bool \<times> 16 word option \<times> read_ctx \<times> lint_state" where
  "read_version ctx dwarf_64' format ap s =
     (case read_ctx_read_2ubyte ctx of
        (None, ctx') \<Rightarrow>
          (False, None, ctx', wr_error (format @ '': can't read version.\<newline>'') ap s)
      | (Some version, ctx') \<Rightarrow>
          (if version < 2 \<or> version > 3
           then (False, Some version, ctx',
                 wr_error (format @ '': '' @ (if version < 2 then ''invalid'' else ''unsupported'')
                             @ '' version %d.\<newline>'')
                   (ap @ [ucast version]) s)
           else if version = 2 \<and> dwarf_64'
           then (True, Some version, ctx',
                 wr_error (format @ '': invalid 64-bit unit in DWARF 2 format.\<newline>'') ap s)
           else (True, Some version, ctx', s)))"

text \<open>The search of the abbrev chain by offset in \<open>check_cu_structural\<close> (lines 2076-2079).\<close>

fun find_abbrev_table :: "abbrev_table list \<Rightarrow> nat \<Rightarrow> 64 word \<Rightarrow> nat option" where
  "find_abbrev_table [] k abbrev_offset = None"
| "find_abbrev_table (t # ts) k abbrev_offset =
     (if offset t = abbrev_offset then Some k else find_abbrev_table ts (Suc k) abbrev_offset)"

fun report_unused_abbrevs :: "cu \<Rightarrow> abbrev list \<Rightarrow> lint_state \<Rightarrow> lint_state" where
  "report_unused_abbrevs cu' [] s = s"
| "report_unused_abbrevs cu' (a # as) s =
     report_unused_abbrevs cu' as
       (if \<not> used a
        then message (mc_impact_3 OR mc_acc_bloat OR mc_abbrevs)
               (PRI_D_INFO @ PRI_CU @ '': Abbreviation with code %lu is never used.\<newline>'')
               [cu_offset cu', code a] s
        else s)"

text \<open>
  \<open>check_cu_structural\<close> (lines 2039-2113).  The result is the return value, the reader,
  the CU, the abbrev chain (whose table for this CU has its \<open>used\<close> flags updated), the
  strings coverage and the state.
\<close>

definition check_cu_structural ::
  "nat \<Rightarrow> read_ctx \<Rightarrow> cu \<Rightarrow> abbrev_table list \<Rightarrow> 8 word list option \<Rightarrow> bool
     \<Rightarrow> coverage option \<Rightarrow> lint_state
     \<Rightarrow> (bool \<times> read_ctx \<times> cu \<times> abbrev_table list \<times> coverage option \<times> lint_state) outcome"
  where
  "check_cu_structural fuel ctx cu' abbrev_chain strings' dwarf_64' strings_coverage s =
     (case read_version ctx dwarf_64' (PRI_D_INFO @ PRI_CU) [cu_offset cu'] s of
        (False, version, ctx1, s1) \<Rightarrow>
          Ret (False, ctx1, cu', abbrev_chain, strings_coverage, s1)
      | (True, version, ctx1, s1) \<Rightarrow>
          (case read_ctx_read_offset ctx1 dwarf_64' of
             (None, ctx2) \<Rightarrow>
               Ret (False, ctx2, cu', abbrev_chain, strings_coverage,
                    wr_error (PRI_D_INFO @ PRI_CU @ '': can't read abbrev offset.\<newline>'')
                      [cu_offset cu'] s1)
           | (Some abbrev_offset, ctx2) \<Rightarrow>
               (case read_ctx_read_ubyte ctx2 of
                  (None, ctx3) \<Rightarrow>
                    Ret (False, ctx3, cu', abbrev_chain, strings_coverage,
                         wr_error (PRI_D_INFO @ PRI_CU @ '': can't read address size.\<newline>'')
                           [cu_offset cu'] s1)
                | (Some address_size, ctx3) \<Rightarrow>
                    (if address_size \<noteq> 4 \<and> address_size \<noteq> 8
                     then Ret (False, ctx3, cu', abbrev_chain, strings_coverage,
                               wr_error (PRI_D_INFO @ PRI_CU
                                   @ '': Invalid address size: %d (only 4 or 8 allowed).\<newline>'')
                                 [cu_offset cu', ucast address_size] s1)
                     else
                       (case find_abbrev_table abbrev_chain 0 abbrev_offset of
                          None \<Rightarrow>
                            Ret (False, ctx3, cu', abbrev_chain, strings_coverage,
                                 wr_error (PRI_D_INFO @ PRI_CU
                                     @ '': Couldn't find abbrev section with offset 0x%lx.\<newline>'')
                                   [cu_offset cu', abbrev_offset] s1)
                        | Some k \<Rightarrow>
                            (case read_die_chain fuel
                                    \<lparr>strings = strings', dwarf_64 = dwarf_64',
                                     addr_64 = (address_size = 8)\<rparr>
                                    \<lparr>st_ctx = ctx3, st_cu = cu', st_abbrevs = abbrev_chain ! k,
                                     st_die_loc_refs = Some [],
                                     st_strings_coverage = strings_coverage, st_lint = s1\<rparr> of
                               Chain_no_fuel \<Rightarrow> No_fuel
                             | Chain_abort \<Rightarrow> Abort
                             | Chain_return r st \<Rightarrow>
                                 (if r \<ge> 0
                                  then (case check_die_references (st_cu st)
                                               (case st_die_loc_refs st of
                                                  None \<Rightarrow> [] | Some rr \<Rightarrow> rr)
                                               (report_unused_abbrevs cu' (abbr (st_abbrevs st))
                                                  (st_lint st)) of
                                          (retval, s2) \<Rightarrow>
                                            Ret (retval, st_ctx st, st_cu st,
                                                 abbrev_chain[k := st_abbrevs st],
                                                 st_strings_coverage st, s2))
                                  else Ret (False, st_ctx st, st_cu st,
                                            abbrev_chain[k := st_abbrevs st],
                                            st_strings_coverage st, st_lint st))))))))"

text \<open>
  \<open>check_debug_info_structural\<close> (lines 1476-1621).  What the CU loop carries besides the
  reader: the CU chain (the head first), the abbrev chain, the strings coverage and the
  state.
\<close>

record info_acc =
  ia_cu_chain :: "cu list"
  ia_abbrev_chain :: "abbrev_table list"
  ia_strings_coverage :: "coverage option"
  ia_lint :: lint_state

text \<open>
  Reading the length of a CU (lines 1510-1542): the process ends on a failed assertion,
  the loop is left with the given value of \<open>success\<close>, or the length and \<open>dwarf_64\<close> are
  known.
\<close>

datatype cu_length_result =
  Len_abort | Len_break bool read_ctx lint_state | Len_ok "64 word" bool read_ctx lint_state

definition read_cu_length :: "read_ctx \<Rightarrow> lint_state \<Rightarrow> cu_length_result" where
  "read_cu_length ctx s =
     (case (if \<not> read_ctx_need_data ctx 4
            then check_zero_padding ctx mc_die_other (PRI_D_INFO @ PRI_CU)
                   [read_ctx_get_offset ctx] s
            else Some (False, ctx, s)) of
        None \<Rightarrow> Len_abort
      | Some (True, ctx0, s0) \<Rightarrow> Len_break True ctx0 s0
      | Some (False, ctx0, s0) \<Rightarrow>
          (case read_ctx_read_4ubyte ctx0 of
             (None, ctx1) \<Rightarrow>
               Len_break False ctx1
                 (wr_error (PRI_D_INFO @ PRI_CU @ '': can't read CU length.\<newline>'')
                    [read_ctx_get_offset ctx] s0)
           | (Some size32, ctx1) \<Rightarrow>
               (case (if size32 = 0
                      then check_zero_padding ctx1 mc_die_other (PRI_D_INFO @ PRI_CU)
                             [read_ctx_get_offset ctx] s0
                      else Some (False, ctx1, s0)) of
                  None \<Rightarrow> Len_abort
                | Some (True, ctx2, s2) \<Rightarrow> Len_break True ctx2 s2
                | Some (False, ctx2, s2) \<Rightarrow>
                    (case read_size_extra ctx2 size32 False (PRI_D_INFO @ PRI_CU)
                            [read_ctx_get_offset ctx] s2 of
                       (None, ctx3, s3) \<Rightarrow> Len_break False ctx3 s3
                     | (Some (size', dwarf_64'), ctx3, s3) \<Rightarrow>
                         (if \<not> read_ctx_need_data ctx3 size'
                          then Len_break False (ctx3\<lparr>ptr := end' ctx3\<rparr>)
                                 (wr_error (PRI_D_INFO @ PRI_CU @
                                     '': section doesn't have enough data to read CU of size %lx.\<newline>'')
                                    [read_ctx_get_offset ctx, size'] s3)
                          else Len_ok size' dwarf_64' ctx3 s3)))))"

text \<open>
  One round of the loop.  The new CU is pushed at the head of the chain before anything
  is read, so it stays there also when the round leaves the loop.
\<close>

datatype info_round =
  Info_abort | Info_no_fuel | Info_break bool read_ctx info_acc | Info_next read_ctx info_acc

definition check_debug_info_round ::
  "nat \<Rightarrow> 8 word list option \<Rightarrow> read_ctx \<Rightarrow> info_acc \<Rightarrow> info_round" where
  "check_debug_info_round fuel strings' ctx acc =
     (case read_cu_length ctx (ia_lint acc) of
        Len_abort \<Rightarrow> Info_abort
      | Len_break success ctx' s' \<Rightarrow>
          Info_break success ctx'
            (acc\<lparr>ia_cu_chain :=
                   \<lparr>cu_offset = read_ctx_get_offset ctx, cu_length = 0, die_addrs = [],
                    die_refs = []\<rparr> # ia_cu_chain acc,
                 ia_lint := s'\<rparr>)
      | Len_ok size' dwarf_64' ctx1 s1 \<Rightarrow>
          (if size' < 2 + (if dwarf_64' then 8 else 4) + 1
           then Info_break False ctx1
                  (acc\<lparr>ia_cu_chain :=
                         \<lparr>cu_offset = read_ctx_get_offset ctx,
                          cu_length = ptr ctx1 + size' - ptr ctx, die_addrs = [],
                          die_refs = []\<rparr> # ia_cu_chain acc,
                       ia_lint :=
                         wr_error (PRI_D_INFO @ PRI_CU @
                             '': claimed length of %lx doesn't even cover CU header.\<newline>'')
                           [read_ctx_get_offset ctx, size'] s1\<rparr>)
           else
             (case check_cu_structural fuel
                     (ctx1\<lparr>begin' := ptr ctx, end' := ptr ctx1 + size'\<rparr>)
                     \<lparr>cu_offset = read_ctx_get_offset ctx,
                      cu_length = ptr ctx1 + size' - ptr ctx, die_addrs = [], die_refs = []\<rparr>
                     (ia_abbrev_chain acc) strings' dwarf_64' (ia_strings_coverage acc) s1 of
                No_fuel \<Rightarrow> Info_no_fuel
              | Abort \<Rightarrow> Info_abort
              | Ret (retval, cu_ctx, cur, abbrev_chain', coverage', s2) \<Rightarrow>
                  (if \<not> retval
                   then Info_break False ctx1
                          \<lparr>ia_cu_chain = cur # ia_cu_chain acc,
                           ia_abbrev_chain = abbrev_chain', ia_strings_coverage = coverage',
                           ia_lint = s2\<rparr>
                   else
                     (case (if ptr cu_ctx \<noteq> end' cu_ctx
                            then check_zero_padding cu_ctx mc_die_other (PRI_D_INFO @ PRI_CU)
                                   [read_ctx_get_offset ctx] s2
                            else Some (True, cu_ctx, s2)) of
                        None \<Rightarrow> Info_abort
                      | Some (padded, cu_ctx', s3) \<Rightarrow>
                          Info_next (ctx1\<lparr>ptr := ptr ctx1 + size'\<rparr>)
                            \<lparr>ia_cu_chain = cur # ia_cu_chain acc,
                             ia_abbrev_chain = abbrev_chain',
                             ia_strings_coverage = coverage',
                             ia_lint =
                               (if \<not> padded
                                then message_padding_n0 mc_die_other
                                       (read_ctx_get_offset ctx1) size' (PRI_D_INFO @ PRI_CU)
                                       [read_ctx_get_offset ctx] s3
                                else s3)\<rparr>)))))"


lemma need_data_moved_on:
  "read_ctx_need_data ctx n \<Longrightarrow> n \<noteq> 0 \<Longrightarrow> moved_on ctx (ctx\<lparr>ptr := ptr ctx + n\<rparr>)"
proof -
  assume a: "read_ctx_need_data ctx n" and n: "n \<noteq> 0"
  then have "ptr ctx + n \<le> end' ctx" "ptr ctx < ptr ctx + n"
    by (simp_all add: read_ctx_need_data_def Let_def)
  then show ?thesis by (simp add: moved_on_def)
qed

lemma read_4ubyte_moved_on:
  "read_ctx_read_4ubyte ctx = (Some v, ctx') \<Longrightarrow> moved_on ctx ctx'"
  using need_data_moved_on[of ctx 4]
  by (auto simp: read_ctx_read_4ubyte_def read_unaligned_inc_def split: if_splits)

lemma read_8ubyte_moved_on:
  "read_ctx_read_8ubyte ctx = (Some v, ctx') \<Longrightarrow> moved_on ctx ctx'"
  using need_data_moved_on[of ctx 8]
  by (auto simp: read_ctx_read_8ubyte_def read_unaligned_inc_def split: if_splits)

lemma read_2ubyte_moved_on:
  "read_ctx_read_2ubyte ctx = (Some v, ctx') \<Longrightarrow> moved_on ctx ctx'"
  using need_data_moved_on[of ctx 2]
  by (auto simp: read_ctx_read_2ubyte_def read_unaligned_inc_def split: if_splits)

lemma check_zero_padding_False:
  "check_zero_padding ctx cat f a s = Some (False, ctx', s') \<Longrightarrow> ctx' = ctx"
  by (auto simp: check_zero_padding_def split: if_splits prod.splits bool.splits)

lemma read_size_extra_ctx:
  "read_size_extra ctx size32 d f a s = (Some r, ctx', s') \<Longrightarrow> ctx' = ctx \<or> moved_on ctx ctx'"
  by (auto simp: read_size_extra_def split: if_splits prod.splits option.splits
      dest: read_8ubyte_moved_on)

lemma read_cu_length_ok:
  assumes "read_cu_length ctx s = Len_ok sz d ctx1 s1"
  shows "moved_on ctx ctx1 \<and> read_ctx_need_data ctx1 sz"
proof -
  from assms obtain ctx0 s0 where
    a: "(if \<not> read_ctx_need_data ctx 4
            then check_zero_padding ctx mc_die_other (PRI_D_INFO @ PRI_CU)
                   [read_ctx_get_offset ctx] s
            else Some (False, ctx, s)) = Some (False, ctx0, s0)"
    by (auto simp: read_cu_length_def split: option.splits bool.splits prod.splits)
  then have c0: "ctx0 = ctx" by (auto split: if_splits dest: check_zero_padding_False)
  from assms a obtain size32 c1 where
    b: "read_ctx_read_4ubyte ctx0 = (Some size32, c1)"
    by (auto simp: read_cu_length_def split: option.splits bool.splits prod.splits)
  from b c0 have m1: "moved_on ctx c1" by (auto dest: read_4ubyte_moved_on)
  from assms a b obtain c2 s2 where
    c: "(if size32 = 0
                      then check_zero_padding c1 mc_die_other (PRI_D_INFO @ PRI_CU)
                             [read_ctx_get_offset ctx] s0
                      else Some (False, c1, s0)) = Some (False, c2, s2)"
    by (auto simp: read_cu_length_def split: option.splits bool.splits prod.splits)
  then have c2: "c2 = c1" by (auto split: if_splits dest: check_zero_padding_False)
  from assms a b c have
    e: "read_size_extra c2 size32 False (PRI_D_INFO @ PRI_CU) [read_ctx_get_offset ctx] s2
          = (Some (sz, d), ctx1, s1)" and nd: "read_ctx_need_data ctx1 sz"
    by (auto simp: read_cu_length_def split: option.splits bool.splits prod.splits if_splits)
  from read_size_extra_ctx[OF e] c2 m1 have "moved_on ctx ctx1"
    by (auto intro: moved_on_trans)
  with nd show ?thesis by simp
qed

lemma check_debug_info_round_moved_on:
  assumes "check_debug_info_round fuel strs ctx acc = Info_next ctx' acc'"
  shows "moved_on ctx ctx'"
proof -
  from assms obtain sz d ctx1 s1 where
    l: "read_cu_length ctx (ia_lint acc) = Len_ok sz d ctx1 s1"
    and big: "\<not> sz < 2 + (if d then 8 else 4) + 1"
    and c: "ctx' = ctx1\<lparr>ptr := ptr ctx1 + sz\<rparr>"
    by (auto simp: check_debug_info_round_def
        split: cu_length_result.splits if_splits outcome.splits option.splits prod.splits)
  from big have "sz \<noteq> 0" by (auto split: if_splits)
  with read_cu_length_ok[OF l] c show ?thesis
    by (auto intro: moved_on_trans need_data_moved_on)
qed

function check_debug_info_loop ::
  "nat \<Rightarrow> 8 word list option \<Rightarrow> read_ctx \<Rightarrow> info_acc
     \<Rightarrow> (bool \<times> read_ctx \<times> info_acc) outcome" where
  "check_debug_info_loop fuel strings' ctx acc =
     (if read_ctx_eof ctx then Ret (True, ctx, acc)
      else
        (case check_debug_info_round fuel strings' ctx acc of
           Info_abort \<Rightarrow> Abort
         | Info_no_fuel \<Rightarrow> No_fuel
         | Info_break success ctx' acc' \<Rightarrow> Ret (success, ctx', acc')
         | Info_next ctx' acc' \<Rightarrow> check_debug_info_loop fuel strings' ctx' acc'))"
  by pat_completeness auto
termination
  by (relation "measure (\<lambda>(fuel, strings', ctx, acc). remaining ctx)")
    (auto dest!: check_debug_info_round_moved_on intro: moved_on_remaining)

declare check_debug_info_loop.simps [simp del]

text \<open>
  The callback \<open>hole\<close> of lines 1591-1607, for every hole \<open>coverage_find_holes\<close> reports:
  the bytes \<open>begin..end\<close> of the strings section, both ends included.
\<close>

fun report_string_holes ::
  "8 word list \<Rightarrow> (64 word \<times> 64 word) list \<Rightarrow> lint_state \<Rightarrow> lint_state" where
  "report_string_holes bs [] s = s"
| "report_string_holes bs ((b, e) # holes) s =
     report_string_holes bs holes
       (if list_all (\<lambda>c. c = 0) (take (unat e + 1 - unat b) (drop (unat b) bs))
        then message_padding_0 mc_strings b e PRI_D_STR [] s
        else message_padding_n0 mc_strings b e PRI_D_STR [] s)"

text \<open>
  \<open>check_debug_info_structural\<close>: the CU chain it returns (\<open>[]\<close> is \<open>NULL\<close>), the abbrev
  chain with its \<open>used\<close> flags, the reader and the state.  \<open>success\<close> is the flag of that
  name when the loop is left; \<open>info_acc_init\<close> is the state of the locals before the loop
  (lines 1481-1494).
\<close>

definition info_acc_init :: "abbrev_table list \<Rightarrow> 8 word list option \<Rightarrow> lint_state \<Rightarrow> info_acc"
  where
  "info_acc_init abbrev_chain strings' s =
     \<lparr>ia_cu_chain = [], ia_abbrev_chain = abbrev_chain,
      ia_strings_coverage =
        (case strings' of
           None \<Rightarrow> None
         | Some bs \<Rightarrow>
             if check_category mc_strings s
             then Some (coverage_init (of_nat (length bs))) else None),
      ia_lint = s\<rparr>"

definition check_debug_info_structural ::
  "nat \<Rightarrow> read_ctx \<Rightarrow> abbrev_table list \<Rightarrow> 8 word list option \<Rightarrow> lint_state
     \<Rightarrow> (cu list \<times> abbrev_table list \<times> read_ctx \<times> lint_state) outcome" where
  "check_debug_info_structural fuel ctx abbrev_chain strings' s =
     (case check_debug_info_loop fuel strings' ctx (info_acc_init abbrev_chain strings' s) of
        No_fuel \<Rightarrow> No_fuel
      | Abort \<Rightarrow> Abort
      | Ret (success, ctx', acc) \<Rightarrow>
          (case check_global_die_references (ia_cu_chain acc)
                  (if success \<and> ptr ctx' \<noteq> end' ctx'
                   then message (mc_die_other OR mc_impact_4)
                          ''.debug_info: CU lengths don't exactly match Elf_Data contents.'' []
                          (ia_lint acc)
                   else ia_lint acc) of
             (references_sound, s1) \<Rightarrow>
               Ret (if \<not> success \<or> \<not> references_sound then [] else ia_cu_chain acc,
                    ia_abbrev_chain acc, ctx',
                    (case (ia_strings_coverage acc, strings') of
                       (Some cov, Some bs) \<Rightarrow>
                         if success then report_string_holes bs (coverage_find_holes cov) s1
                         else s1
                     | _ \<Rightarrow> s1))))"

section \<open>The checks of .debug_aranges and .debug_pubnames (lines 2116-2413)\<close>

abbreviation PRI_D_ARANGES :: string where "PRI_D_ARANGES \<equiv> ''.debug_aranges: ''"
abbreviation PRI_D_PUBNAMES :: string where "PRI_D_PUBNAMES \<equiv> ''.debug_pubnames: ''"
abbreviation PRI_ARANGETAB :: string where "PRI_ARANGETAB \<equiv> ''arange table 0x%lx''"
abbreviation PRI_ARANGETAB_CU :: string where
  "PRI_ARANGETAB_CU \<equiv> ''arange table 0x%lx (for CU 0x%lx)''"
abbreviation PRI_ARANGETAB_CU_RECORD :: string where
  "PRI_ARANGETAB_CU_RECORD \<equiv> ''arange table 0x%lx (for CU 0x%lx), record 0x%lx''"
abbreviation PRI_PUBNAMESET :: string where "PRI_PUBNAMESET \<equiv> ''pubname set 0x%lx''"
abbreviation PRI_PUBNAMESET_CU :: string where
  "PRI_PUBNAMESET_CU \<equiv> ''pubname set 0x%lx (for CU 0x%lx)''"
abbreviation PRI_PUBNAMESET_CU_RECORD :: string where
  "PRI_PUBNAMESET_CU_RECORD \<equiv> ''pubname set 0x%lx (for CU 0x%lx), record 0x%lx''"

text \<open>\<open>cu_find_cu\<close> (lines 1348-1355): the first CU of the chain with the offset.\<close>

fun cu_find_cu :: "cu list \<Rightarrow> 64 word \<Rightarrow> cu option" where
  "cu_find_cu [] offset' = None"
| "cu_find_cu (it # rest) offset' =
     (if cu_offset it = offset' then Some it else cu_find_cu rest offset')"

lemma read_var_moved_on:
  "read_ctx_read_var ctx width = (Some v, ctx') \<Longrightarrow> moved_on ctx ctx'"
  by (auto simp: read_ctx_read_var_def read_ctx_read_offset_def
      split: if_splits prod.splits option.splits
      dest: read_4ubyte_moved_on read_8ubyte_moved_on read_2ubyte_moved_on read_ubyte_moved_on)

text \<open>
  The padding before the first tuple (lines 2216-2233): the number of rounds of the
  loop \<open>for (i = off; i < noff; ++i)\<close>, then the loop, which reads \<open>n\<close> bytes; \<open>None\<close>
  where the section ends first.
\<close>

definition aranges_padding_size :: "8 word \<Rightarrow> 64 word \<Rightarrow> nat" where
  "aranges_padding_size tuple_size off =
     (if off mod ucast tuple_size \<noteq> 0
      then (let noff = (off div ucast tuple_size + 1) * ucast tuple_size
            in if off < noff then unat (noff - off) else 0)
      else 0)"

fun read_aranges_padding ::
  "nat \<Rightarrow> read_ctx \<Rightarrow> 64 word \<Rightarrow> 64 word \<Rightarrow> lint_state \<Rightarrow> (read_ctx \<times> lint_state) option"
  where
  "read_aranges_padding 0 sub_ctx atab_off cu_off s = Some (sub_ctx, s)"
| "read_aranges_padding (Suc n) sub_ctx atab_off cu_off s =
     (case read_ctx_read_ubyte sub_ctx of
        (None, sub_ctx') \<Rightarrow> None
      | (Some c, sub_ctx') \<Rightarrow>
          read_aranges_padding n sub_ctx' atab_off cu_off
            (if c \<noteq> 0
             then message (mc_impact_2 OR mc_aranges)
                    (PRI_D_ARANGES @ PRI_ARANGETAB_CU
                       @ '': non-zero byte at 0x%lx in padding before the first entry.\<newline>'')
                    [atab_off, cu_off, read_ctx_get_offset sub_ctx'] s
             else s))"

text \<open>
  The loop over the tuples (lines 2237-2262).  The result is \<open>False\<close> where the code
  jumps to \<open>next\<close> with \<open>retval = false\<close>.
\<close>

function read_aranges_tuples ::
  "read_ctx \<Rightarrow> int \<Rightarrow> 64 word \<Rightarrow> 64 word \<Rightarrow> lint_state \<Rightarrow> bool \<times> read_ctx \<times> lint_state"
  where
  "read_aranges_tuples sub_ctx address_size atab_off cu_off s =
     (if read_ctx_eof sub_ctx then (True, sub_ctx, s)
      else
        (case read_ctx_read_var sub_ctx address_size of
           (None, ctx1) \<Rightarrow>
             (False, ctx1,
              wr_error (PRI_D_ARANGES @ PRI_ARANGETAB_CU_RECORD
                          @ '': can't read address field.\<newline>'')
                [atab_off, cu_off, read_ctx_get_offset sub_ctx] s)
         | (Some address, ctx1) \<Rightarrow>
             (case read_ctx_read_var ctx1 address_size of
                (None, ctx2) \<Rightarrow>
                  (False, ctx2,
                   wr_error (PRI_D_ARANGES @ PRI_ARANGETAB_CU_RECORD
                               @ '': can't read length field.\<newline>'')
                     [atab_off, cu_off, read_ctx_get_offset sub_ctx] s)
              | (Some length', ctx2) \<Rightarrow>
                  (if address = 0 \<and> length' = 0 then (True, ctx2, s)
                   else read_aranges_tuples ctx2 address_size atab_off cu_off s))))"
  by pat_completeness auto
termination
  by (relation "measure (\<lambda>(sub_ctx, address_size, atab_off, cu_off, s). remaining sub_ctx)")
    (auto dest!: read_var_moved_on[OF sym] intro: moved_on_remaining2)

declare read_aranges_tuples.simps [simp del]

text \<open>
  One table after its length has been read (lines 2140-2273): \<open>None\<close> is a failed
  assertion, otherwise whether \<open>retval\<close> stays as it is (\<open>False\<close>: it becomes \<open>false\<close>).
  \<open>cu_chain = []\<close> is the \<open>NULL\<close> chain, for which the CU reference is not resolved.
\<close>

definition check_aranges_table ::
  "read_ctx \<Rightarrow> bool \<Rightarrow> 64 word \<Rightarrow> 64 word \<Rightarrow> cu list \<Rightarrow> lint_state
     \<Rightarrow> (bool \<times> lint_state) option" where
  "check_aranges_table sub_ctx dwarf_64' atab_off size' cu_chain s =
     (case read_version sub_ctx dwarf_64' (PRI_D_ARANGES @ PRI_ARANGETAB) [atab_off] s of
        (False, version, ctx1, s1) \<Rightarrow> Some (False, s1)
      | (True, version, ctx1, s1) \<Rightarrow>
          (case read_ctx_read_offset ctx1 dwarf_64' of
             (None, ctx2) \<Rightarrow>
               Some (False,
                     wr_error (PRI_D_ARANGES @ PRI_ARANGETAB
                                 @ '': can't read debug info offset.\<newline>'') [atab_off] s1)
           | (Some cu_off, ctx2) \<Rightarrow>
               (case read_ctx_read_ubyte ctx2 of
                  (None, ctx3) \<Rightarrow>
                    Some (False,
                          wr_error (PRI_D_ARANGES @ PRI_ARANGETAB_CU
                                      @ '': can't read unit address size.\<newline>'')
                            [atab_off, cu_off]
                            (if cu_chain \<noteq> [] \<and> cu_find_cu cu_chain cu_off = None
                             then wr_error (PRI_D_ARANGES @ PRI_ARANGETAB
                                      @ '': unresolved reference to CU 0x%lx.\<newline>'')
                                    [atab_off, cu_off] s1
                             else s1))
                | (Some address_size, ctx3) \<Rightarrow>
                    (let s2 = (if cu_chain \<noteq> [] \<and> cu_find_cu cu_chain cu_off = None
                               then wr_error (PRI_D_ARANGES @ PRI_ARANGETAB
                                        @ '': unresolved reference to CU 0x%lx.\<newline>'')
                                      [atab_off, cu_off] s1
                               else s1)
                     in if address_size \<noteq> 2 \<and> address_size \<noteq> 4 \<and> address_size \<noteq> 8
                        then Some (False,
                               wr_error (PRI_D_ARANGES @ PRI_ARANGETAB_CU
                                           @ '': invalid address size: %d.\<newline>'')
                                 [atab_off, cu_off, ucast address_size] s2)
                        else
                          (case read_ctx_read_ubyte ctx3 of
                             (None, ctx4) \<Rightarrow>
                               Some (False,
                                 wr_error (PRI_D_ARANGES @ PRI_ARANGETAB_CU
                                             @ '': can't read unit segment size.\<newline>'')
                                   [atab_off, cu_off] s2)
                           | (Some segment_size, ctx4) \<Rightarrow>
                               (if segment_size \<noteq> 0
                                then Some (False,
                                  wr_warning (PRI_D_ARANGES @ PRI_ARANGETAB_CU
                                      @ '': dwarflint can't handle segment_size != 0.\<newline>'')
                                    [atab_off, cu_off] s2)
                                else
                                  (case read_aranges_padding
                                          (aranges_padding_size (2 * address_size)
                                             (read_ctx_get_offset ctx4))
                                          ctx4 atab_off cu_off s2 of
                                     None \<Rightarrow>
                                       Some (False,
                                         wr_error (PRI_D_ARANGES @ PRI_ARANGETAB_CU @
                                             '': section ends after the header, but before the first entry.\<newline>'')
                                           [atab_off, cu_off] s2)
                                   | Some (ctx5, s5) \<Rightarrow>
                                       (if read_ctx_get_offset ctx5
                                             mod ucast (2 * address_size) \<noteq> 0
                                        then None
                                        else
                                          (case read_aranges_tuples ctx5 (uint address_size)
                                                  atab_off cu_off s5 of
                                             (False, ctx6, s6) \<Rightarrow> Some (False, s6)
                                           | (True, ctx6, s6) \<Rightarrow>
                                               (if ptr ctx6 \<noteq> end' ctx6 then
                                                  (case check_zero_padding ctx6 mc_pubnames
                                                          (PRI_D_ARANGES @ PRI_ARANGETAB_CU)
                                                          [atab_off, cu_off] s6 of
                                                     None \<Rightarrow> None
                                                   | Some (True, ctx7, s7) \<Rightarrow> Some (True, s7)
                                                   | Some (False, ctx7, s7) \<Rightarrow>
                                                       Some (False,
                                                         message_padding_n0
                                                           (mc_pubnames OR mc_error)
                                                           (read_ctx_get_offset ctx7) size'
                                                           (PRI_D_ARANGES @ PRI_ARANGETAB_CU)
                                                           [atab_off, cu_off] s7))
                                                else Some (True, s6)))))))))))"

text \<open>
  \<open>check_aranges_structural\<close> (lines 2116-2280).  The loop ends each round with
  \<open>ctx->ptr += size\<close> for a \<open>size\<close> read from the section and not compared with what is
  left of it, so its rounds are bounded by fuel.  \<open>dwarf_64\<close> is declared without a value
  and set only by a 64-bit length; it starts as \<open>False\<close>.
\<close>

definition check_aranges_round ::
  "(read_ctx \<Rightarrow> cu list \<Rightarrow> bool \<Rightarrow> lint_state \<Rightarrow> (bool \<times> read_ctx \<times> lint_state) outcome)
     \<Rightarrow> read_ctx \<Rightarrow> cu list \<Rightarrow> bool \<Rightarrow> lint_state
     \<Rightarrow> (bool \<times> read_ctx \<times> lint_state) outcome" where
  "check_aranges_round rec ctx cu_chain retval s =
     (if read_ctx_eof ctx then Ret (retval, ctx, s)
      else
        (case read_ctx_read_4ubyte ctx of
           (None, ctx1) \<Rightarrow>
             Ret (False, ctx1,
                  wr_error (PRI_D_ARANGES @ PRI_ARANGETAB @ '': can't read unit length.\<newline>'')
                    [read_ctx_get_offset ctx] s)
         | (Some size32, ctx1) \<Rightarrow>
             (case read_size_extra ctx1 size32 False (PRI_D_ARANGES @ PRI_ARANGETAB)
                     [read_ctx_get_offset ctx] s of
                (None, ctx2, s2) \<Rightarrow> Ret (False, ctx2, s2)
              | (Some (size', dwarf_64'), ctx2, s2) \<Rightarrow>
                  (case check_aranges_table
                          (ctx2\<lparr>begin' := ptr ctx, end' := ptr ctx2 + size'\<rparr>) dwarf_64'
                          (read_ctx_get_offset ctx) size' cu_chain s2 of
                     None \<Rightarrow> Abort
                   | Some (ok, s3) \<Rightarrow>
                       rec (ctx2\<lparr>ptr := ptr ctx2 + size'\<rparr>) cu_chain (retval \<and> ok) s3))))"

primrec check_aranges_loop ::
  "nat \<Rightarrow> read_ctx \<Rightarrow> cu list \<Rightarrow> bool \<Rightarrow> lint_state
     \<Rightarrow> (bool \<times> read_ctx \<times> lint_state) outcome" where
  "check_aranges_loop 0 = (\<lambda>ctx cu_chain retval s. No_fuel)"
| "check_aranges_loop (Suc n) = check_aranges_round (check_aranges_loop n)"

definition check_aranges_structural ::
  "nat \<Rightarrow> read_ctx \<Rightarrow> cu list \<Rightarrow> lint_state \<Rightarrow> (bool \<times> read_ctx \<times> lint_state) outcome"
  where
  "check_aranges_structural fuel ctx cu_chain s = check_aranges_loop fuel ctx cu_chain True s"

text \<open>The \<open>do \<dots> while (c)\<close> over a symbol name (lines 2384-2394).\<close>

function read_symbol_name :: "read_ctx \<Rightarrow> bool \<times> read_ctx" where
  "read_symbol_name ctx =
     (case read_ctx_read_ubyte ctx of
        (None, ctx') \<Rightarrow> (False, ctx')
      | (Some c, ctx') \<Rightarrow> (if c \<noteq> 0 then read_symbol_name ctx' else (True, ctx')))"
  by pat_completeness auto
termination
  by (relation "measure remaining") (auto dest!: read_ubyte_moved_on_sym intro: moved_on_remaining)

declare read_symbol_name.simps [simp del]

lemma read_symbol_name_moved:
  "read_symbol_name ctx = (ok, ctx') \<Longrightarrow> ctx' = ctx \<or> moved_on ctx ctx'"
proof (induction ctx rule: read_symbol_name.induct)
  case (1 ctx)
  obtain r c1 where rd: "read_ctx_read_ubyte ctx = (r, c1)" by (cases "read_ctx_read_ubyte ctx")
  show ?case
  proof (cases r)
    case None
    with rd "1.prems" show ?thesis
      by (auto simp: read_symbol_name.simps[of ctx] read_ubyte_cases split: if_splits)
  next
    case (Some c)
    with rd have m: "moved_on ctx c1" by (auto dest: read_ubyte_moved_on)
    show ?thesis
    proof (cases "c = 0")
      case True
      with rd Some "1.prems" m show ?thesis by (auto simp: read_symbol_name.simps[of ctx])
    next
      case False
      with rd Some "1.prems" have "read_symbol_name c1 = (ok, ctx')"
        by (simp add: read_symbol_name.simps[of ctx])
      from "1.IH"[OF rd[symmetric] Some False this] m show ?thesis
        by (auto intro: moved_on_trans)
    qed
  qed
qed

text \<open>
  The loop over the (offset, name) pairs of one set (lines 2360-2395), for the CU \<open>cu\<close>
  the set refers to.
\<close>

function read_pubnames_pairs ::
  "read_ctx \<Rightarrow> bool \<Rightarrow> cu \<Rightarrow> 64 word \<Rightarrow> 64 word \<Rightarrow> lint_state
     \<Rightarrow> bool \<times> read_ctx \<times> lint_state" where
  "read_pubnames_pairs sub_ctx dwarf_64' cu' set_off cu_off s =
     (if read_ctx_eof sub_ctx then (True, sub_ctx, s)
      else
        (case read_ctx_read_offset sub_ctx dwarf_64' of
           (None, ctx1) \<Rightarrow>
             (False, ctx1,
              wr_error (PRI_D_PUBNAMES @ PRI_PUBNAMESET_CU_RECORD
                          @ '': can't read offset field.\<newline>'')
                [set_off, cu_off, read_ctx_get_offset sub_ctx] s)
         | (Some offset', ctx1) \<Rightarrow>
             (if offset' = 0 then (True, ctx1, s)
              else if \<not> addr_record_has_addr (die_addrs cu') (offset' + cu_offset cu')
              then (False, ctx1,
                    wr_error (PRI_D_PUBNAMES @ PRI_PUBNAMESET_CU_RECORD
                                @ '': unresolved reference to DIE 0x%lx.\<newline>'')
                      [set_off, cu_off, read_ctx_get_offset sub_ctx, offset'] s)
              else
                (case read_symbol_name ctx1 of
                   (False, ctx2) \<Rightarrow>
                     (False, ctx2,
                      wr_error (PRI_D_PUBNAMES @ PRI_PUBNAMESET_CU_RECORD
                                  @ '': can't read symbol name.\<newline>'')
                        [set_off, cu_off, read_ctx_get_offset sub_ctx] s)
                 | (True, ctx2) \<Rightarrow>
                     read_pubnames_pairs ctx2 dwarf_64' cu' set_off cu_off s))))"
  by pat_completeness auto
termination
proof (relation "measure (\<lambda>(sub_ctx, dwarf_64', cu', set_off, cu_off, s). remaining sub_ctx)",
    goal_cases)
  case 1
  show ?case by simp
next
  case (2 sub_ctx dwarf_64' cu' set_off cu_off s x y x2 xa ya)
  then have a: "read_ctx_read_offset sub_ctx dwarf_64' = (Some x2, y)" by simp
  then have "moved_on sub_ctx y"
    by (auto simp: read_ctx_read_offset_def split: if_splits prod.splits option.splits
        dest: read_4ubyte_moved_on read_8ubyte_moved_on)
  moreover have "ya = y \<or> moved_on y ya"
    using 2(6) by (auto dest: read_symbol_name_moved[OF sym])
  ultimately have "moved_on sub_ctx ya" by (auto intro: moved_on_trans)
  then show ?case by (simp add: moved_on_remaining)
qed

declare read_pubnames_pairs.simps [simp del]

text \<open>
  One set after its length has been read (lines 2307-2406).  \<open>None\<close> is the end of the
  process: a failed assertion, or the dereference of \<open>cu\<close> where \<open>cu_find_cu\<close> returned
  \<open>NULL\<close> (line 2345).
\<close>

definition check_pubnames_set ::
  "read_ctx \<Rightarrow> bool \<Rightarrow> 64 word \<Rightarrow> 64 word \<Rightarrow> cu list \<Rightarrow> lint_state
     \<Rightarrow> (bool \<times> lint_state) option" where
  "check_pubnames_set sub_ctx dwarf_64' set_off size' cu_chain s =
     (case read_ctx_read_2ubyte sub_ctx of
        (None, ctx1) \<Rightarrow>
          Some (False,
                wr_error (PRI_D_PUBNAMES @ PRI_PUBNAMESET @ '': can't read set version.\<newline>'')
                  [set_off] s)
      | (Some version, ctx1) \<Rightarrow>
          (case read_ctx_read_offset ctx1 dwarf_64' of
             (None, ctx2) \<Rightarrow>
               Some (False,
                     wr_error (PRI_D_PUBNAMES @ PRI_PUBNAMESET
                                 @ '': can't read debug info offset.\<newline>'') [set_off] s)
           | (Some cu_off, ctx2) \<Rightarrow>
               (let s2 = (if cu_chain \<noteq> [] \<and> cu_find_cu cu_chain cu_off = None
                          then wr_error (PRI_D_PUBNAMES @ PRI_PUBNAMESET
                                   @ '': unresolved reference to CU 0x%lx.\<newline>'')
                                 [set_off, cu_off] s
                          else s)
                in case read_ctx_read_offset ctx2 dwarf_64' of
                     (None, ctx3) \<Rightarrow>
                       Some (False,
                             wr_error (PRI_D_PUBNAMES @ PRI_PUBNAMESET_CU
                                         @ '': can't read debug info offset.\<newline>'')
                               [set_off, cu_off] s2)
                   | (Some cu_len, ctx3) \<Rightarrow>
                       (case cu_find_cu cu_chain cu_off of
                          None \<Rightarrow> None
                        | Some cu' \<Rightarrow>
                            (if cu_len \<noteq> cu_length cu'
                             then Some (False,
                                    wr_error (PRI_D_PUBNAMES @ PRI_PUBNAMESET_CU @
                                        '': the set covers length %ld but CU has length %ld.\<newline>'')
                                      [set_off, cu_off, cu_len, cu_length cu'] s2)
                             else
                               (case read_pubnames_pairs ctx3 dwarf_64' cu' set_off cu_off s2 of
                                  (False, ctx4, s4) \<Rightarrow> Some (False, s4)
                                | (True, ctx4, s4) \<Rightarrow>
                                    (if ptr ctx4 \<noteq> end' ctx4 then
                                       (case check_zero_padding ctx4 mc_pubnames
                                               (PRI_D_PUBNAMES @ PRI_PUBNAMESET) [set_off] s4 of
                                          None \<Rightarrow> None
                                        | Some (True, ctx5, s5) \<Rightarrow> Some (True, s5)
                                        | Some (False, ctx5, s5) \<Rightarrow>
                                            Some (False,
                                              message_padding_n0 (mc_pubnames OR mc_error)
                                                (read_ctx_get_offset ctx5) size'
                                                (PRI_D_PUBNAMES @ PRI_PUBNAMESET) [set_off] s5))
                                     else Some (True, s4))))))))"

text \<open>
  \<open>check_pubnames_structural\<close> (lines 2282-2413): \<open>assert (cu_chain)\<close> first, then the
  loop, whose rounds are bounded by fuel as those of the aranges check are.
\<close>

definition check_pubnames_round ::
  "(read_ctx \<Rightarrow> cu list \<Rightarrow> bool \<Rightarrow> lint_state \<Rightarrow> (bool \<times> read_ctx \<times> lint_state) outcome)
     \<Rightarrow> read_ctx \<Rightarrow> cu list \<Rightarrow> bool \<Rightarrow> lint_state
     \<Rightarrow> (bool \<times> read_ctx \<times> lint_state) outcome" where
  "check_pubnames_round rec ctx cu_chain retval s =
     (if read_ctx_eof ctx then Ret (retval, ctx, s)
      else
        (case read_ctx_read_4ubyte ctx of
           (None, ctx1) \<Rightarrow>
             Ret (False, ctx1,
                  wr_error (PRI_D_PUBNAMES @ PRI_PUBNAMESET @ '': can't read set length.\<newline>'')
                    [read_ctx_get_offset ctx] s)
         | (Some size32, ctx1) \<Rightarrow>
             (case read_size_extra ctx1 size32 False (PRI_D_PUBNAMES @ PRI_PUBNAMESET)
                     [read_ctx_get_offset ctx] s of
                (None, ctx2, s2) \<Rightarrow> Ret (False, ctx2, s2)
              | (Some (size', dwarf_64'), ctx2, s2) \<Rightarrow>
                  (case check_pubnames_set
                          (ctx2\<lparr>begin' := ptr ctx, end' := ptr ctx2 + size'\<rparr>) dwarf_64'
                          (read_ctx_get_offset ctx) size' cu_chain s2 of
                     None \<Rightarrow> Abort
                   | Some (ok, s3) \<Rightarrow>
                       rec (ctx2\<lparr>ptr := ptr ctx2 + size'\<rparr>) cu_chain (retval \<and> ok) s3))))"

primrec check_pubnames_loop ::
  "nat \<Rightarrow> read_ctx \<Rightarrow> cu list \<Rightarrow> bool \<Rightarrow> lint_state
     \<Rightarrow> (bool \<times> read_ctx \<times> lint_state) outcome" where
  "check_pubnames_loop 0 = (\<lambda>ctx cu_chain retval s. No_fuel)"
| "check_pubnames_loop (Suc n) = check_pubnames_round (check_pubnames_loop n)"

definition check_pubnames_structural ::
  "nat \<Rightarrow> read_ctx \<Rightarrow> cu list \<Rightarrow> lint_state \<Rightarrow> (bool \<times> read_ctx \<times> lint_state) outcome"
  where
  "check_pubnames_structural fuel ctx cu_chain s =
     (if cu_chain = [] then Abort else check_pubnames_loop fuel ctx cu_chain True s)"

section \<open>The driver (lines 620-684)\<close>

text \<open>
  What \<open>process_file\<close> reads of the \<open>Dwarf\<close> descriptor: the memory the sections lie in,
  the byte order flag and the five entries of \<open>sectiondata\<close> (\<open>None\<close> for \<open>NULL\<close>).
\<close>

record Dwarf =
  dw_mem :: "64 word \<Rightarrow> 8 word"
  dw_other_byte_order :: bool
  debug_abbrev :: "Elf_Data option"
  debug_info :: "Elf_Data option"
  debug_aranges :: "Elf_Data option"
  debug_pubnames :: "Elf_Data option"
  debug_str :: "Elf_Data option"

definition section_bytes :: "Dwarf \<Rightarrow> Elf_Data \<Rightarrow> 8 word list" where
  "section_bytes dwarf data =
     map (\<lambda>i. dw_mem dwarf (d_buf data + of_nat i)) [0..<unat (d_size data)]"

definition dwarf_ctx :: "Dwarf \<Rightarrow> Elf_Data \<Rightarrow> read_ctx" where
  "dwarf_ctx dwarf data = read_ctx_init (dw_mem dwarf) (dw_other_byte_order dwarf) data"

text \<open>
  \<open>process_file\<close>, in five steps: the name of the file (lines 626-627), the
  abbreviations (lines 638-646), \<open>.debug_info\<close> (lines 648-662), \<open>.debug_aranges\<close>
  (lines 664-671) and \<open>.debug_pubnames\<close> (lines 673-680).  The result of the whole is
  the state, or the end of the process.
\<close>

definition process_abbrev :: "Dwarf \<Rightarrow> lint_state \<Rightarrow> abbrev_table list \<times> lint_state" where
  "process_abbrev dwarf s =
     (case debug_abbrev dwarf of
        Some abbrev_data \<Rightarrow>
          (case abbrev_table_load (dwarf_ctx dwarf abbrev_data) s of
             (abbrev_chain, ctx', s') \<Rightarrow> (abbrev_chain, s'))
      | None \<Rightarrow>
          ([], if \<not> tolerate_nodebug s then wr_error ''.debug_abbrev data not found.'' [] s
               else s))"

definition process_info ::
  "nat \<Rightarrow> Dwarf \<Rightarrow> abbrev_table list \<Rightarrow> lint_state \<Rightarrow> (cu list \<times> lint_state) outcome" where
  "process_info fuel dwarf abbrev_chain s =
     (if abbrev_chain \<noteq> [] then
        (case (debug_info dwarf, debug_str dwarf) of
           (Some info_data, Some str_data) \<Rightarrow>
             (case check_debug_info_structural fuel (dwarf_ctx dwarf info_data) abbrev_chain
                     (Some (section_bytes dwarf str_data)) s of
                No_fuel \<Rightarrow> No_fuel
              | Abort \<Rightarrow> Abort
              | Ret (cu_chain, abbrev_chain', ctx', s') \<Rightarrow> Ret (cu_chain, s'))
         | _ \<Rightarrow>
             Ret ([], if \<not> tolerate_nodebug s
                      then wr_error ''.debug_info or .debug_str data not found.'' [] s
                      else s))
      else Ret ([], s))"

definition process_aranges :: "nat \<Rightarrow> Dwarf \<Rightarrow> cu list \<Rightarrow> lint_state \<Rightarrow> lint_state outcome"
  where
  "process_aranges fuel dwarf cu_chain s =
     (case debug_aranges dwarf of
        Some aranges_data \<Rightarrow>
          (case check_aranges_structural fuel (dwarf_ctx dwarf aranges_data) cu_chain s of
             No_fuel \<Rightarrow> No_fuel
           | Abort \<Rightarrow> Abort
           | Ret (retval, ctx', s') \<Rightarrow> Ret s')
      | None \<Rightarrow>
          Ret (message (mc_impact_4 OR mc_acc_suboptimal OR mc_elf)
                 ''.debug_aranges data not found.'' [] s))"

definition process_pubnames :: "nat \<Rightarrow> Dwarf \<Rightarrow> cu list \<Rightarrow> lint_state \<Rightarrow> lint_state outcome"
  where
  "process_pubnames fuel dwarf cu_chain s =
     (case debug_pubnames dwarf of
        Some pubnames_data \<Rightarrow>
          (case check_pubnames_structural fuel (dwarf_ctx dwarf pubnames_data) cu_chain s of
             No_fuel \<Rightarrow> No_fuel
           | Abort \<Rightarrow> Abort
           | Ret (retval, ctx', s') \<Rightarrow> Ret s')
      | None \<Rightarrow>
          Ret (message (mc_impact_4 OR mc_acc_suboptimal OR mc_elf)
                 ''.debug_pubnames data not found.'' [] s))"

definition print_fname :: "string \<Rightarrow> bool \<Rightarrow> lint_state \<Rightarrow> lint_state" where
  "print_fname fname only_one s =
     (if \<not> only_one
      then s\<lparr>stdout := stdout s @ [(Sev_none, ''\<newline>'' @ fname @ '':\<newline>'', [])]\<rparr>
      else s)"

definition process_file :: "nat \<Rightarrow> Dwarf \<Rightarrow> string \<Rightarrow> bool \<Rightarrow> lint_state \<Rightarrow> lint_state outcome"
  where
  "process_file fuel dwarf fname only_one s =
     (case process_abbrev dwarf (print_fname fname only_one s) of
        (abbrev_chain, s1) \<Rightarrow>
          (case process_info fuel dwarf abbrev_chain s1 of
             No_fuel \<Rightarrow> No_fuel
           | Abort \<Rightarrow> Abort
           | Ret (cu_chain, s2) \<Rightarrow>
               (case process_aranges fuel dwarf cu_chain s2 of
                  No_fuel \<Rightarrow> No_fuel
                | Abort \<Rightarrow> Abort
                | Ret s3 \<Rightarrow> process_pubnames fuel dwarf cu_chain s3)))"

subsection \<open>A failed \<open>.debug_info\<close> check and the checks after it\<close>



text \<open>
  A file whose \<open>.debug_info\<close> is the single byte 1: the CU length cannot be read.  The
  abbreviations are one table with one abbreviation, \<open>.debug_str\<close> is one zero byte,
  \<open>.debug_aranges\<close> is the single byte 1, and there is no \<open>.debug_pubnames\<close>.
\<close>

definition short_info :: Dwarf where
  "short_info =
     \<lparr>dw_mem = mem_of 0x1000 [0x01, 0x11, 0x00, 0x00, 0x00, 0x01, 0x00, 0x01],
      dw_other_byte_order = False,
      debug_abbrev = Some \<lparr>d_buf = 0x1000, d_size = 5\<rparr>,
      debug_info = Some \<lparr>d_buf = 0x1005, d_size = 1\<rparr>,
      debug_aranges = Some \<lparr>d_buf = 0x1007, d_size = 1\<rparr>,
      debug_pubnames = None,
      debug_str = Some \<lparr>d_buf = 0x1006, d_size = 1\<rparr>\<rparr>"

text \<open>The same file with a \<open>.debug_pubnames\<close> of one byte.\<close>

definition short_info_pubnames :: Dwarf where
  "short_info_pubnames = short_info\<lparr>debug_pubnames := Some \<lparr>d_buf = 0x1007, d_size = 1\<rparr>\<rparr>"




text \<open>
  With a \<open>.debug_pubnames\<close> section the process ends in the assertion of
  \<open>check_pubnames_structural\<close>.
\<close>

lemma short_info_pubnames_aborts:
  "process_file 3 short_info_pubnames ''a.out'' True initial_state = Abort"
  by code_simp




end
